theory Spec2Isabelle
  imports Main "HOL-Library.Signed_Division"
begin

section \<open>Data model\<close>

text \<open>
  The Go structs of the service become records; Go's \<open>int\<close> is taken at 64 bits.

  The service writes through two kinds of pointer, \<open>*Video\<close> and \<open>*VideoResults\<close>: it
  overwrites fields of a \<open>Video\<close> it has been handed and replaces the \<open>Items\<close> of a
  \<open>VideoResults\<close>, and those objects are shared with the caches. Both kinds of object
  therefore live in a heap (see \<open>world\<close> below) and a pointer to one is an address, a
  natural number; a pointer that may be nil is an \<open>option\<close> of an address.

  Every other pointer of the data model is an \<open>option\<close> of the value it points to, \<open>None\<close>
  being nil: the \<open>Snippet\<close> and \<open>Statistics\<close> blocks of a \<open>Video\<close> are built by the JSON
  decoder together with the \<open>Video\<close> and are reached through it alone (the service copies
  no \<open>Video\<close> struct and no block pointer), and a \<open>ChannelInfo\<close> or \<open>Item\<close> is never
  written after it has been decoded. A dereference of nil is a panic in the functions
  below.
\<close>

type_synonym Video_ptr = nat
type_synonym VideoResults_ptr = nat

record Thumbnail =
  Url :: string
  Width :: int
  Height :: int

record Thumbnails =
  Default :: "Thumbnail option"
  Medium :: "Thumbnail option"
  High :: "Thumbnail option"

record VideoSnippet =
  ChannelId :: string
  ChannelTitle :: string
  PublishedAt :: string
  Title :: string
  Description :: string
  Thumbnails :: Thumbnails
  Tags :: "string list"
  FormattedTags :: string

record VideoStatistics =
  ViewCount :: string
  LikeCount :: string
  DislikeCount :: string
  FavoriteCount :: string
  CommentCount :: string

record Video =
  Video_Id :: string
  Video_Snippet :: "VideoSnippet option"
  Video_Statistics :: "VideoStatistics option"

text \<open>\<open>VideoResults\<close>: \<open>Items\<close> is a slice of pointers, \<open>[]*Video\<close>.\<close>

record VideoResults =
  Items :: "Video_ptr option list"
  NextPageToken :: string

text \<open>What a body of the lookup endpoint decodes to: the videos by value (\<open>None\<close> for a
  JSON \<open>null\<close> in the array) and the continuation token. \<open>json.Unmarshal\<close> turns it into
  fresh objects.\<close>

record VideoResults_json =
  json_Items :: "Video option list"
  json_NextPageToken :: string

text \<open>\<open>TagSearchResults\<close>: one page of the keyword search. The \<open>Id\<close> of an item is a pointer
  to a struct whose only field is \<open>VideoId\<close>.\<close>

record TagSearchSnippet =
  ts_PublishedAt :: string
  ts_Title :: string
  ts_Description :: string
  ts_ChannelTitle :: string
  ts_ChannelId :: string
  ts_Thumbnails :: Thumbnails

record TagSearchItem =
  ts_Id_VideoId :: "string option"
  ts_Snippet :: "TagSearchSnippet option"

record TagSearchResults =
  ts_Items :: "TagSearchItem list"
  ts_NextPageToken :: string

text \<open>\<open>ChannelPlaylistVideoResults\<close>: one page of a playlist listing.\<close>

record PlaylistSnippet =
  pl_PublishedAt :: string
  pl_Title :: string
  pl_Description :: string
  pl_Thumbnails :: Thumbnails
  pl_ChannelTitle :: string

record PlaylistContentDetails =
  pl_VideoId :: string
  pl_VideoPublishedAt :: string

record PlaylistItem =
  pl_Id :: string
  pl_Snippet :: "PlaylistSnippet option"
  pl_ContentDetails :: "PlaylistContentDetails option"

record ChannelPlaylistVideoResults =
  pl_Items :: "PlaylistItem list"
  pl_PageInfo_TotalResults :: "int option"
  pl_NextPageToken :: string

text \<open>\<open>Item\<close> and \<open>ChannelInfo\<close>: a channel record.\<close>

record ItemLocalized =
  loc_Title :: string
  loc_Description :: string

record ItemSnippet =
  it_PublishedAt :: string
  it_Title :: string
  it_Description :: string
  it_CustomUrl :: string
  it_ChannelTitle :: string
  it_Thumbnails :: Thumbnails
  it_Localized :: "ItemLocalized option"
  it_Country :: string

record RelatedPlaylists =
  Likes :: string
  Uploads :: string

record ContentDetails =
  RelatedPlaylists :: "RelatedPlaylists option"

record ItemStatistics =
  it_ViewCount :: string
  it_SubscriberCount :: string
  it_HiddenSubscriberCount :: bool
  it_VideoCount :: string

record Item =
  Item_Id :: string
  Item_Snippet :: "ItemSnippet option"
  Item_ContentDetails :: "ContentDetails option"
  Item_Statistics :: "ItemStatistics option"

record ChannelInfo =
  ci_Items :: "Item option list"
  ci_NextPageToken :: string

section \<open>The in-memory cache (memory\_cache.go)\<close>

text \<open>
  \<open>MemoryCache\<close> holds four Go maps from keys to pointers and embeds one \<open>sync.Mutex\<close>.
  A Go map is a partial function; its values are pointers, so a stored value is an
  \<open>option\<close> again (a stored nil is \<open>Some None\<close>). Three of the maps store \<open>*VideoResults\<close>,
  that is, addresses: the cache holds the pointer it was given and not a copy of the
  object. The mutex is the flag \<open>Mutex\<close>: \<open>True\<close> while it is held. \<open>Lock\<close> on a held mutex
  does not return; in this sequential model that is the value \<open>None\<close>.
\<close>

record MemoryCache =
  videoCache :: "string \<rightharpoonup> VideoResults_ptr option"
  channelCache :: "string \<rightharpoonup> ChannelInfo option"
  playlistCache :: "string \<rightharpoonup> VideoResults_ptr option"
  videoDetailsCache :: "string \<rightharpoonup> VideoResults_ptr option"
  Mutex :: bool

definition NewMemoryCache :: MemoryCache where
  "NewMemoryCache =
     \<lparr>videoCache = Map.empty, channelCache = Map.empty, playlistCache = Map.empty,
      videoDetailsCache = Map.empty, Mutex = False\<rparr>"

definition Lock :: "MemoryCache \<Rightarrow> MemoryCache option" where
  "Lock c = (if Mutex c then None else Some (c\<lparr>Mutex := True\<rparr>))"

definition Unlock :: "MemoryCache \<Rightarrow> MemoryCache" where
  "Unlock c = c\<lparr>Mutex := False\<rparr>"

text \<open>Reading a Go map at a missing key gives the zero value of the value type: nil.\<close>

definition map_index :: "('k \<rightharpoonup> 'v option) \<Rightarrow> 'k \<Rightarrow> 'v option" where
  "map_index m key = (case m key of None \<Rightarrow> None | Some p \<Rightarrow> p)"

definition GetVideo ::
  "MemoryCache \<Rightarrow> string \<Rightarrow> (VideoResults_ptr option \<times> MemoryCache) option" where
  "GetVideo c key =
     (case Lock c of None \<Rightarrow> None
      | Some c1 \<Rightarrow> Some (map_index (videoCache c1) key, Unlock c1))"

definition SetVideo ::
  "MemoryCache \<Rightarrow> string \<Rightarrow> VideoResults_ptr option \<Rightarrow> MemoryCache option" where
  "SetVideo c key video =
     (case Lock c of None \<Rightarrow> None
      | Some c1 \<Rightarrow> Some (Unlock (c1\<lparr>videoCache := (videoCache c1)(key \<mapsto> video)\<rparr>)))"

definition GetChannel :: "MemoryCache \<Rightarrow> string \<Rightarrow> (ChannelInfo option \<times> MemoryCache) option" where
  "GetChannel c key =
     (case Lock c of None \<Rightarrow> None
      | Some c1 \<Rightarrow> Some (map_index (channelCache c1) key, Unlock c1))"

definition SetChannel :: "MemoryCache \<Rightarrow> string \<Rightarrow> ChannelInfo option \<Rightarrow> MemoryCache option" where
  "SetChannel c key channel =
     (case Lock c of None \<Rightarrow> None
      | Some c1 \<Rightarrow> Some (Unlock (c1\<lparr>channelCache := (channelCache c1)(key \<mapsto> channel)\<rparr>)))"

definition GetPlaylist ::
  "MemoryCache \<Rightarrow> string \<Rightarrow> (VideoResults_ptr option \<times> MemoryCache) option" where
  "GetPlaylist c key =
     (case Lock c of None \<Rightarrow> None
      | Some c1 \<Rightarrow> Some (map_index (playlistCache c1) key, Unlock c1))"

definition SetPlaylist ::
  "MemoryCache \<Rightarrow> string \<Rightarrow> VideoResults_ptr option \<Rightarrow> MemoryCache option" where
  "SetPlaylist c key playlist =
     (case Lock c of None \<Rightarrow> None
      | Some c1 \<Rightarrow> Some (Unlock (c1\<lparr>playlistCache := (playlistCache c1)(key \<mapsto> playlist)\<rparr>)))"

definition GetVideoDetail ::
  "MemoryCache \<Rightarrow> string \<Rightarrow> (VideoResults_ptr option \<times> MemoryCache) option" where
  "GetVideoDetail c key =
     (case Lock c of None \<Rightarrow> None
      | Some c1 \<Rightarrow> Some (map_index (videoDetailsCache c1) key, Unlock c1))"

definition SetVideoDetail ::
  "MemoryCache \<Rightarrow> string \<Rightarrow> VideoResults_ptr option \<Rightarrow> MemoryCache option" where
  "SetVideoDetail c key detail =
     (case Lock c of None \<Rightarrow> None
      | Some c1 \<Rightarrow>
          Some (Unlock (c1\<lparr>videoDetailsCache := (videoDetailsCache c1)(key \<mapsto> detail)\<rparr>)))"

definition GetServiceName :: "MemoryCache \<Rightarrow> string" where
  "GetServiceName c = ''memory-cache''"

section \<open>Go library functions used by the service\<close>

text \<open>
  \<open>strings.Join\<close>, \<open>strings.Split\<close>, \<open>strings.Replace\<close>, \<open>strconv.Atoi\<close> and
  \<open>strconv.Itoa\<close> belong to Go's standard library; they are modelled on their documented
  behaviour. \<open>fmt.Sprintf\<close> is only used with the verbs \<open>%s\<close> and \<open>%v\<close> on strings, where
  it concatenates.
\<close>

fun Join :: "string list \<Rightarrow> string \<Rightarrow> string" where
  "Join [] sep = ''''"
| "Join [x] sep = x"
| "Join (x # y # ys) sep = x @ sep @ Join (y # ys) sep"

text \<open>\<open>strings.Split(s, ",")\<close>: the substrings between the commas, one more than there
  are commas.\<close>

fun Split_comma :: "string \<Rightarrow> string list" where
  "Split_comma [] = [[]]"
| "Split_comma (c # cs) =
     (if c = CHR '','' then [] # Split_comma cs
      else (case Split_comma cs of [] \<Rightarrow> [[c]] | x # xs \<Rightarrow> (c # x) # xs))"

text \<open>\<open>strings.Replace(input, " ", "%20%", -1)\<close>.\<close>

definition Replace_spaces :: "string \<Rightarrow> string" where
  "Replace_spaces input = concat (map (\<lambda>c. if c = CHR '' '' then ''%20%'' else [c]) input)"

datatype NumErr = ErrSyntax | ErrRange

datatype error =
    Upstream string
  | Errorf string error
  | ErrorsNew string
  | NumError string string NumErr

text \<open>
  \<open>Upstream\<close> is an error value handed back by the HTTP transport or the JSON decoder,
  \<open>Errorf msg e\<close> is \<open>fmt.Errorf\<close> wrapping \<open>e\<close> behind the message \<open>msg\<close>, \<open>ErrorsNew\<close> is
  \<open>errors.New\<close>, and \<open>NumError fn num err\<close> is \<open>*strconv.NumError\<close>.
\<close>

definition digit_val :: "char \<Rightarrow> nat option" where
  "digit_val c =
     (let n = (of_char c :: nat) in if 48 \<le> n \<and> n \<le> 57 then Some (n - 48) else None)"

fun ParseUint_digits :: "nat \<Rightarrow> string \<Rightarrow> NumErr + nat" where
  "ParseUint_digits n [] = Inr n"
| "ParseUint_digits n (c # cs) =
     (case digit_val c of
        None \<Rightarrow> Inl ErrSyntax
      | Some d \<Rightarrow>
          if n * 10 + d > 2 ^ 64 - 1 then Inl ErrRange else ParseUint_digits (n * 10 + d) cs)"

definition Atoi :: "string \<Rightarrow> error + int" where
  "Atoi s =
     (case s of
        [] \<Rightarrow> Inl (NumError ''Atoi'' s ErrSyntax)
      | c # cs \<Rightarrow>
          (let neg = (c = CHR ''-'');
               ds = (if c = CHR ''+'' \<or> c = CHR ''-'' then cs else s)
           in if ds = [] then Inl (NumError ''Atoi'' s ErrSyntax)
              else (case ParseUint_digits 0 ds of
                      Inl e \<Rightarrow> Inl (NumError ''Atoi'' s e)
                    | Inr un \<Rightarrow>
                        if \<not> neg \<and> un \<ge> 2 ^ 63 then Inl (NumError ''Atoi'' s ErrRange)
                        else if neg \<and> un > 2 ^ 63 then Inl (NumError ''Atoi'' s ErrRange)
                        else Inr (if neg then - int un else int un))))"

fun digits_of :: "nat \<Rightarrow> string" where
  "digits_of n =
     (if n < 10 then [''0123456789'' ! n]
      else digits_of (n div 10) @ [''0123456789'' ! (n mod 10)])"

definition Itoa :: "int \<Rightarrow> string" where
  "Itoa i = (if i < 0 then CHR ''-'' # digits_of (nat (- i)) else digits_of (nat i))"

section \<open>The upstream API and the state of the process\<close>

text \<open>
  The HTTP transport and the JSON decoder are external. \<open>http_Get env n url\<close> is what
  the \<open>n\<close>-th GET of the process (counted from 0) answers for \<open>url\<close>: an error of
  \<open>http.Get\<close>, an error of \<open>io.ReadAll\<close>, or a body. The four \<open>Unmarshal\<close> fields are
  \<open>json.Unmarshal\<close> into the four response shapes.
\<close>

datatype http_reply = GetFailed error | ReadFailed error | Body string

record env =
  http_Get :: "nat \<Rightarrow> string \<Rightarrow> http_reply"
  Unmarshal_TagSearchResults :: "string \<Rightarrow> error + TagSearchResults"
  Unmarshal_VideoResults :: "string \<Rightarrow> error + VideoResults_json"
  Unmarshal_ChannelInfo :: "string \<Rightarrow> error + ChannelInfo"
  Unmarshal_ChannelPlaylistVideoResults :: "string \<Rightarrow> error + ChannelPlaylistVideoResults"

text \<open>
  A \<open>YoutubeApi\<close> holds its key and a reference to its cache. The caches live in a
  store, so that two service objects can share one; \<open>InstanceDefault\<close> is the cache that
  \<open>GetInstance()\<close> creates when it builds the process-wide instance. \<open>Instance\<close> is the
  singleton (\<open>None\<close> until \<open>sync.Once\<close> has run), \<open>calls\<close> counts the GETs made so far.

  \<open>heap_Video\<close> and \<open>heap_VideoResults\<close> hold the \<open>Video\<close> and \<open>VideoResults\<close> objects by
  address; \<open>count_Video\<close> and \<open>count_VideoResults\<close> are the numbers of objects allocated so
  far, and the next object is allocated at that address.
\<close>

datatype cache_ref = Ref nat | InstanceDefault

record YoutubeApi =
  apiKey :: string
  Cache :: cache_ref

record world =
  store :: "cache_ref \<Rightarrow> MemoryCache"
  Instance :: "YoutubeApi option"
  calls :: nat
  heap_Video :: "Video_ptr \<Rightarrow> Video"
  count_Video :: nat
  heap_VideoResults :: "VideoResults_ptr \<Rightarrow> VideoResults"
  count_VideoResults :: nat

text \<open>
  The outcome of running a function: it returns a value and leaves a state, or it
  panics, or it does not return (it waits for a held mutex, or the recursion through
  \<open>GetInstance\<close> is deeper than the fuel given).
\<close>

datatype 'a exec = NoReturn | Panic | Ret 'a world

definition bind :: "'a exec \<Rightarrow> ('a \<Rightarrow> world \<Rightarrow> 'b exec) \<Rightarrow> 'b exec" where
  "bind m f = (case m of NoReturn \<Rightarrow> NoReturn | Panic \<Rightarrow> Panic | Ret a w \<Rightarrow> f a w)"

text \<open>Allocation: \<open>new_Video\<close> and \<open>new_VideoResults\<close> place an object at a fresh address
  and return the address; \<open>new_Videos\<close> does so for the elements of a decoded array, from
  left to right, a \<open>null\<close> element becoming a nil pointer.\<close>

definition new_Video :: "Video \<Rightarrow> world \<Rightarrow> Video_ptr \<times> world" where
  "new_Video v w =
     (count_Video w,
      w\<lparr>heap_Video := (heap_Video w)(count_Video w := v), count_Video := Suc (count_Video w)\<rparr>)"

fun new_Videos :: "Video option list \<Rightarrow> world \<Rightarrow> Video_ptr option list \<times> world" where
  "new_Videos [] w = ([], w)"
| "new_Videos (None # rest) w =
     (case new_Videos rest w of (ps, w') \<Rightarrow> (None # ps, w'))"
| "new_Videos (Some v # rest) w =
     (case new_Video v w of
        (p, w1) \<Rightarrow> (case new_Videos rest w1 of (ps, w2) \<Rightarrow> (Some p # ps, w2)))"

definition new_VideoResults :: "VideoResults \<Rightarrow> world \<Rightarrow> VideoResults_ptr \<times> world" where
  "new_VideoResults r w =
     (count_VideoResults w,
      w\<lparr>heap_VideoResults := (heap_VideoResults w)(count_VideoResults w := r),
        count_VideoResults := Suc (count_VideoResults w)\<rparr>)"

definition cache_get ::
  "(MemoryCache \<Rightarrow> string \<Rightarrow> ('v \<times> MemoryCache) option) \<Rightarrow> YoutubeApi \<Rightarrow> string \<Rightarrow> world \<Rightarrow> 'v exec"
  where
  "cache_get getter yt key w =
     (case getter (store w (Cache yt)) key of
        None \<Rightarrow> NoReturn
      | Some (v, c') \<Rightarrow> Ret v (w\<lparr>store := (store w)(Cache yt := c')\<rparr>))"

definition cache_set ::
  "(MemoryCache \<Rightarrow> string \<Rightarrow> 'v \<Rightarrow> MemoryCache option) \<Rightarrow> YoutubeApi \<Rightarrow> string \<Rightarrow> 'v \<Rightarrow> world
   \<Rightarrow> unit exec"
  where
  "cache_set setter yt key v w =
     (case setter (store w (Cache yt)) key v of
        None \<Rightarrow> NoReturn
      | Some c' \<Rightarrow> Ret () (w\<lparr>store := (store w)(Cache yt := c')\<rparr>))"

definition http_request :: "env \<Rightarrow> string \<Rightarrow> world \<Rightarrow> http_reply \<times> world" where
  "http_request env url w = (http_Get env (calls w) url, w\<lparr>calls := Suc (calls w)\<rparr>)"

definition SearchVideoIds_url :: "string \<Rightarrow> string \<Rightarrow> string \<Rightarrow> string" where
  "SearchVideoIds_url q key page =
     ''https://www.googleapis.com/youtube/v3/search?part=snippet&maxResults=100&q='' @ q @
     ''&type=video&order=date&relevanceLanguage=en&key='' @ key @ page"

definition GetTags_url :: "string \<Rightarrow> string \<Rightarrow> string \<Rightarrow> string" where
  "GetTags_url key ids page =
     ''https://www.googleapis.com/youtube/v3/videos?key='' @ key @
     ''&fields=items(snippet(title,publishedAt,description,tags),id,statistics)&part=snippet,statistics&id=''
     @ ids @ ''&order=date'' @ page"

definition GetChannelVideos_url :: "string \<Rightarrow> string \<Rightarrow> string" where
  "GetChannelVideos_url channelId key =
     ''https://www.googleapis.com/youtube/v3/channels/?part=snippet,contentDetails,statistics&id=''
     @ channelId @ ''&maxResults=50&key='' @ key"

definition GetChannelPlaylist_url :: "string \<Rightarrow> string \<Rightarrow> string \<Rightarrow> string" where
  "GetChannelPlaylist_url playlistId key page =
     ''https://www.googleapis.com/youtube/v3/playlistItems?part=snippet,contentDetails&maxResults=50&playlistId=''
     @ playlistId @ ''&key='' @ key @ page"

definition pageToken :: "nat \<Rightarrow> string \<Rightarrow> string" where
  "pageToken i nextPage = (if i > 0 then ''&pageToken='' @ nextPage else '''')"

section \<open>The Batcher\<close>

function batchIteration_loop :: "string list \<Rightarrow> nat \<Rightarrow> string list \<Rightarrow> string list" where
  "batchIteration_loop input i results =
     (if i < length input then
        (let hi = (if i + 50 > length input then length input else i + 50)
         in batchIteration_loop input (i + 50)
              (results @ [Join (take (hi - i) (drop i input)) '','']))
      else results)"
  by pat_completeness auto
termination
  by (relation "measure (\<lambda>(input, i, results). length input - i)") auto

definition batchIteration :: "string list \<Rightarrow> string list" where
  "batchIteration input = batchIteration_loop input 0 []"

section \<open>GetVideos\<close>

text \<open>
  The functions that reach \<open>GetInstance()\<close> take it as the parameter \<open>gi\<close>; the knot is
  tied in the section on \<open>GetInstance\<close>. A Go result pair \<open>(value, error)\<close> is a pair of
  options.
\<close>

definition httpGetRequest :: "env \<Rightarrow> string \<Rightarrow> world \<Rightarrow> (error + string) \<times> world" where
  "httpGetRequest env apiUrl w =
     (case http_request env apiUrl w of
        (GetFailed e, w') \<Rightarrow> (Inl (Errorf ''failed HTTP request, error: '' e), w')
      | (ReadFailed e, w') \<Rightarrow> (Inl (Errorf ''failed reading body, error: '' e), w')
      | (Body body, w') \<Rightarrow> (Inr body, w'))"

text \<open>
  \<open>unmarshalResponse\<close> decodes a body into a fresh \<open>VideoResults\<close>, whose items are fresh
  \<open>Video\<close> objects. The \<open>VideoResults\<close> itself is only read by \<open>GetVideos\<close> (its token and
  its slice of item pointers) and then dropped, so it is returned by value; the \<open>Video\<close>
  objects are allocated, since their addresses go into \<open>finalProduct.Items\<close>. When the
  decoder fails nothing it has built is reachable.
\<close>

definition unmarshalResponse :: "env \<Rightarrow> string \<Rightarrow> world \<Rightarrow> (error + VideoResults) \<times> world" where
  "unmarshalResponse env body w =
     (case Unmarshal_VideoResults env body of
        Inl e \<Rightarrow> (Inl (Errorf ''Failed to unmarshal response body: '' e), w)
      | Inr doc \<Rightarrow>
          (case new_Videos (json_Items doc) w of
             (ps, w') \<Rightarrow> (Inr \<lparr>Items = ps, NextPageToken = json_NextPageToken doc\<rparr>, w')))"

text \<open>The inner loop of \<open>GetVideos\<close> for one batch \<open>fSearch\<close>: \<open>k\<close> iterations are left,
  \<open>i\<close> is the loop counter, \<open>items\<close> is \<open>finalProduct.Items\<close>.\<close>

fun GetVideos_pages ::
  "(world \<Rightarrow> YoutubeApi exec) \<Rightarrow> env \<Rightarrow> string \<Rightarrow> nat \<Rightarrow> nat \<Rightarrow> string \<Rightarrow> Video_ptr option list
   \<Rightarrow> world \<Rightarrow> (Video_ptr option list \<times> error option) exec"
  where
  "GetVideos_pages gi env fSearch 0 i nextPage items w = Ret (items, None) w"
| "GetVideos_pages gi env fSearch (Suc k) i nextPage items w =
     bind (gi w) (\<lambda>inst w1.
       (case httpGetRequest env (GetTags_url (apiKey inst) fSearch (pageToken i nextPage)) w1 of
          (Inl err, w2) \<Rightarrow> Ret (items, Some err) w2
        | (Inr body, w2) \<Rightarrow>
            (case unmarshalResponse env body w2 of
               (Inl err, w3) \<Rightarrow> Ret (items, Some err) w3
             | (Inr res, w3) \<Rightarrow>
                 if NextPageToken res = '''' then Ret (items, None) w3
                 else GetVideos_pages gi env fSearch k (Suc i) (NextPageToken res)
                        (items @ Items res) w3)))"

fun GetVideos_batches ::
  "(world \<Rightarrow> YoutubeApi exec) \<Rightarrow> env \<Rightarrow> nat \<Rightarrow> string list \<Rightarrow> Video_ptr option list \<Rightarrow> world
   \<Rightarrow> (Video_ptr option list \<times> error option) exec"
  where
  "GetVideos_batches gi env cap [] items w = Ret (items, None) w"
| "GetVideos_batches gi env cap (fSearch # rest) items w =
     bind (GetVideos_pages gi env fSearch cap 0 '''' items w) (\<lambda>(items', err) w1.
       (case err of
          Some e \<Rightarrow> Ret (items', Some e) w1
        | None \<Rightarrow> GetVideos_batches gi env cap rest items' w1))"

text \<open>
  The bound of the inner loop is \<open>int(math.Ceil(float64(len(input))/float64(10)))\<close>, where
  \<open>input\<close> is the list of batches. For every length below \<open>2^53\<close> the float quotient lies
  strictly between the neighbouring integers unless it is one, so the bound is the integer
  ceiling.

  \<open>finalProduct\<close> is a local \<open>VideoResults\<close> whose address is taken where the function
  returns and where it writes the cache. Until then nothing else can reach it, so the
  loops carry its \<open>Items\<close> as a value, and the object is placed in the heap where
  \<open>&finalProduct\<close> is evaluated; the cache and the caller receive that one address.
\<close>

definition GetVideos_body ::
  "(world \<Rightarrow> YoutubeApi exec) \<Rightarrow> env \<Rightarrow> YoutubeApi \<Rightarrow> string list \<Rightarrow> world
   \<Rightarrow> (VideoResults_ptr option \<times> error option) exec"
  where
  "GetVideos_body gi env yt videoIds w =
     (let videoIdsKey = Join videoIds '','' in
      bind (cache_get GetVideoDetail yt videoIdsKey w) (\<lambda>v w1.
        (case v of
           Some r \<Rightarrow> Ret (Some r, None) w1
         | None \<Rightarrow>
             (let input = batchIteration videoIds in
              bind (GetVideos_batches gi env ((length input + 9) div 10) input [] w1)
                (\<lambda>(items, err) w2.
                  (case new_VideoResults \<lparr>Items = items, NextPageToken = ''''\<rparr> w2 of
                     (finalProduct, w3) \<Rightarrow>
                       (case err of
                          Some e \<Rightarrow> Ret (Some finalProduct, Some e) w3
                        | None \<Rightarrow>
                            bind (cache_set SetVideoDetail yt videoIdsKey (Some finalProduct) w3)
                              (\<lambda>_ w4. Ret (Some finalProduct, None) w4))))))))"

section \<open>FindTags and SearchAndRetrieveTags\<close>

definition MinViews :: int where
  "MinViews = 1000"

record VidSnippetInfo =
  vsi_ChannelTitle :: string
  vsi_ChannelId :: string
  vsi_Thumbnails :: Thumbnails

text \<open>The loop over the items of one search page; \<open>None\<close> is the panic of dereferencing a
  nil \<open>Id\<close> or \<open>Snippet\<close>.\<close>

fun FindTags_collect ::
  "TagSearchItem list \<Rightarrow> string list \<Rightarrow> (string \<rightharpoonup> VidSnippetInfo)
   \<Rightarrow> (string list \<times> (string \<rightharpoonup> VidSnippetInfo)) option"
  where
  "FindTags_collect [] videos vidIds = Some (videos, vidIds)"
| "FindTags_collect (vid # rest) videos vidIds =
     (case ts_Id_VideoId vid of
        None \<Rightarrow> None
      | Some videoId \<Rightarrow>
          (case ts_Snippet vid of
             None \<Rightarrow> None
           | Some sn \<Rightarrow>
               FindTags_collect rest (videos @ [videoId])
                 (vidIds(videoId \<mapsto>
                    \<lparr>vsi_ChannelTitle = ts_ChannelTitle sn, vsi_ChannelId = ts_ChannelId sn,
                     vsi_Thumbnails = ts_Thumbnails sn\<rparr>))))"

fun FindTags_pages ::
  "env \<Rightarrow> YoutubeApi \<Rightarrow> string \<Rightarrow> nat \<Rightarrow> nat \<Rightarrow> string \<Rightarrow> string list \<Rightarrow> (string \<rightharpoonup> VidSnippetInfo)
   \<Rightarrow> world \<Rightarrow> (error + string list \<times> (string \<rightharpoonup> VidSnippetInfo)) exec"
  where
  "FindTags_pages env yt fSearch 0 i nextPage videos vidIds w = Ret (Inr (videos, vidIds)) w"
| "FindTags_pages env yt fSearch (Suc k) i nextPage videos vidIds w =
     (case http_request env (SearchVideoIds_url fSearch (apiKey yt) (pageToken i nextPage)) w of
        (GetFailed err, w1) \<Rightarrow> Ret (Inl err) w1
      | (ReadFailed err, w1) \<Rightarrow> Ret (Inl err) w1
      | (Body body, w1) \<Rightarrow>
          (case Unmarshal_TagSearchResults env body of
             Inl err \<Rightarrow> Ret (Inl err) w1
           | Inr res \<Rightarrow>
               (case FindTags_collect (ts_Items res) videos vidIds of
                  None \<Rightarrow> Panic
                | Some (videos', vidIds') \<Rightarrow>
                    if ts_NextPageToken res = '''' then Ret (Inr (videos', vidIds')) w1
                    else FindTags_pages env yt fSearch k (Suc i) (ts_NextPageToken res)
                           videos' vidIds' w1)))"

text \<open>
  The filter loop of \<open>FindTags\<close>, with the merge of the search metadata inside it. Each
  \<open>item\<close> is a pointer: the loop reads the \<open>Video\<close> it points to, and the three assignments
  to \<open>item.Snippet\<close> overwrite that object in the heap, where the cache and every other
  holder of the pointer see them. The loop panics on a nil item, on a nil \<open>Statistics\<close>,
  and on a nil \<open>Snippet\<close> that is to be written; \<open>Inl\<close> is the error of \<open>strconv.Atoi\<close>, with
  which the loop ends at once, leaving what it has written so far.
\<close>

fun FindTags_filter ::
  "(string \<rightharpoonup> VidSnippetInfo) \<Rightarrow> Video_ptr option list \<Rightarrow> Video_ptr option list \<Rightarrow> world
   \<Rightarrow> (error + Video_ptr option list) exec"
  where
  "FindTags_filter vidIds [] filteredItems w = Ret (Inr filteredItems) w"
| "FindTags_filter vidIds (item # rest) filteredItems w =
     (case item of
        None \<Rightarrow> Panic
      | Some p \<Rightarrow>
          (case Video_Statistics (heap_Video w p) of
             None \<Rightarrow> Panic
           | Some st \<Rightarrow>
               if ViewCount st \<noteq> '''' then
                 (case Atoi (ViewCount st) of
                    Inl err \<Rightarrow> Ret (Inl err) w
                  | Inr views \<Rightarrow>
                      if views > MinViews then
                        (case vidIds (Video_Id (heap_Video w p)) of
                           Some snippetInfo \<Rightarrow>
                             (case Video_Snippet (heap_Video w p) of
                                None \<Rightarrow> Panic
                              | Some sn \<Rightarrow>
                                  FindTags_filter vidIds rest (filteredItems @ [item])
                                    (w\<lparr>heap_Video := (heap_Video w)
                                        (p := (heap_Video w p)\<lparr>Video_Snippet := Some (sn
                                           \<lparr>ChannelId := vsi_ChannelId snippetInfo,
                                            ChannelTitle := vsi_ChannelTitle snippetInfo,
                                            Thumbnails := vsi_Thumbnails snippetInfo\<rparr>)\<rparr>)\<rparr>))
                         | None \<Rightarrow> FindTags_filter vidIds rest (filteredItems @ [item]) w)
                      else FindTags_filter vidIds rest filteredItems w)
               else FindTags_filter vidIds rest filteredItems w))"

text \<open>
  The part of \<open>FindTags\<close> after \<open>GetVideos\<close> has returned without error: filter and merge,
  \<open>vidResults.Items = filteredItems\<close>, cache, return. \<open>vidResults\<close> is the pointer that
  \<open>GetVideos\<close> returned (and holds in its own cache partition): the loop runs over the
  \<open>Items\<close> of the object it points to, the assignment replaces the \<open>Items\<close> of that same
  object, and the same pointer goes into the search partition and to the caller.
\<close>

definition FindTags_finish ::
  "YoutubeApi \<Rightarrow> string \<Rightarrow> (string \<rightharpoonup> VidSnippetInfo) \<Rightarrow> VideoResults_ptr option \<Rightarrow> world
   \<Rightarrow> (VideoResults_ptr option \<times> error option) exec"
  where
  "FindTags_finish yt input vidIds vidResults w =
     (case vidResults of
        None \<Rightarrow> Panic
      | Some vr \<Rightarrow>
          bind (FindTags_filter vidIds (Items (heap_VideoResults w vr)) [] w) (\<lambda>r w1.
            (case r of
               Inl err \<Rightarrow> Ret (None, Some err) w1
             | Inr filteredItems \<Rightarrow>
                 bind (cache_set SetVideo yt input (Some vr)
                         (w1\<lparr>heap_VideoResults := (heap_VideoResults w1)
                               (vr := (heap_VideoResults w1 vr)\<lparr>Items := filteredItems\<rparr>)\<rparr>))
                   (\<lambda>_ w2. Ret (Some vr, None) w2))))"

definition FindTags_body ::
  "(world \<Rightarrow> YoutubeApi exec) \<Rightarrow> env \<Rightarrow> YoutubeApi \<Rightarrow> string \<Rightarrow> int \<Rightarrow> world
   \<Rightarrow> (VideoResults_ptr option \<times> error option) exec"
  where
  "FindTags_body gi env yt input numPages w =
     bind (cache_get GetVideo yt input w) (\<lambda>v w1.
       (case v of
          Some r \<Rightarrow> Ret (Some r, None) w1
        | None \<Rightarrow>
            bind (FindTags_pages env yt (Replace_spaces input) (nat numPages) 0 '''' []
                    Map.empty w1)
              (\<lambda>r w2.
                (case r of
                   Inl err \<Rightarrow> Ret (None, Some err) w2
                 | Inr (videos, vidIds) \<Rightarrow>
                     bind (GetVideos_body gi env yt videos w2) (\<lambda>(vidResults, err) w3.
                       (case err of
                          Some e \<Rightarrow> Ret (None, Some e) w3
                        | None \<Rightarrow> FindTags_finish yt input vidIds vidResults w3))))))"

text \<open>\<open>pages\<close> is the variadic parameter: \<open>None\<close> is the nil slice of a call without it.\<close>

definition SearchAndRetrieveTags_body ::
  "(world \<Rightarrow> YoutubeApi exec) \<Rightarrow> env \<Rightarrow> YoutubeApi \<Rightarrow> string \<Rightarrow> int list option \<Rightarrow> world
   \<Rightarrow> (VideoResults_ptr option \<times> error option) exec"
  where
  "SearchAndRetrieveTags_body gi env yt search pages w =
     (case pages of
        None \<Rightarrow> FindTags_body gi env yt search 1 w
      | Some [] \<Rightarrow> Panic
      | Some (p # ps) \<Rightarrow>
          FindTags_body gi env yt search (if p > 1 then (if p \<ge> 5 then 5 else p) else 1) w)"

section \<open>GetChannelInfo\<close>

definition getChannelInfo ::
  "(world \<Rightarrow> YoutubeApi exec) \<Rightarrow> env \<Rightarrow> string \<Rightarrow> world \<Rightarrow> (error + ChannelInfo) exec"
  where
  "getChannelInfo gi env channelId w =
     bind (gi w) (\<lambda>inst w1.
       (case http_request env (GetChannelVideos_url channelId (apiKey inst)) w1 of
          (GetFailed err, w2) \<Rightarrow> Ret (Inl err) w2
        | (ReadFailed err, w2) \<Rightarrow> Ret (Inl err) w2
        | (Body body, w2) \<Rightarrow>
            (case Unmarshal_ChannelInfo env body of
               Inl err \<Rightarrow> Ret (Inl err) w2
             | Inr res \<Rightarrow> Ret (Inr res) w2)))"

definition GetChannelInfo_body ::
  "(world \<Rightarrow> YoutubeApi exec) \<Rightarrow> env \<Rightarrow> YoutubeApi \<Rightarrow> string \<Rightarrow> world
   \<Rightarrow> (ChannelInfo option \<times> error option) exec"
  where
  "GetChannelInfo_body gi env yt channelId w =
     bind (cache_get GetChannel yt channelId w) (\<lambda>v w1.
       (case v of
          Some r \<Rightarrow> Ret (Some r, None) w1
        | None \<Rightarrow>
            bind (getChannelInfo gi env channelId w1) (\<lambda>r w2.
              (case r of
                 Inl err \<Rightarrow> Ret (None, Some (ErrorsNew ''channel info not found'')) w2
               | Inr cInfo \<Rightarrow>
                   if length (ci_Items cInfo) = 0
                   then Ret (None, Some (ErrorsNew ''no item available in cInfo'')) w2
                   else bind (cache_set SetChannel yt channelId (Some cInfo) w2)
                          (\<lambda>_ w3. Ret (Some cInfo, None) w3)))))"

section \<open>GetChannelPlaylist\<close>

text \<open>Go's \<open>/\<close> and \<open>%\<close> on \<open>int\<close> truncate towards zero: \<open>sdiv\<close> and \<open>smod\<close>.\<close>

definition calculateNumPages :: "int \<Rightarrow> int" where
  "calculateNumPages numItems =
     (let numPages = numItems sdiv 50
      in if numItems smod 50 > 0 then numPages + 1 else numPages)"

definition generatePageUrl ::
  "(world \<Rightarrow> YoutubeApi exec) \<Rightarrow> string \<Rightarrow> string \<Rightarrow> nat \<Rightarrow> world \<Rightarrow> string exec"
  where
  "generatePageUrl gi playlistId nextPage pageNum w =
     bind (gi w) (\<lambda>inst w1.
       Ret (GetChannelPlaylist_url playlistId (apiKey inst) (pageToken pageNum nextPage)) w1)"

definition fetchVideoResultsFromAPI ::
  "env \<Rightarrow> string \<Rightarrow> world \<Rightarrow> (error + ChannelPlaylistVideoResults) \<times> world"
  where
  "fetchVideoResultsFromAPI env url w =
     (case http_request env url w of
        (GetFailed err, w1) \<Rightarrow> (Inl err, w1)
      | (ReadFailed err, w1) \<Rightarrow> (Inl err, w1)
      | (Body body, w1) \<Rightarrow>
          (case Unmarshal_ChannelPlaylistVideoResults env body of
             Inl err \<Rightarrow> (Inl err, w1)
           | Inr res \<Rightarrow> (Inr res, w1)))"

text \<open>The loop over the items of one playlist page; \<open>None\<close> is the panic of dereferencing a
  nil \<open>ContentDetails\<close> or \<open>Snippet\<close>.\<close>

fun fetchPlaylistVideos_collect ::
  "PlaylistItem list \<Rightarrow> string list \<Rightarrow> (string \<rightharpoonup> Thumbnails)
   \<Rightarrow> (string list \<times> (string \<rightharpoonup> Thumbnails)) option"
  where
  "fetchPlaylistVideos_collect [] videos thumbnails = Some (videos, thumbnails)"
| "fetchPlaylistVideos_collect (vid # rest) videos thumbnails =
     (case pl_ContentDetails vid of
        None \<Rightarrow> None
      | Some cd \<Rightarrow>
          (case pl_Snippet vid of
             None \<Rightarrow> None
           | Some sn \<Rightarrow>
               fetchPlaylistVideos_collect rest (videos @ [pl_VideoId cd])
                 (thumbnails(pl_VideoId cd \<mapsto> pl_Thumbnails sn))))"

fun fetchPlaylistVideos_loop ::
  "(world \<Rightarrow> YoutubeApi exec) \<Rightarrow> env \<Rightarrow> string \<Rightarrow> nat \<Rightarrow> nat \<Rightarrow> string \<Rightarrow> string list
   \<Rightarrow> (string \<rightharpoonup> Thumbnails) \<Rightarrow> world \<Rightarrow> (error + string list \<times> (string \<rightharpoonup> Thumbnails)) exec"
  where
  "fetchPlaylistVideos_loop gi env playlistId 0 i nextPage videos thumbnails w =
     Ret (Inr (videos, thumbnails)) w"
| "fetchPlaylistVideos_loop gi env playlistId (Suc k) i nextPage videos thumbnails w =
     bind (generatePageUrl gi playlistId nextPage i w) (\<lambda>pageUrl w1.
       (case fetchVideoResultsFromAPI env pageUrl w1 of
          (Inl err, w2) \<Rightarrow> Ret (Inl err) w2
        | (Inr res, w2) \<Rightarrow>
            (case fetchPlaylistVideos_collect (pl_Items res) videos thumbnails of
               None \<Rightarrow> Panic
             | Some (videos', thumbnails') \<Rightarrow>
                 if pl_NextPageToken res = '''' then Ret (Inr (videos', thumbnails')) w2
                 else fetchPlaylistVideos_loop gi env playlistId k (Suc i)
                        (pl_NextPageToken res) videos' thumbnails' w2)))"

definition fetchPlaylistVideos ::
  "(world \<Rightarrow> YoutubeApi exec) \<Rightarrow> env \<Rightarrow> string \<Rightarrow> int \<Rightarrow> world
   \<Rightarrow> (error + string list \<times> (string \<rightharpoonup> Thumbnails)) exec"
  where
  "fetchPlaylistVideos gi env playlistId numPages w =
     fetchPlaylistVideos_loop gi env playlistId (nat numPages) 0 '''' [] Map.empty w"

text \<open>
  \<open>processVideoItems\<close> runs over the item pointers of \<open>videos\<close> and assigns
  \<open>item.Snippet.Thumbnails\<close> in place, that is, in the heap object the pointer names; it
  returns the pointer \<open>videos\<close> it was given. It panics on a nil \<open>videos\<close>, on a nil item and
  on a nil \<open>Snippet\<close> that is to be written.
\<close>

fun processVideoItems_loop ::
  "Video_ptr option list \<Rightarrow> (string \<rightharpoonup> Thumbnails) \<Rightarrow> world \<Rightarrow> unit exec"
  where
  "processVideoItems_loop [] thumbnails w = Ret () w"
| "processVideoItems_loop (item # rest) thumbnails w =
     (case item of
        None \<Rightarrow> Panic
      | Some p \<Rightarrow>
          (case thumbnails (Video_Id (heap_Video w p)) of
             Some thumbs \<Rightarrow>
               (case Video_Snippet (heap_Video w p) of
                  None \<Rightarrow> Panic
                | Some sn \<Rightarrow>
                    processVideoItems_loop rest thumbnails
                      (w\<lparr>heap_Video := (heap_Video w)
                          (p := (heap_Video w p)
                             \<lparr>Video_Snippet := Some (sn\<lparr>Thumbnails := thumbs\<rparr>)\<rparr>)\<rparr>))
           | None \<Rightarrow> processVideoItems_loop rest thumbnails w))"

definition processVideoItems ::
  "VideoResults_ptr option \<Rightarrow> (string \<rightharpoonup> Thumbnails) \<Rightarrow> world \<Rightarrow> VideoResults_ptr option exec"
  where
  "processVideoItems videos thumbnails w =
     (case videos of
        None \<Rightarrow> Panic
      | Some vr \<Rightarrow>
          bind (processVideoItems_loop (Items (heap_VideoResults w vr)) thumbnails w)
            (\<lambda>_ w1. Ret (Some vr) w1))"

definition getChannelPlaylist_body ::
  "(world \<Rightarrow> YoutubeApi exec) \<Rightarrow> env \<Rightarrow> YoutubeApi \<Rightarrow> string \<Rightarrow> int \<Rightarrow> world
   \<Rightarrow> (VideoResults_ptr option \<times> error option) exec"
  where
  "getChannelPlaylist_body gi env yt playlistId numItems w =
     bind (fetchPlaylistVideos gi env playlistId (calculateNumPages numItems) w) (\<lambda>r w1.
       (case r of
          Inl err \<Rightarrow> Ret (None, Some err) w1
        | Inr (videos, thumbnails) \<Rightarrow>
            bind (GetVideos_body gi env yt videos w1) (\<lambda>(getVideos, err) w2.
              (case err of
                 Some e \<Rightarrow> Ret (None, Some e) w2
               | None \<Rightarrow>
                   bind (processVideoItems getVideos thumbnails w2)
                     (\<lambda>res w3. Ret (res, None) w3)))))"

text \<open>The cache key of \<open>GetChannelPlaylist\<close>, as line 143 of the source computes it.\<close>

definition cacheKey :: "Item \<Rightarrow> int \<Rightarrow> string" where
  "cacheKey item vidCount = Item_Id item @ ''-'' @ Itoa vidCount"

definition GetChannelPlaylist_body ::
  "(world \<Rightarrow> YoutubeApi exec) \<Rightarrow> env \<Rightarrow> YoutubeApi \<Rightarrow> Item option \<Rightarrow> int \<Rightarrow> world
   \<Rightarrow> (VideoResults_ptr option \<times> error option) exec"
  where
  "GetChannelPlaylist_body gi env yt item_ptr vidCount w =
     (case item_ptr of
        None \<Rightarrow> Panic
      | Some item \<Rightarrow>
          bind (cache_get GetPlaylist yt (cacheKey item vidCount) w) (\<lambda>v w1.
            (case v of
               Some r \<Rightarrow> Ret (Some r, None) w1
             | None \<Rightarrow>
                 (case (case Item_ContentDetails item of
                          None \<Rightarrow> None
                        | Some cd \<Rightarrow> RelatedPlaylists cd) of
                    Some rp \<Rightarrow>
                      bind (getChannelPlaylist_body gi env yt (Uploads rp) vidCount w1)
                        (\<lambda>(results, err) w2.
                          (case err of
                             Some e \<Rightarrow> Ret (None, Some (ErrorsNew ''internal server error'')) w2
                           | None \<Rightarrow>
                               (case results of
                                  None \<Rightarrow> Ret (None, Some (ErrorsNew ''no results found'')) w2
                                | Some res \<Rightarrow>
                                    bind (cache_set SetPlaylist yt (cacheKey item vidCount)
                                            (Some res) w2)
                                      (\<lambda>_ w3. Ret (Some res, None) w3))))
                  | None \<Rightarrow>
                      bind (cache_set SetPlaylist yt (cacheKey item vidCount) None w1)
                        (\<lambda>_ w2.
                          Ret (None,
                               Some (ErrorsNew ''contentDetails or RelatedPlaylists are nil''))
                            w2)))))"

section \<open>GetInstance and the public operations\<close>

text \<open>
  \<open>GetInstance()\<close>, as the service calls it (without parameters): \<open>sync.Once\<close> builds the
  instance with the empty key and a fresh \<open>MemoryCache\<close> if there is none yet; then
  \<open>SearchAndRetrieveTags("alai")\<close> runs on the instance, its result and error are only
  logged, and the instance is returned. \<open>NewMemoryCache()\<close> is evaluated on every call, but
  the cache is unreachable unless \<open>sync.Once\<close> installs it.

  That search can reach \<open>GetInstance()\<close> again (through \<open>GetVideos\<close>), so the recursion
  need not end. \<open>GetInstance n\<close> follows it to depth \<open>n\<close>.
\<close>

definition GetInstance_step ::
  "(world \<Rightarrow> YoutubeApi exec) \<Rightarrow> env \<Rightarrow> world \<Rightarrow> YoutubeApi exec"
  where
  "GetInstance_step gi env w =
     (let w1 = (case Instance w of
                  Some inst \<Rightarrow> w
                | None \<Rightarrow>
                    w\<lparr>store := (store w)(InstanceDefault := NewMemoryCache),
                      Instance := Some \<lparr>apiKey = '''', Cache = InstanceDefault\<rparr>\<rparr>)
      in case Instance w1 of
           None \<Rightarrow> Panic
         | Some inst \<Rightarrow>
             bind (SearchAndRetrieveTags_body gi env inst ''alai'' None w1)
               (\<lambda>tags w2. Ret inst w2))"

primrec GetInstance :: "nat \<Rightarrow> env \<Rightarrow> world \<Rightarrow> YoutubeApi exec" where
  "GetInstance 0 env w = NoReturn"
| "GetInstance (Suc n) env w = GetInstance_step (GetInstance n env) env w"

definition GetVideos ::
  "nat \<Rightarrow> env \<Rightarrow> YoutubeApi \<Rightarrow> string list \<Rightarrow> world
   \<Rightarrow> (VideoResults_ptr option \<times> error option) exec"
  where
  "GetVideos n env = GetVideos_body (GetInstance n env) env"

definition FindTags ::
  "nat \<Rightarrow> env \<Rightarrow> YoutubeApi \<Rightarrow> string \<Rightarrow> int \<Rightarrow> world
   \<Rightarrow> (VideoResults_ptr option \<times> error option) exec"
  where
  "FindTags n env = FindTags_body (GetInstance n env) env"

definition SearchAndRetrieveTags ::
  "nat \<Rightarrow> env \<Rightarrow> YoutubeApi \<Rightarrow> string \<Rightarrow> int list option \<Rightarrow> world
   \<Rightarrow> (VideoResults_ptr option \<times> error option) exec"
  where
  "SearchAndRetrieveTags n env = SearchAndRetrieveTags_body (GetInstance n env) env"

definition GetChannelInfo ::
  "nat \<Rightarrow> env \<Rightarrow> YoutubeApi \<Rightarrow> string \<Rightarrow> world \<Rightarrow> (ChannelInfo option \<times> error option) exec"
  where
  "GetChannelInfo n env = GetChannelInfo_body (GetInstance n env) env"

definition GetChannelPlaylist ::
  "nat \<Rightarrow> env \<Rightarrow> YoutubeApi \<Rightarrow> Item option \<Rightarrow> int \<Rightarrow> world
   \<Rightarrow> (VideoResults_ptr option \<times> error option) exec"
  where
  "GetChannelPlaylist n env = GetChannelPlaylist_body (GetInstance n env) env"

section \<open>The operations as the specification words them\<close>

text \<open>
  Definitions that follow the words of the specification, not the code; the theorems
  below compare the code with them. They speak of items as values. \<open>spec_Filter\<close> is
  \<open>Filter(items, minViews)\<close>: it keeps the items whose view count, parsed as an integer,
  exceeds \<open>minViews\<close>. \<open>spec_Merge\<close> is \<open>Merge(baseItems, auxiliaryIndex)\<close>: an item whose id
  is a key of the index gets the channel title, channel id and thumbnails of its entry,
  every other item passes through. \<open>spec_cacheKey\<close> is the playlist cache key of the
  specification: the uploads-playlist id, \<open>"-"\<close>, and the count.

  \<open>deref_Video w item\<close> is the value an item pointer names in the state \<open>w\<close> (\<open>None\<close> for the
  nil pointer); with it a list of pointers is read as the list of values of the
  specification.
\<close>

definition deref_Video :: "world \<Rightarrow> Video_ptr option \<Rightarrow> Video option" where
  "deref_Video w item = map_option (heap_Video w) item"

definition parsed_views :: "Video option \<Rightarrow> int option" where
  "parsed_views item =
     (case item of
        None \<Rightarrow> None
      | Some v \<Rightarrow>
          (case Video_Statistics v of
             None \<Rightarrow> None
           | Some st \<Rightarrow> (case Atoi (ViewCount st) of Inl e \<Rightarrow> None | Inr n \<Rightarrow> Some n)))"

definition spec_Filter :: "Video option list \<Rightarrow> int \<Rightarrow> Video option list" where
  "spec_Filter items minViews =
     filter (\<lambda>item. case parsed_views item of None \<Rightarrow> False | Some n \<Rightarrow> n > minViews) items"

definition spec_Merge_item :: "(string \<rightharpoonup> VidSnippetInfo) \<Rightarrow> Video option \<Rightarrow> Video option" where
  "spec_Merge_item auxiliaryIndex item =
     (case item of
        None \<Rightarrow> None
      | Some v \<Rightarrow>
          (case auxiliaryIndex (Video_Id v) of
             None \<Rightarrow> item
           | Some info \<Rightarrow>
               (case Video_Snippet v of
                  None \<Rightarrow> item
                | Some sn \<Rightarrow>
                    Some (v\<lparr>Video_Snippet := Some (sn
                      \<lparr>ChannelId := vsi_ChannelId info, ChannelTitle := vsi_ChannelTitle info,
                       Thumbnails := vsi_Thumbnails info\<rparr>)\<rparr>))))"

definition spec_Merge ::
  "Video option list \<Rightarrow> (string \<rightharpoonup> VidSnippetInfo) \<Rightarrow> Video option list"
  where
  "spec_Merge baseItems auxiliaryIndex = map (spec_Merge_item auxiliaryIndex) baseItems"

definition spec_cacheKey :: "Item \<Rightarrow> int \<Rightarrow> string option" where
  "spec_cacheKey item desiredCount =
     (case Item_ContentDetails item of
        None \<Rightarrow> None
      | Some cd \<Rightarrow>
          (case RelatedPlaylists cd of
             None \<Rightarrow> None
           | Some rp \<Rightarrow> Some (Uploads rp @ ''-'' @ Itoa desiredCount)))"

text \<open>\<open>set_Thumbnails\<close> is the merge of the playlist path on one item value: the
  thumbnails of an item whose id is a key of the thumbnail index are replaced by its
  entry, and nothing else changes. The theorems on \<open>processVideoItems\<close> compare the heap
  with it.\<close>

definition set_Thumbnails :: "(string \<rightharpoonup> Thumbnails) \<Rightarrow> Video \<Rightarrow> Video" where
  "set_Thumbnails thumbnails v =
     (case thumbnails (Video_Id v) of
        None \<Rightarrow> v
      | Some thumbs \<Rightarrow>
          v\<lparr>Video_Snippet := map_option (\<lambda>sn. sn\<lparr>Thumbnails := thumbs\<rparr>) (Video_Snippet v)\<rparr>)"

section \<open>Statements about the returning runs\<close>

text \<open>\<open>returns m P\<close>: whenever the run \<open>m\<close> returns, its value and final state satisfy \<open>P\<close>.\<close>

definition returns :: "'a exec \<Rightarrow> ('a \<Rightarrow> world \<Rightarrow> bool) \<Rightarrow> bool" where
  "returns m P = (case m of NoReturn \<Rightarrow> True | Panic \<Rightarrow> True | Ret a w \<Rightarrow> P a w)"

section \<open>Example data\<close>

text \<open>
  Concrete values for the witnesses and counterexamples below. \<open>ex_world\<close> is a process
  after start-up: the instance exists, its warm-up search for \<open>"alai"\<close> is cached (the
  one \<open>VideoResults\<close> object allocated so far, at address 0, with no items), no GET has
  been counted yet, and \<open>ex_yt\<close> is that instance. \<open>ex_env\<close> answers every GET with a body
  and decodes every body to an empty page; the theorems override the fields they need.
\<close>

definition ex_thumbnails :: "string \<Rightarrow> Thumbnails" where
  "ex_thumbnails url =
     \<lparr>Default = Some \<lparr>Url = url, Width = 120, Height = 90\<rparr>, Medium = None, High = None\<rparr>"

definition ex_snippet :: "string \<Rightarrow> string \<Rightarrow> VideoSnippet" where
  "ex_snippet channel title =
     \<lparr>ChannelId = channel, ChannelTitle = channel, PublishedAt = ''2024-01-01T00:00:00Z'',
      Title = title, Description = '''', Thumbnails = ex_thumbnails ''lookup.jpg'',
      Tags = [], FormattedTags = ''''\<rparr>"

definition ex_video :: "string \<Rightarrow> string \<Rightarrow> Video" where
  "ex_video videoId views =
     \<lparr>Video_Id = videoId, Video_Snippet = Some (ex_snippet ''old'' videoId),
      Video_Statistics =
        Some \<lparr>ViewCount = views, LikeCount = ''0'', DislikeCount = ''0'', FavoriteCount = ''0'',
              CommentCount = ''0''\<rparr>\<rparr>"

text \<open>\<open>ex_merged videoId views\<close> is \<open>ex_video videoId views\<close> after the merge of \<open>FindTags\<close>
  with the index entry \<open>ex_info\<close>, and \<open>ex_thumbed videoId views url\<close> is it after
  \<open>processVideoItems\<close> has written the thumbnails \<open>ex_thumbnails url\<close>.\<close>

definition ex_merged :: "string \<Rightarrow> string \<Rightarrow> Video" where
  "ex_merged videoId views =
     \<lparr>Video_Id = videoId,
      Video_Snippet =
        Some \<lparr>ChannelId = ''UCnew'', ChannelTitle = ''new'', PublishedAt = ''2024-01-01T00:00:00Z'',
              Title = videoId, Description = '''', Thumbnails = ex_thumbnails ''search.jpg'',
              Tags = [], FormattedTags = ''''\<rparr>,
      Video_Statistics =
        Some \<lparr>ViewCount = views, LikeCount = ''0'', DislikeCount = ''0'', FavoriteCount = ''0'',
              CommentCount = ''0''\<rparr>\<rparr>"

definition ex_thumbed :: "string \<Rightarrow> string \<Rightarrow> string \<Rightarrow> Video" where
  "ex_thumbed videoId views url =
     \<lparr>Video_Id = videoId,
      Video_Snippet =
        Some \<lparr>ChannelId = ''old'', ChannelTitle = ''old'', PublishedAt = ''2024-01-01T00:00:00Z'',
              Title = videoId, Description = '''', Thumbnails = ex_thumbnails url,
              Tags = [], FormattedTags = ''''\<rparr>,
      Video_Statistics =
        Some \<lparr>ViewCount = views, LikeCount = ''0'', DislikeCount = ''0'', FavoriteCount = ''0'',
              CommentCount = ''0''\<rparr>\<rparr>"

definition ex_info :: VidSnippetInfo where
  "ex_info =
     \<lparr>vsi_ChannelTitle = ''new'', vsi_ChannelId = ''UCnew'',
      vsi_Thumbnails = ex_thumbnails ''search.jpg''\<rparr>"

definition ex_search_item :: "string \<Rightarrow> TagSearchItem" where
  "ex_search_item videoId =
     \<lparr>ts_Id_VideoId = Some videoId,
      ts_Snippet =
        Some \<lparr>ts_PublishedAt = '''', ts_Title = '''', ts_Description = '''',
              ts_ChannelTitle = ''new'', ts_ChannelId = ''UCnew'',
              ts_Thumbnails = ex_thumbnails ''search.jpg''\<rparr>\<rparr>"

definition ex_playlist_item :: "string \<Rightarrow> PlaylistItem" where
  "ex_playlist_item videoId =
     \<lparr>pl_Id = ''PLitem'',
      pl_Snippet =
        Some \<lparr>pl_PublishedAt = '''', pl_Title = '''', pl_Description = '''',
              pl_Thumbnails = ex_thumbnails ''playlist.jpg'', pl_ChannelTitle = ''new''\<rparr>,
      pl_ContentDetails = Some \<lparr>pl_VideoId = videoId, pl_VideoPublishedAt = ''''\<rparr>\<rparr>"

definition ex_channel :: "string \<Rightarrow> ContentDetails option \<Rightarrow> Item" where
  "ex_channel channelId details =
     \<lparr>Item_Id = channelId, Item_Snippet = None, Item_ContentDetails = details,
      Item_Statistics = None\<rparr>"

definition ex_yt :: YoutubeApi where
  "ex_yt = \<lparr>apiKey = ''KEY'', Cache = Ref 0\<rparr>"

definition ex_world :: world where
  "ex_world =
     \<lparr>store = (\<lambda>r. NewMemoryCache)(Ref 0 := NewMemoryCache\<lparr>videoCache := [''alai'' \<mapsto> Some 0]\<rparr>),
      Instance = Some ex_yt, calls = 0,
      heap_Video = (\<lambda>p. ex_video '''' ''''), count_Video = 0,
      heap_VideoResults = (\<lambda>p. \<lparr>Items = [], NextPageToken = ''''\<rparr>), count_VideoResults = 1\<rparr>"

definition ex_env :: env where
  "ex_env =
     \<lparr>http_Get = (\<lambda>n url. Body ''{}''),
      Unmarshal_TagSearchResults = (\<lambda>body. Inr \<lparr>ts_Items = [], ts_NextPageToken = ''''\<rparr>),
      Unmarshal_VideoResults = (\<lambda>body. Inr \<lparr>json_Items = [], json_NextPageToken = ''''\<rparr>),
      Unmarshal_ChannelInfo = (\<lambda>body. Inr \<lparr>ci_Items = [], ci_NextPageToken = ''''\<rparr>),
      Unmarshal_ChannelPlaylistVideoResults =
        (\<lambda>body. Inr \<lparr>pl_Items = [], pl_PageInfo_TotalResults = None, pl_NextPageToken = ''''\<rparr>)\<rparr>"

section \<open>Properties of the in-memory cache\<close>

lemma Unlock_Lock_free: "\<not> Mutex c \<Longrightarrow> Unlock (c\<lparr>Mutex := True\<rparr>) = c"
  by (simp add: Unlock_def)

lemma GetVideo_free: "\<not> Mutex c \<Longrightarrow> GetVideo c k = Some (map_index (videoCache c) k, c)"
  by (simp add: GetVideo_def Lock_def Unlock_def)

lemma GetChannel_free: "\<not> Mutex c \<Longrightarrow> GetChannel c k = Some (map_index (channelCache c) k, c)"
  by (simp add: GetChannel_def Lock_def Unlock_def)

lemma GetPlaylist_free: "\<not> Mutex c \<Longrightarrow> GetPlaylist c k = Some (map_index (playlistCache c) k, c)"
  by (simp add: GetPlaylist_def Lock_def Unlock_def)

lemma GetVideoDetail_free:
  "\<not> Mutex c \<Longrightarrow> GetVideoDetail c k = Some (map_index (videoDetailsCache c) k, c)"
  by (simp add: GetVideoDetail_def Lock_def Unlock_def)

lemma SetVideo_free:
  "\<not> Mutex c \<Longrightarrow> SetVideo c k v = Some (c\<lparr>videoCache := (videoCache c)(k \<mapsto> v)\<rparr>)"
  by (simp add: SetVideo_def Lock_def Unlock_def)

lemma SetChannel_free:
  "\<not> Mutex c \<Longrightarrow> SetChannel c k v = Some (c\<lparr>channelCache := (channelCache c)(k \<mapsto> v)\<rparr>)"
  by (simp add: SetChannel_def Lock_def Unlock_def)

lemma SetPlaylist_free:
  "\<not> Mutex c \<Longrightarrow> SetPlaylist c k v = Some (c\<lparr>playlistCache := (playlistCache c)(k \<mapsto> v)\<rparr>)"
  by (simp add: SetPlaylist_def Lock_def Unlock_def)

lemma SetVideoDetail_free:
  "\<not> Mutex c \<Longrightarrow>
   SetVideoDetail c k v = Some (c\<lparr>videoDetailsCache := (videoDetailsCache c)(k \<mapsto> v)\<rparr>)"
  by (simp add: SetVideoDetail_def Lock_def Unlock_def)

lemma cache_ops_held:
  "Mutex c \<Longrightarrow>
   GetVideo c k = None \<and> SetVideo c k v = None \<and> GetChannel c k = None \<and> SetChannel c k ch = None \<and>
   GetPlaylist c k = None \<and> SetPlaylist c k v = None \<and> GetVideoDetail c k = None \<and>
   SetVideoDetail c k v = None"
  by (simp add: GetVideo_def SetVideo_def GetChannel_def SetChannel_def GetPlaylist_def
      SetPlaylist_def GetVideoDetail_def SetVideoDetail_def Lock_def)

section \<open>C10: read-after-write, framing and locking of the in-memory cache\<close>

text \<open>
  Claim C10. On a \<open>MemoryCache\<close> whose mutex is free, in each of the four partitions
  (video, channel, playlist, video-detail) the \<open>Get\<close> of key \<open>k\<close> right after \<open>Set\<close> of \<open>k\<close>
  to \<open>v\<close> returns exactly \<open>v\<close>; the \<open>Set\<close> leaves every other key of its partition and
  the three other partitions as they were, and returns with the mutex free again. Every
  \<open>Get\<close> and \<open>Set\<close> acquires the one mutex of the cache: while it is held, none of the
  eight operations returns.
\<close>

theorem C10_cache_get_after_set:
  "(\<not> Mutex c \<longrightarrow>
      (case SetVideo c k v of
         None \<Rightarrow> False
       | Some c' \<Rightarrow>
           GetVideo c' k = Some (v, c') \<and> \<not> Mutex c' \<and>
           (\<forall>k'. k' \<noteq> k \<longrightarrow> videoCache c' k' = videoCache c k') \<and>
           channelCache c' = channelCache c \<and> playlistCache c' = playlistCache c \<and>
           videoDetailsCache c' = videoDetailsCache c) \<and>
      (case SetChannel c k ch of
         None \<Rightarrow> False
       | Some c' \<Rightarrow>
           GetChannel c' k = Some (ch, c') \<and> \<not> Mutex c' \<and>
           (\<forall>k'. k' \<noteq> k \<longrightarrow> channelCache c' k' = channelCache c k') \<and>
           videoCache c' = videoCache c \<and> playlistCache c' = playlistCache c \<and>
           videoDetailsCache c' = videoDetailsCache c) \<and>
      (case SetPlaylist c k v of
         None \<Rightarrow> False
       | Some c' \<Rightarrow>
           GetPlaylist c' k = Some (v, c') \<and> \<not> Mutex c' \<and>
           (\<forall>k'. k' \<noteq> k \<longrightarrow> playlistCache c' k' = playlistCache c k') \<and>
           videoCache c' = videoCache c \<and> channelCache c' = channelCache c \<and>
           videoDetailsCache c' = videoDetailsCache c) \<and>
      (case SetVideoDetail c k v of
         None \<Rightarrow> False
       | Some c' \<Rightarrow>
           GetVideoDetail c' k = Some (v, c') \<and> \<not> Mutex c' \<and>
           (\<forall>k'. k' \<noteq> k \<longrightarrow> videoDetailsCache c' k' = videoDetailsCache c k') \<and>
           videoCache c' = videoCache c \<and> channelCache c' = channelCache c \<and>
           playlistCache c' = playlistCache c)) \<and>
   (Mutex c \<longrightarrow>
      GetVideo c k = None \<and> SetVideo c k v = None \<and> GetChannel c k = None \<and>
      SetChannel c k ch = None \<and> GetPlaylist c k = None \<and> SetPlaylist c k v = None \<and>
      GetVideoDetail c k = None \<and> SetVideoDetail c k v = None)"
proof (intro conjI impI)
  assume free: "\<not> Mutex c"
  show "case SetVideo c k v of None \<Rightarrow> False
        | Some c' \<Rightarrow>
            GetVideo c' k = Some (v, c') \<and> \<not> Mutex c' \<and>
            (\<forall>k'. k' \<noteq> k \<longrightarrow> videoCache c' k' = videoCache c k') \<and>
            channelCache c' = channelCache c \<and> playlistCache c' = playlistCache c \<and>
            videoDetailsCache c' = videoDetailsCache c"
    using free by (simp add: SetVideo_free GetVideo_free map_index_def)
  show "case SetChannel c k ch of None \<Rightarrow> False
        | Some c' \<Rightarrow>
            GetChannel c' k = Some (ch, c') \<and> \<not> Mutex c' \<and>
            (\<forall>k'. k' \<noteq> k \<longrightarrow> channelCache c' k' = channelCache c k') \<and>
            videoCache c' = videoCache c \<and> playlistCache c' = playlistCache c \<and>
            videoDetailsCache c' = videoDetailsCache c"
    using free by (simp add: SetChannel_free GetChannel_free map_index_def)
  show "case SetPlaylist c k v of None \<Rightarrow> False
        | Some c' \<Rightarrow>
            GetPlaylist c' k = Some (v, c') \<and> \<not> Mutex c' \<and>
            (\<forall>k'. k' \<noteq> k \<longrightarrow> playlistCache c' k' = playlistCache c k') \<and>
            videoCache c' = videoCache c \<and> channelCache c' = channelCache c \<and>
            videoDetailsCache c' = videoDetailsCache c"
    using free by (simp add: SetPlaylist_free GetPlaylist_free map_index_def)
  show "case SetVideoDetail c k v of None \<Rightarrow> False
        | Some c' \<Rightarrow>
            GetVideoDetail c' k = Some (v, c') \<and> \<not> Mutex c' \<and>
            (\<forall>k'. k' \<noteq> k \<longrightarrow> videoDetailsCache c' k' = videoDetailsCache c k') \<and>
            videoCache c' = videoCache c \<and> channelCache c' = channelCache c \<and>
            playlistCache c' = playlistCache c"
    using free by (simp add: SetVideoDetail_free GetVideoDetail_free map_index_def)
next
  assume held: "Mutex c"
  from cache_ops_held [OF held]
  show "GetVideo c k = None" "SetVideo c k v = None" "GetChannel c k = None"
    "SetChannel c k ch = None" "GetPlaylist c k = None" "SetPlaylist c k v = None"
    "GetVideoDetail c k = None" "SetVideoDetail c k v = None"
    by blast+
qed

theorem C10_cache_get_after_set_witness:
  "\<not> Mutex NewMemoryCache \<and>
   (case SetPlaylist NewMemoryCache ''UC1-5'' (Some 7) of
      None \<Rightarrow> False
    | Some c' \<Rightarrow> GetPlaylist c' ''UC1-5'' = Some (Some 7, c') \<and> playlistCache c' ''UC2-5'' = None) \<and>
   Mutex (NewMemoryCache\<lparr>Mutex := True\<rparr>) \<and>
   GetVideo (NewMemoryCache\<lparr>Mutex := True\<rparr>) ''alai'' = None"
proof -
  have free: "\<not> Mutex NewMemoryCache"
    by (simp add: NewMemoryCache_def)
  have held: "Mutex (NewMemoryCache\<lparr>Mutex := True\<rparr>)"
    by simp
  have other: "playlistCache NewMemoryCache ''UC2-5'' = None"
    by (simp add: NewMemoryCache_def)
  from C10_cache_get_after_set [of NewMemoryCache "''UC1-5''" "Some 7" None] free
  have "case SetPlaylist NewMemoryCache ''UC1-5'' (Some 7) of
          None \<Rightarrow> False
        | Some c' \<Rightarrow>
            GetPlaylist c' ''UC1-5'' = Some (Some 7, c') \<and>
            playlistCache c' ''UC2-5'' = playlistCache NewMemoryCache ''UC2-5''"
    by (auto split: option.splits)
  moreover
  from C10_cache_get_after_set [of "NewMemoryCache\<lparr>Mutex := True\<rparr>" "''alai''" None None] held
  have "GetVideo (NewMemoryCache\<lparr>Mutex := True\<rparr>) ''alai'' = None"
    by blast
  ultimately show ?thesis
    using free held other by (auto split: option.splits)
qed

section \<open>C4: the Batcher\<close>

lemma div50_small: "0 < (n::nat) \<Longrightarrow> n \<le> 50 \<Longrightarrow> (n + 49) div 50 = 1"
proof -
  assume a: "0 < n" "n \<le> 50"
  then obtain m where m: "n = Suc m" "m < 50"
    by (cases n) auto
  have "(n + 49) div 50 = (m + 50) div 50"
    by (simp add: m)
  also have "\<dots> = Suc (m div 50)"
    by (simp only: div_add_self2)
  finally show ?thesis
    using m by simp
qed

lemma div50_big: "50 < (n::nat) \<Longrightarrow> (n + 49) div 50 = Suc ((n - 50 + 49) div 50)"
proof -
  assume a: "50 < n"
  have "n + 49 = (n - 50 + 49) + 50"
    using a by simp
  then have "(n + 49) div 50 = ((n - 50 + 49) + 50) div 50"
    by (rule arg_cong)
  also have "\<dots> = Suc ((n - 50 + 49) div 50)"
    by (simp only: div_add_self2)
  finally show ?thesis .
qed

lemma ceil_div_step: "i < (L::nat) \<Longrightarrow> (L - i + 49) div 50 = Suc ((L - (i + 50) + 49) div 50)"
proof (cases "L - i \<le> 50")
  case True
  assume "i < L"
  then have "(L - i + 49) div 50 = 1"
    using True by (intro div50_small) simp_all
  moreover have "L - (i + 50) = 0"
    using True by simp
  ultimately show ?thesis
    by simp
next
  case False
  then have "(L - i + 49) div 50 = Suc ((L - i - 50 + 49) div 50)"
    by (intro div50_big) simp
  then show ?thesis
    by (simp only: diff_diff_left)
qed

declare batchIteration_loop.simps [simp del]

lemma batchIteration_loop_chunks:
  "\<exists>chunks. concat chunks = drop i input \<and> (\<forall>c\<in>set chunks. c \<noteq> [] \<and> length c \<le> 50) \<and>
     length chunks = (length input - i + 49) div 50 \<and>
     batchIteration_loop input i results = results @ map (\<lambda>c. Join c '','') chunks"
proof (induction input i results rule: batchIteration_loop.induct)
  case (1 input i results)
  show ?case
  proof (cases "i < length input")
    case False
    then show ?thesis
      by (subst batchIteration_loop.simps) (rule exI [of _ "[]"], simp)
  next
    case True
    define hi where "hi = (if i + 50 > length input then length input else i + 50)"
    define chunk where "chunk = take (hi - i) (drop i input)"
    from "1.IH" [OF True hi_def]
    obtain chunks where ch: "concat chunks = drop (i + 50) input"
      "\<forall>c\<in>set chunks. c \<noteq> [] \<and> length c \<le> 50"
      "length chunks = (length input - (i + 50) + 49) div 50"
      "batchIteration_loop input (i + 50) (results @ [Join chunk '','']) =
         (results @ [Join chunk '','']) @ map (\<lambda>c. Join c '','') chunks"
      unfolding chunk_def by blast
    have chunk_take: "chunk = take 50 (drop i input)"
      using True by (auto simp: chunk_def hi_def)
    have "concat (chunk # chunks) = take 50 (drop i input) @ drop 50 (drop i input)"
      using ch(1) by (simp add: chunk_take add.commute)
    then have f1: "concat (chunk # chunks) = drop i input"
      by (simp only: append_take_drop_id)
    have f2: "\<forall>c\<in>set (chunk # chunks). c \<noteq> [] \<and> length c \<le> 50"
      using ch(2) True by (auto simp: chunk_take)
    have f3: "length (chunk # chunks) = (length input - i + 49) div 50"
      using ch(3) by (simp only: list.size(4) ceil_div_step [OF True])
    have "batchIteration_loop input i results =
        batchIteration_loop input (i + 50) (results @ [Join chunk '',''])"
      by (subst batchIteration_loop.simps) (simp only: True if_True Let_def chunk_def hi_def)
    then have f4: "batchIteration_loop input i results =
        results @ map (\<lambda>c. Join c '','') (chunk # chunks)"
      using ch(4) by simp
    show ?thesis
      by (rule exI [of _ "chunk # chunks"]) (intro conjI f1 f2 f3 f4)
  qed
qed

lemma Split_comma_nonempty: "Split_comma s \<noteq> []"
  by (induction s) (auto split: list.splits)

lemma Split_comma_free: "CHR '','' \<notin> set s \<Longrightarrow> Split_comma s = [s]"
  by (induction s) auto

lemma Split_comma_append:
  "CHR '','' \<notin> set x \<Longrightarrow> Split_comma (x @ CHR '','' # rest) = x # Split_comma rest"
  by (induction x) auto

lemma Split_comma_Join:
  "c \<noteq> [] \<Longrightarrow> \<forall>ident\<in>set c. CHR '','' \<notin> set ident \<Longrightarrow> Split_comma (Join c '','') = c"
proof (induction c "'',''" rule: Join.induct)
  case 1
  then show ?case by simp
next
  case (2 x)
  then show ?case by (simp add: Split_comma_free)
next
  case (3 x y ys)
  then show ?case by (simp add: Split_comma_append)
qed


lemma batchIteration_chunks:
  "\<exists>chunks. concat chunks = input \<and> (\<forall>c\<in>set chunks. c \<noteq> [] \<and> length c \<le> 50) \<and>
     length chunks = (length input + 49) div 50 \<and>
     batchIteration input = map (\<lambda>c. Join c '','') chunks"
  using batchIteration_loop_chunks [of 0 input "[]"] by (simp add: batchIteration_def)

lemma batchIteration_short:
  "input \<noteq> [] \<Longrightarrow> length input \<le> 50 \<Longrightarrow> batchIteration input = [Join input '','']"
  unfolding batchIteration_def
  by (subst batchIteration_loop.simps, simp, subst batchIteration_loop.simps, simp)

lemma batchIteration_Nil: "batchIteration [] = []"
  unfolding batchIteration_def by (subst batchIteration_loop.simps) simp

text \<open>
  Claim C4, as amended. \<open>batchIteration\<close> cuts the list into \<open>ceil(L/50)\<close> consecutive,
  non-empty chunks of at most 50 identifiers, in order, and joins each with commas; the
  empty list gives no chunk. When no identifier contains a comma, splitting the chunks at
  the commas and concatenating gives the list back, and no chunk splits into more than 50
  identifiers.
\<close>

theorem C4_batchIteration:
  "length (batchIteration input) = (length input + 49) div 50 \<and>
   batchIteration [] = [] \<and>
   (\<exists>chunks. concat chunks = input \<and> (\<forall>c\<in>set chunks. c \<noteq> [] \<and> length c \<le> 50) \<and>
      batchIteration input = map (\<lambda>c. Join c '','') chunks) \<and>
   ((\<forall>ident\<in>set input. CHR '','' \<notin> set ident) \<longrightarrow>
      concat (map Split_comma (batchIteration input)) = input \<and>
      (\<forall>chunk\<in>set (batchIteration input). length (Split_comma chunk) \<le> 50))"
proof -
  obtain chunks where ch: "concat chunks = input"
    "\<forall>c\<in>set chunks. c \<noteq> [] \<and> length c \<le> 50"
    "length chunks = (length input + 49) div 50"
    "batchIteration input = map (\<lambda>c. Join c '','') chunks"
    using batchIteration_chunks [of input] by blast
  have len: "length (batchIteration input) = (length input + 49) div 50"
    by (simp add: ch(3) ch(4))
  have ex: "\<exists>chunks. concat chunks = input \<and> (\<forall>c\<in>set chunks. c \<noteq> [] \<and> length c \<le> 50) \<and>
      batchIteration input = map (\<lambda>c. Join c '','') chunks"
    using ch(1,2,4) by (intro exI [of _ chunks] conjI)
  have spl: "concat (map Split_comma (batchIteration input)) = input \<and>
      (\<forall>chunk\<in>set (batchIteration input). length (Split_comma chunk) \<le> 50)"
    if free: "\<forall>ident\<in>set input. CHR '','' \<notin> set ident"
  proof -
    have rt: "Split_comma (Join c '','') = c" if "c \<in> set chunks" for c
    proof (rule Split_comma_Join)
      show "c \<noteq> []" using ch(2) that by blast
      have "set c \<subseteq> set input"
        using ch(1) that by auto
      then show "\<forall>ident\<in>set c. CHR '','' \<notin> set ident"
        using free by blast
    qed
    from rt have "map Split_comma (batchIteration input) = chunks"
      by (simp add: ch(4) map_idI)
    moreover have "\<forall>chunk\<in>set (batchIteration input). length (Split_comma chunk) \<le> 50"
      using rt ch(2) by (auto simp: ch(4))
    ultimately show ?thesis
      using ch(1) by simp
  qed
  show ?thesis
    using len ex spl batchIteration_Nil by blast
qed

theorem C4_batchIteration_witness:
  "CHR '','' \<notin> set ''dqw4'' \<and> CHR '','' \<notin> set ''x9Zk'' \<and>
   batchIteration [''dqw4'', ''x9Zk''] = [''dqw4,x9Zk''] \<and>
   concat (map Split_comma (batchIteration [''dqw4'', ''x9Zk''])) = [''dqw4'', ''x9Zk'']"
proof -
  have free: "\<forall>ident\<in>set [''dqw4'', ''x9Zk'']. CHR '','' \<notin> set ident"
    by simp
  have "batchIteration [''dqw4'', ''x9Zk''] = [''dqw4,x9Zk'']"
    by (simp add: batchIteration_short)
  moreover have "concat (map Split_comma (batchIteration [''dqw4'', ''x9Zk''])) = [''dqw4'', ''x9Zk'']"
    using free C4_batchIteration [of "[''dqw4'', ''x9Zk'']"] by blast
  ultimately show ?thesis
    by simp
qed

text \<open>
  Claim C4 as stated fails for an identifier that contains a comma: the one-element list
  \<open>["a,b"]\<close> is joined to the chunk \<open>"a,b"\<close>, which splits into two identifiers.
\<close>

theorem C4_split_counterexample:
  "batchIteration [''a,b''] = [''a,b''] \<and>
   concat (map Split_comma (batchIteration [''a,b''])) = [''a'', ''b''] \<and>
   concat (map Split_comma (batchIteration [''a,b''])) \<noteq> [''a,b'']"
  by (simp add: batchIteration_short)

section \<open>Running the model\<close>

lemma bind_simps [simp]:
  "bind NoReturn f = NoReturn" "bind Panic f = Panic" "bind (Ret a w) f = f a w"
  by (simp_all add: bind_def)

lemma bind_RetD:
  "bind m f = Ret b w' \<Longrightarrow> \<exists>a w1. m = Ret a w1 \<and> f a w1 = Ret b w'"
  by (cases m) simp_all

lemmas cache_defs =
  cache_get_def cache_set_def GetVideo_def SetVideo_def GetChannel_def SetChannel_def
  GetPlaylist_def SetPlaylist_def GetVideoDetail_def SetVideoDetail_def Lock_def Unlock_def
  map_index_def

lemmas ex_defs =
  ex_world_def ex_yt_def ex_env_def ex_video_def ex_merged_def ex_thumbed_def ex_snippet_def
  ex_thumbnails_def ex_info_def ex_search_item_def ex_playlist_item_def ex_channel_def
  NewMemoryCache_def

lemmas run_defs =
  GetVideos_def GetVideos_body_def FindTags_def FindTags_body_def FindTags_finish_def
  SearchAndRetrieveTags_def SearchAndRetrieveTags_body_def GetChannelInfo_def
  GetChannelInfo_body_def getChannelInfo_def GetChannelPlaylist_def GetChannelPlaylist_body_def
  getChannelPlaylist_body_def fetchPlaylistVideos_def generatePageUrl_def
  fetchVideoResultsFromAPI_def processVideoItems_def calculateNumPages_def cacheKey_def
  GetInstance_step_def httpGetRequest_def http_request_def unmarshalResponse_def
  new_Video_def new_VideoResults_def
  signed_divide_int_def signed_modulo_int_def Itoa_def Atoi_def digit_val_def MinViews_def
  Let_def

section \<open>C1: GetVideos\<close>

text \<open>
  Claim C1 at a failing input. One video id, one upstream page carrying one item and an
  empty continuation token: the decoder builds the \<open>Video\<close> (at address 0), but
  \<open>GetVideos\<close> leaves the inner loop before it appends the page. It returns, without error,
  a \<open>VideoResults\<close> (at address 1) whose item list is empty, and caches that pointer. The
  claim promises the item.
\<close>

theorem C1_GetVideos_drops_last_page:
  "GetVideos 1
     (ex_env\<lparr>Unmarshal_VideoResults :=
        (\<lambda>body. Inr \<lparr>json_Items = [Some (ex_video ''a'' ''1500'')], json_NextPageToken = ''''\<rparr>)\<rparr>)
     ex_yt [''a''] ex_world =
   Ret (Some 1, None)
     (ex_world\<lparr>store := (store ex_world)
        (Ref 0 := (store ex_world (Ref 0))\<lparr>videoDetailsCache := [''a'' \<mapsto> Some 1]\<rparr>),
        calls := 1,
        heap_Video := (heap_Video ex_world)(0 := ex_video ''a'' ''1500''), count_Video := 1,
        heap_VideoResults := (heap_VideoResults ex_world)
          (1 := \<lparr>Items = [], NextPageToken = ''''\<rparr>),
        count_VideoResults := 2\<rparr>)"
  by (simp add: run_defs cache_defs ex_defs batchIteration_short)

section \<open>The filter loop of FindTags on the heap\<close>

lemma Atoi_Nil: "Atoi [] = Inl (NumError ''Atoi'' [] ErrSyntax)"
  by (simp add: Atoi_def)

lemma parsed_views_SomeD:
  "parsed_views item = Some n \<Longrightarrow>
   \<exists>v st. item = Some v \<and> Video_Statistics v = Some st \<and> Atoi (ViewCount st) = Inr n \<and>
          ViewCount st \<noteq> ''''"
  by (auto simp: parsed_views_def Atoi_Nil split: option.splits sum.splits)

lemma parsed_views_Some:
  "Video_Statistics v = Some st \<Longrightarrow> Atoi (ViewCount st) = Inr n \<Longrightarrow>
   parsed_views (Some v) = Some n"
  by (simp add: parsed_views_def)

lemma parsed_views_None:
  "Video_Statistics v = Some st \<Longrightarrow> ViewCount st = '''' \<or> Atoi (ViewCount st) = Inl e \<Longrightarrow>
   parsed_views (Some v) = None"
  by (auto simp: parsed_views_def Atoi_Nil)

lemma parsed_views_Snippet [simp]:
  "parsed_views (Some (v\<lparr>Video_Snippet := s\<rparr>)) = parsed_views (Some v)"
  by (simp add: parsed_views_def)

lemma spec_Merge_item_indexed:
  "vidIds (Video_Id v) = Some info \<Longrightarrow> Video_Snippet v = Some sn \<Longrightarrow>
   spec_Merge_item vidIds (Some v) =
     Some (v\<lparr>Video_Snippet := Some (sn
       \<lparr>ChannelId := vsi_ChannelId info, ChannelTitle := vsi_ChannelTitle info,
        Thumbnails := vsi_Thumbnails info\<rparr>)\<rparr>)"
  by (simp add: spec_Merge_item_def)

lemma spec_Merge_item_absent:
  "vidIds (Video_Id v) = None \<Longrightarrow> spec_Merge_item vidIds (Some v) = Some v"
  by (simp add: spec_Merge_item_def)

lemma spec_Merge_item_twice:
  "spec_Merge_item vidIds (spec_Merge_item vidIds item) = spec_Merge_item vidIds item"
  by (auto simp: spec_Merge_item_def split: option.splits)

text \<open>One iteration of the loop, by cases: it panics, it ends the loop with the error of
  \<open>Atoi\<close>, it passes over the item (empty count, or count at most \<open>MinViews\<close>), it keeps the
  item as it is (its id is no key of the index), or it keeps the item and overwrites the
  object.\<close>

lemma FindTags_filter_cases:
  obtains
    (nil) "item = None" "FindTags_filter vidIds (item # rest) acc w = Panic"
  | (no_stats) p where "item = Some p" "Video_Statistics (heap_Video w p) = None"
      "FindTags_filter vidIds (item # rest) acc w = Panic"
  | (no_snippet) p st n where "item = Some p" "Video_Statistics (heap_Video w p) = Some st"
      "ViewCount st \<noteq> []" "Atoi (ViewCount st) = Inr n" "MinViews < n"
      "vidIds (Video_Id (heap_Video w p)) \<noteq> None" "Video_Snippet (heap_Video w p) = None"
      "FindTags_filter vidIds (item # rest) acc w = Panic"
  | (err) p st e where "item = Some p" "Video_Statistics (heap_Video w p) = Some st"
      "ViewCount st \<noteq> ''''" "Atoi (ViewCount st) = Inl e"
      "FindTags_filter vidIds (item # rest) acc w = Ret (Inl e) w"
  | (empty) p st where "item = Some p" "Video_Statistics (heap_Video w p) = Some st"
      "ViewCount st = ''''"
      "FindTags_filter vidIds (item # rest) acc w = FindTags_filter vidIds rest acc w"
  | (low) p st n where "item = Some p" "Video_Statistics (heap_Video w p) = Some st"
      "ViewCount st \<noteq> ''''" "Atoi (ViewCount st) = Inr n" "\<not> MinViews < n"
      "FindTags_filter vidIds (item # rest) acc w = FindTags_filter vidIds rest acc w"
  | (plain) p st n where "item = Some p" "Video_Statistics (heap_Video w p) = Some st"
      "ViewCount st \<noteq> ''''" "Atoi (ViewCount st) = Inr n" "MinViews < n"
      "vidIds (Video_Id (heap_Video w p)) = None"
      "FindTags_filter vidIds (item # rest) acc w =
         FindTags_filter vidIds rest (acc @ [item]) w"
  | (merge) p st n info sn where "item = Some p" "Video_Statistics (heap_Video w p) = Some st"
      "ViewCount st \<noteq> ''''" "Atoi (ViewCount st) = Inr n" "MinViews < n"
      "vidIds (Video_Id (heap_Video w p)) = Some info" "Video_Snippet (heap_Video w p) = Some sn"
      "FindTags_filter vidIds (item # rest) acc w =
         FindTags_filter vidIds rest (acc @ [item])
           (w\<lparr>heap_Video := (heap_Video w)
               (p := (heap_Video w p)\<lparr>Video_Snippet := Some (sn
                  \<lparr>ChannelId := vsi_ChannelId info, ChannelTitle := vsi_ChannelTitle info,
                   Thumbnails := vsi_Thumbnails info\<rparr>)\<rparr>)\<rparr>)"
proof (cases item)
  case None
  then show ?thesis using nil by simp
next
  case (Some p)
  show ?thesis
  proof (cases "Video_Statistics (heap_Video w p)")
    case None
    then show ?thesis using no_stats [OF Some] Some by simp
  next
    case st: (Some st)
    show ?thesis
    proof (cases "ViewCount st = ''''")
      case True
      then show ?thesis using empty [OF Some st] Some st by simp
    next
      case nonempty: False
      show ?thesis
      proof (cases "Atoi (ViewCount st)")
        case (Inl e)
        then show ?thesis using err [OF Some st nonempty] Some st nonempty by simp
      next
        case (Inr n)
        show ?thesis
        proof (cases "MinViews < n")
          case False
          then show ?thesis using low [OF Some st nonempty Inr] Some st nonempty Inr by simp
        next
          case True
          show ?thesis
          proof (cases "vidIds (Video_Id (heap_Video w p))")
            case None
            then show ?thesis
              using plain [OF Some st nonempty Inr True] Some st nonempty Inr True by simp
          next
            case info: (Some info)
            show ?thesis
            proof (cases "Video_Snippet (heap_Video w p)")
              case None
              then show ?thesis
                using no_snippet [OF Some st nonempty Inr True] Some st nonempty Inr True info by simp
            next
              case sn: (Some sn)
              then show ?thesis
                using merge [OF Some st nonempty Inr True info] Some st nonempty Inr True info
                by simp
            qed
          qed
        qed
      qed
    qed
  qed
qed

text \<open>What the loop leaves behind, whatever it returns: only \<open>Video\<close> objects change, and
  an object changes only if it is an item of the list whose count exceeds \<open>MinViews\<close>, and
  then into its merged form.\<close>

lemma heap_Video_same: "\<exists>h. w = w\<lparr>heap_Video := h\<rparr>"
  by (rule exI [of _ "heap_Video w"]) simp

lemma FindTags_filter_effect:
  "FindTags_filter vidIds items acc w = Ret r w' \<Longrightarrow>
   (\<exists>h. w' = w\<lparr>heap_Video := h\<rparr>) \<and>
   (\<forall>p. heap_Video w' p = heap_Video w p \<or>
        (Some p \<in> set items \<and>
         (\<exists>n. parsed_views (Some (heap_Video w p)) = Some n \<and> MinViews < n) \<and>
         Some (heap_Video w' p) = spec_Merge_item vidIds (Some (heap_Video w p))))"
proof (induction items arbitrary: acc w)
  case Nil
  then have "w' = w"
    by simp
  then show ?case
    using heap_Video_same [of w] by simp
next
  case (Cons item rest)
  show ?case
  proof (cases rule: FindTags_filter_cases
      [where vidIds = vidIds and item = item and rest = rest and acc = acc and w = w])
    case nil
    with Cons.prems show ?thesis by simp
  next
    case (no_stats p)
    with Cons.prems show ?thesis by simp
  next
    case (no_snippet p st n)
    with Cons.prems show ?thesis by simp
  next
    case (err p st e)
    with Cons.prems have "w' = w"
      by simp
    then show ?thesis
      using heap_Video_same [of w] by simp
  next
    case (empty p st)
    with Cons.prems Cons.IH [of acc w] show ?thesis
      by (metis list.set_intros(2))
  next
    case (low p st n)
    with Cons.prems Cons.IH [of acc w] show ?thesis
      by (metis list.set_intros(2))
  next
    case (plain p st n)
    with Cons.prems Cons.IH [of "acc @ [item]" w] show ?thesis
      by (metis list.set_intros(2))
  next
    case (merge p st n info sn)
    define m where "m = (heap_Video w p)\<lparr>Video_Snippet := Some (sn
                  \<lparr>ChannelId := vsi_ChannelId info, ChannelTitle := vsi_ChannelTitle info,
                   Thumbnails := vsi_Thumbnails info\<rparr>)\<rparr>"
    define w1 where "w1 = w\<lparr>heap_Video := (heap_Video w)(p := m)\<rparr>"
    have run: "FindTags_filter vidIds rest (acc @ [item]) w1 = Ret r w'"
      using merge(8) Cons.prems by (simp add: w1_def m_def)
    from Cons.IH [OF run] obtain h where h: "w' = w1\<lparr>heap_Video := h\<rparr>"
      and eff: "\<And>q. heap_Video w' q = heap_Video w1 q \<or>
        (Some q \<in> set rest \<and>
         (\<exists>n. parsed_views (Some (heap_Video w1 q)) = Some n \<and> MinViews < n) \<and>
         Some (heap_Video w' q) = spec_Merge_item vidIds (Some (heap_Video w1 q)))"
      by blast
    have kept: "parsed_views (Some (heap_Video w p)) = Some n"
      using merge(2,4) by (rule parsed_views_Some)
    have Mp: "spec_Merge_item vidIds (Some (heap_Video w p)) = Some m"
      using merge(6,7) by (simp add: spec_Merge_item_indexed m_def)
    have Mm: "spec_Merge_item vidIds (Some m) = Some m"
      using spec_Merge_item_twice [of vidIds "Some (heap_Video w p)"] by (simp add: Mp)
    have frame: "\<exists>h. w' = w\<lparr>heap_Video := h\<rparr>"
      using h by (auto simp: w1_def)
    have "heap_Video w' q = heap_Video w q \<or>
        (Some q \<in> set (item # rest) \<and>
         (\<exists>n. parsed_views (Some (heap_Video w q)) = Some n \<and> MinViews < n) \<and>
         Some (heap_Video w' q) = spec_Merge_item vidIds (Some (heap_Video w q)))" for q
    proof (cases "q = p")
      case False
      then have "heap_Video w1 q = heap_Video w q"
        by (simp add: w1_def)
      with eff [of q] show ?thesis
        by auto
    next
      case True
      have "heap_Video w1 p = m"
        by (simp add: w1_def)
      with eff [of p] have "Some (heap_Video w' p) = Some m"
        using Mm by auto
      then show ?thesis
        using True merge(1,5) kept Mp by auto
    qed
    with frame show ?thesis
      by blast
  qed
qed

lemma FindTags_filter_frame:
  "FindTags_filter vidIds items acc w = Ret r w' \<Longrightarrow> w' = w\<lparr>heap_Video := heap_Video w'\<rparr>"
  using FindTags_filter_effect [of vidIds items acc w r w'] by auto

text \<open>A returning loop returns the pointers of the items whose parsed count exceeds
  \<open>MinViews\<close>, in order, and has put every such item into its merged form.\<close>

lemma FindTags_filter_result:
  "FindTags_filter vidIds items acc w = Ret (Inr res) w' \<Longrightarrow>
   res = acc @ filter (\<lambda>item. \<exists>n. parsed_views (deref_Video w item) = Some n \<and> MinViews < n) items \<and>
   (\<forall>p. Some p \<in> set items \<longrightarrow>
        (\<exists>n. parsed_views (Some (heap_Video w p)) = Some n \<and> MinViews < n) \<longrightarrow>
        Some (heap_Video w' p) = spec_Merge_item vidIds (Some (heap_Video w p)))"
proof (induction items arbitrary: acc w)
  case Nil
  then show ?case by simp
next
  case (Cons item rest)
  show ?case
  proof (cases rule: FindTags_filter_cases
      [where vidIds = vidIds and item = item and rest = rest and acc = acc and w = w])
    case nil
    with Cons.prems show ?thesis by simp
  next
    case (no_stats p)
    with Cons.prems show ?thesis by simp
  next
    case (no_snippet p st n)
    with Cons.prems show ?thesis by simp
  next
    case (err p st e)
    with Cons.prems show ?thesis by simp
  next
    case (empty p st)
    have "parsed_views (Some (heap_Video w p)) = None"
      using empty(2,3) by (auto intro: parsed_views_None)
    with empty Cons.prems Cons.IH [of acc w] show ?thesis
      by (auto simp: deref_Video_def)
  next
    case (low p st n)
    have "parsed_views (Some (heap_Video w p)) = Some n"
      using low(2,4) by (rule parsed_views_Some)
    with low Cons.prems Cons.IH [of acc w] show ?thesis
      by (auto simp: deref_Video_def)
  next
    case (plain p st n)
    have kept: "parsed_views (Some (heap_Video w p)) = Some n"
      using plain(2,4) by (rule parsed_views_Some)
    have run: "FindTags_filter vidIds rest (acc @ [item]) w = Ret (Inr res) w'"
      using plain(7) Cons.prems by simp
    have Mp: "spec_Merge_item vidIds (Some (heap_Video w p)) = Some (heap_Video w p)"
      using plain(6) by (rule spec_Merge_item_absent)
    from FindTags_filter_effect [OF run]
    have "heap_Video w' p = heap_Video w p \<or>
        Some (heap_Video w' p) = spec_Merge_item vidIds (Some (heap_Video w p))"
      by blast
    then have head: "heap_Video w' p = heap_Video w p"
      using Mp by auto
    from Cons.IH [OF run] kept plain(1,5) head Mp show ?thesis
      by (auto simp: deref_Video_def)
  next
    case (merge p st n info sn)
    define m where "m = (heap_Video w p)\<lparr>Video_Snippet := Some (sn
                  \<lparr>ChannelId := vsi_ChannelId info, ChannelTitle := vsi_ChannelTitle info,
                   Thumbnails := vsi_Thumbnails info\<rparr>)\<rparr>"
    define w1 where "w1 = w\<lparr>heap_Video := (heap_Video w)(p := m)\<rparr>"
    have run: "FindTags_filter vidIds rest (acc @ [item]) w1 = Ret (Inr res) w'"
      using merge(8) Cons.prems by (simp add: w1_def m_def)
    have kept: "parsed_views (Some (heap_Video w p)) = Some n"
      using merge(2,4) by (rule parsed_views_Some)
    have Mp: "spec_Merge_item vidIds (Some (heap_Video w p)) = Some m"
      using merge(6,7) by (simp add: spec_Merge_item_indexed m_def)
    have Mm: "spec_Merge_item vidIds (Some m) = Some m"
      using spec_Merge_item_twice [of vidIds "Some (heap_Video w p)"] by (simp add: Mp)
    have views: "parsed_views (Some (heap_Video w1 q)) = parsed_views (Some (heap_Video w q))" for q
      by (simp add: w1_def m_def)
    have M1: "spec_Merge_item vidIds (Some (heap_Video w1 q)) =
        spec_Merge_item vidIds (Some (heap_Video w q))" for q
      using Mp Mm by (simp add: w1_def)
    have same: "(\<lambda>item. \<exists>n. parsed_views (deref_Video w1 item) = Some n \<and> MinViews < n) =
        (\<lambda>item. \<exists>n. parsed_views (deref_Video w item) = Some n \<and> MinViews < n)"
    proof
      fix item'
      show "(\<exists>n. parsed_views (deref_Video w1 item') = Some n \<and> MinViews < n) =
          (\<exists>n. parsed_views (deref_Video w item') = Some n \<and> MinViews < n)"
        by (cases item') (simp_all add: deref_Video_def views)
    qed
    from FindTags_filter_effect [OF run]
    have "heap_Video w' p = heap_Video w1 p \<or>
        Some (heap_Video w' p) = spec_Merge_item vidIds (Some (heap_Video w1 p))"
      by blast
    moreover have "heap_Video w1 p = m"
      by (simp add: w1_def)
    ultimately have head: "Some (heap_Video w' p) = Some m"
      using Mm by auto
    from Cons.IH [OF run] have res: "res = (acc @ [item]) @
        filter (\<lambda>item. \<exists>n. parsed_views (deref_Video w item) = Some n \<and> MinViews < n) rest"
      and tail: "\<And>q. Some q \<in> set rest \<Longrightarrow>
        \<exists>n. parsed_views (Some (heap_Video w q)) = Some n \<and> MinViews < n \<Longrightarrow>
        Some (heap_Video w' q) = spec_Merge_item vidIds (Some (heap_Video w q))"
      by (auto simp: same views M1)
    have "res = acc @
        filter (\<lambda>item. \<exists>n. parsed_views (deref_Video w item) = Some n \<and> MinViews < n) (item # rest)"
      using res kept merge(1,5) by (simp add: deref_Video_def)
    moreover have "Some (heap_Video w' q) = spec_Merge_item vidIds (Some (heap_Video w q))"
      if "Some q \<in> set (item # rest)"
        "\<exists>n. parsed_views (Some (heap_Video w q)) = Some n \<and> MinViews < n" for q
    proof (cases "Some q \<in> set rest")
      case True
      then show ?thesis using tail that(2) by blast
    next
      case False
      with that(1) merge(1) have "q = p" by simp
      then show ?thesis using head Mp by simp
    qed
    ultimately show ?thesis
      by blast
  qed
qed

text \<open>The loop returns a list when every item is there, carries statistics with a count
  that is empty or parses, and carries a snippet where one is written.\<close>

lemma FindTags_filter_returns:
  "\<forall>item\<in>set items. \<exists>p st. item = Some p \<and> Video_Statistics (heap_Video w p) = Some st \<and>
      (ViewCount st = '''' \<or> (\<exists>n. Atoi (ViewCount st) = Inr n)) \<Longrightarrow>
   \<forall>p. Some p \<in> set items \<longrightarrow> vidIds (Video_Id (heap_Video w p)) \<noteq> None \<longrightarrow>
      Video_Snippet (heap_Video w p) \<noteq> None \<Longrightarrow>
   \<exists>res w'. FindTags_filter vidIds items acc w = Ret (Inr res) w'"
proof (induction items arbitrary: acc w)
  case Nil
  then show ?case by simp
next
  case (Cons item rest)
  from Cons.prems(1) obtain p0 st0 where head: "item = Some p0"
    "Video_Statistics (heap_Video w p0) = Some st0"
    "ViewCount st0 = '''' \<or> (\<exists>n. Atoi (ViewCount st0) = Inr n)"
    by auto
  have IH: "\<exists>res w'. FindTags_filter vidIds rest acc' w = Ret (Inr res) w'" for acc'
    using Cons.IH [of w acc'] Cons.prems by simp
  show ?case
  proof (cases rule: FindTags_filter_cases
      [where vidIds = vidIds and item = item and rest = rest and acc = acc and w = w])
    case nil
    with head show ?thesis by simp
  next
    case (no_stats p)
    with head show ?thesis by simp
  next
    case (no_snippet p st n)
    have "Some p \<in> set (item # rest)"
      using no_snippet(1) by simp
    with Cons.prems(2) no_snippet(6,7) show ?thesis
      by blast
  next
    case (err p st e)
    with head show ?thesis by auto
  next
    case (empty p st)
    with IH show ?thesis by simp
  next
    case (low p st n)
    with IH show ?thesis by simp
  next
    case (plain p st n)
    with IH show ?thesis by simp
  next
    case (merge p st n info sn)
    define w1 where "w1 = w\<lparr>heap_Video := (heap_Video w)
               (p := (heap_Video w p)\<lparr>Video_Snippet := Some (sn
                  \<lparr>ChannelId := vsi_ChannelId info, ChannelTitle := vsi_ChannelTitle info,
                   Thumbnails := vsi_Thumbnails info\<rparr>)\<rparr>)\<rparr>"
    have st: "Video_Statistics (heap_Video w1 q) = Video_Statistics (heap_Video w q)"
      and ident: "Video_Id (heap_Video w1 q) = Video_Id (heap_Video w q)"
      and sn: "Video_Snippet (heap_Video w q) \<noteq> None \<Longrightarrow> Video_Snippet (heap_Video w1 q) \<noteq> None"
      for q
      by (simp_all add: w1_def)
    have "\<exists>res w'. FindTags_filter vidIds rest (acc @ [item]) w1 = Ret (Inr res) w'"
    proof (rule Cons.IH)
      show "\<forall>item\<in>set rest. \<exists>p st. item = Some p \<and> Video_Statistics (heap_Video w1 p) = Some st \<and>
          (ViewCount st = '''' \<or> (\<exists>n. Atoi (ViewCount st) = Inr n))"
        using Cons.prems(1) by (simp add: st)
      show "\<forall>p. Some p \<in> set rest \<longrightarrow> vidIds (Video_Id (heap_Video w1 p)) \<noteq> None \<longrightarrow>
          Video_Snippet (heap_Video w1 p) \<noteq> None"
        using Cons.prems(2) sn by (simp add: ident)
    qed
    with merge(8) show ?thesis
      by (simp add: w1_def)
  qed
qed


section \<open>The loop of processVideoItems on the heap\<close>

lemma set_Thumbnails_twice [simp]:
  "set_Thumbnails thumbnails (set_Thumbnails thumbnails v) = set_Thumbnails thumbnails v"
  by (cases "Video_Snippet v") (auto simp: set_Thumbnails_def split: option.splits)

lemma set_Thumbnails_absent:
  "thumbnails (Video_Id v) = None \<Longrightarrow> set_Thumbnails thumbnails v = v"
  by (simp add: set_Thumbnails_def)

lemma set_Thumbnails_indexed:
  "thumbnails (Video_Id v) = Some thumbs \<Longrightarrow> Video_Snippet v = Some sn \<Longrightarrow>
   set_Thumbnails thumbnails v = v\<lparr>Video_Snippet := Some (sn\<lparr>Thumbnails := thumbs\<rparr>)\<rparr>"
  by (simp add: set_Thumbnails_def)

lemma processVideoItems_loop_effect:
  "processVideoItems_loop items thumbnails w = Ret u w' \<Longrightarrow>
   (\<exists>h. w' = w\<lparr>heap_Video := h\<rparr>) \<and>
   (\<forall>p. heap_Video w' p =
        (if Some p \<in> set items then set_Thumbnails thumbnails (heap_Video w p)
         else heap_Video w p))"
proof (induction items arbitrary: w)
  case Nil
  then have "w' = w"
    by simp
  then show ?case
    using heap_Video_same [of w] by simp
next
  case (Cons item rest)
  from Cons.prems obtain p where item: "item = Some p"
    by (cases item) simp_all
  show ?case
  proof (cases "thumbnails (Video_Id (heap_Video w p))")
    case None
    then have run: "processVideoItems_loop rest thumbnails w = Ret u w'"
      using Cons.prems item by simp
    have "set_Thumbnails thumbnails (heap_Video w p) = heap_Video w p"
      using None by (rule set_Thumbnails_absent)
    with Cons.IH [OF run] item show ?thesis
      by auto
  next
    case (Some thumbs)
    with Cons.prems item obtain sn where sn: "Video_Snippet (heap_Video w p) = Some sn"
      by (cases "Video_Snippet (heap_Video w p)") simp_all
    define t where "t = (heap_Video w p)\<lparr>Video_Snippet := Some (sn\<lparr>Thumbnails := thumbs\<rparr>)\<rparr>"
    define w1 where "w1 = w\<lparr>heap_Video := (heap_Video w)(p := t)\<rparr>"
    have run: "processVideoItems_loop rest thumbnails w1 = Ret u w'"
      using Cons.prems item Some sn by (simp add: w1_def t_def)
    have t: "set_Thumbnails thumbnails (heap_Video w p) = t"
      using Some sn by (simp add: set_Thumbnails_indexed t_def)
    then have tt: "set_Thumbnails thumbnails t = t"
      using set_Thumbnails_twice [of thumbnails "heap_Video w p"] by simp
    from Cons.IH [OF run] obtain h where h: "w' = w1\<lparr>heap_Video := h\<rparr>"
      and eff: "\<And>q. heap_Video w' q =
        (if Some q \<in> set rest then set_Thumbnails thumbnails (heap_Video w1 q)
         else heap_Video w1 q)"
      by blast
    have "\<exists>h. w' = w\<lparr>heap_Video := h\<rparr>"
      using h by (auto simp: w1_def)
    moreover have "heap_Video w' q =
        (if Some q \<in> set (item # rest) then set_Thumbnails thumbnails (heap_Video w q)
         else heap_Video w q)" for q
      using eff [of q] item t tt by (cases "q = p") (auto simp: w1_def)
    ultimately show ?thesis
      by blast
  qed
qed

lemma processVideoItems_loop_returns:
  "\<forall>item\<in>set items. \<exists>p. item = Some p \<and>
      (thumbnails (Video_Id (heap_Video w p)) \<noteq> None \<longrightarrow> Video_Snippet (heap_Video w p) \<noteq> None) \<Longrightarrow>
   \<exists>w'. processVideoItems_loop items thumbnails w = Ret () w'"
proof (induction items arbitrary: w)
  case Nil
  then show ?case by simp
next
  case (Cons item rest)
  from Cons.prems obtain p where item: "item = Some p"
    and snip: "thumbnails (Video_Id (heap_Video w p)) \<noteq> None \<longrightarrow>
               Video_Snippet (heap_Video w p) \<noteq> None"
    by auto
  show ?case
  proof (cases "thumbnails (Video_Id (heap_Video w p))")
    case None
    then show ?thesis
      using Cons.IH [of w] Cons.prems item by simp
  next
    case (Some thumbs)
    with snip obtain sn where sn: "Video_Snippet (heap_Video w p) = Some sn"
      by auto
    define w1 where "w1 = w\<lparr>heap_Video := (heap_Video w)
        (p := (heap_Video w p)\<lparr>Video_Snippet := Some (sn\<lparr>Thumbnails := thumbs\<rparr>)\<rparr>)\<rparr>"
    have ident: "Video_Id (heap_Video w1 q) = Video_Id (heap_Video w q)"
      and keep: "Video_Snippet (heap_Video w q) \<noteq> None \<Longrightarrow> Video_Snippet (heap_Video w1 q) \<noteq> None"
      for q
      by (simp_all add: w1_def)
    have "\<exists>w'. processVideoItems_loop rest thumbnails w1 = Ret () w'"
    proof (rule Cons.IH, rule ballI)
      fix item' assume "item' \<in> set rest"
      with Cons.prems obtain q where q: "item' = Some q"
        "thumbnails (Video_Id (heap_Video w q)) \<noteq> None \<longrightarrow> Video_Snippet (heap_Video w q) \<noteq> None"
        by auto
      then show "\<exists>p. item' = Some p \<and>
          (thumbnails (Video_Id (heap_Video w1 p)) \<noteq> None \<longrightarrow>
           Video_Snippet (heap_Video w1 p) \<noteq> None)"
        using keep [of q] by (simp add: ident)
    qed
    then show ?thesis
      using item Some sn by (simp add: w1_def)
  qed
qed

text \<open>A returning loop has found a snippet on every kept item whose id is a key of the
  index.\<close>

lemma FindTags_filter_snippets:
  "FindTags_filter vidIds items acc w = Ret (Inr res) w' \<Longrightarrow>
   \<forall>p. Some p \<in> set items \<longrightarrow>
       (\<exists>n. parsed_views (Some (heap_Video w p)) = Some n \<and> MinViews < n) \<longrightarrow>
       vidIds (Video_Id (heap_Video w p)) \<noteq> None \<longrightarrow> Video_Snippet (heap_Video w p) \<noteq> None"
proof (induction items arbitrary: acc w)
  case Nil
  then show ?case by simp
next
  case (Cons item rest)
  show ?case
  proof (cases rule: FindTags_filter_cases
      [where vidIds = vidIds and item = item and rest = rest and acc = acc and w = w])
    case nil
    with Cons.prems show ?thesis by simp
  next
    case (no_stats p)
    with Cons.prems show ?thesis by simp
  next
    case (no_snippet p st n)
    with Cons.prems show ?thesis by simp
  next
    case (err p st e)
    with Cons.prems show ?thesis by simp
  next
    case (empty p st)
    have "parsed_views (Some (heap_Video w p)) = None"
      using empty(2,3) by (auto intro: parsed_views_None)
    with empty Cons.prems Cons.IH [of acc w] show ?thesis
      by auto
  next
    case (low p st n)
    have "parsed_views (Some (heap_Video w p)) = Some n"
      using low(2,4) by (rule parsed_views_Some)
    with low Cons.prems Cons.IH [of acc w] show ?thesis
      by auto
  next
    case (plain p st n)
    with Cons.prems Cons.IH [of "acc @ [item]" w] show ?thesis
      by auto
  next
    case (merge p st n info sn)
    define w1 where "w1 = w\<lparr>heap_Video := (heap_Video w)
               (p := (heap_Video w p)\<lparr>Video_Snippet := Some (sn
                  \<lparr>ChannelId := vsi_ChannelId info, ChannelTitle := vsi_ChannelTitle info,
                   Thumbnails := vsi_Thumbnails info\<rparr>)\<rparr>)\<rparr>"
    have run: "FindTags_filter vidIds rest (acc @ [item]) w1 = Ret (Inr res) w'"
      using merge(8) Cons.prems by (simp add: w1_def)
    have views: "parsed_views (Some (heap_Video w1 q)) = parsed_views (Some (heap_Video w q))"
      and ident: "Video_Id (heap_Video w1 q) = Video_Id (heap_Video w q)"
      and orig: "Video_Snippet (heap_Video w1 q) \<noteq> None \<Longrightarrow> Video_Snippet (heap_Video w q) \<noteq> None"
      for q
      using merge(7) by (auto simp: w1_def split: if_splits)
    have "Video_Snippet (heap_Video w q) \<noteq> None"
      if "Some q \<in> set (item # rest)"
        "\<exists>n. parsed_views (Some (heap_Video w q)) = Some n \<and> MinViews < n"
        "vidIds (Video_Id (heap_Video w q)) \<noteq> None" for q
    proof (cases "q = p")
      case True
      then show ?thesis using merge(7) by simp
    next
      case False
      with that(1) merge(1) have "Some q \<in> set rest" by simp
      with Cons.IH [OF run] that(2,3) have "Video_Snippet (heap_Video w1 q) \<noteq> None"
        by (simp add: views ident)
      then show ?thesis by (rule orig)
    qed
    then show ?thesis
      by blast
  qed
qed


lemma processVideoItems_loop_snippets:
  "processVideoItems_loop items thumbnails w = Ret u w' \<Longrightarrow>
   \<forall>p. Some p \<in> set items \<longrightarrow> thumbnails (Video_Id (heap_Video w p)) \<noteq> None \<longrightarrow>
       Video_Snippet (heap_Video w p) \<noteq> None"
proof (induction items arbitrary: w)
  case Nil
  then show ?case by simp
next
  case (Cons item rest)
  from Cons.prems obtain p where item: "item = Some p"
    by (cases item) simp_all
  show ?case
  proof (cases "thumbnails (Video_Id (heap_Video w p))")
    case None
    then have run: "processVideoItems_loop rest thumbnails w = Ret u w'"
      using Cons.prems item by simp
    from Cons.IH [OF run] item None show ?thesis
      by auto
  next
    case (Some thumbs)
    with Cons.prems item obtain sn where sn: "Video_Snippet (heap_Video w p) = Some sn"
      by (cases "Video_Snippet (heap_Video w p)") simp_all
    define w1 where "w1 = w\<lparr>heap_Video := (heap_Video w)
        (p := (heap_Video w p)\<lparr>Video_Snippet := Some (sn\<lparr>Thumbnails := thumbs\<rparr>)\<rparr>)\<rparr>"
    have run: "processVideoItems_loop rest thumbnails w1 = Ret u w'"
      using Cons.prems item Some sn by (simp add: w1_def)
    have ident: "Video_Id (heap_Video w1 q) = Video_Id (heap_Video w q)"
      and orig: "Video_Snippet (heap_Video w1 q) \<noteq> None \<Longrightarrow> Video_Snippet (heap_Video w q) \<noteq> None"
      for q
      using sn by (auto simp: w1_def split: if_splits)
    have "Video_Snippet (heap_Video w q) \<noteq> None"
      if "Some q \<in> set (item # rest)" "thumbnails (Video_Id (heap_Video w q)) \<noteq> None" for q
    proof (cases "q = p")
      case True
      then show ?thesis using sn by simp
    next
      case False
      with that(1) item have "Some q \<in> set rest" by simp
      with Cons.IH [OF run] that(2) have "Video_Snippet (heap_Video w1 q) \<noteq> None"
        by (simp add: ident)
      then show ?thesis by (rule orig)
    qed
    then show ?thesis
      by blast
  qed
qed

section \<open>C8: the view filter\<close>

text \<open>
  Claim C8. When every item carries a view count that \<open>strconv.Atoi\<close> parses (and every item
  that the merge is to write carries a snippet block), the filter loop of \<open>FindTags\<close>, whose
  threshold \<open>MinViews\<close> is 1000, returns exactly the items whose parsed count exceeds 1000,
  in their original order, each with the search metadata merged in. The items are
  pointers: the loop returns the pointers of those items, the values they name afterwards
  are the specification's \<open>Merge\<close> of its \<open>Filter\<close> of the values they named before, and
  the loop changes nothing but the objects of the items it returns.
\<close>

theorem C8_filter_keeps_views_above_MinViews:
  assumes "\<forall>item\<in>set items. parsed_views (deref_Video w item) \<noteq> None"
    and "\<forall>p. Some p \<in> set items \<longrightarrow> vidIds (Video_Id (heap_Video w p)) \<noteq> None \<longrightarrow>
           Video_Snippet (heap_Video w p) \<noteq> None"
  shows "MinViews = 1000 \<and>
         (\<exists>w'. FindTags_filter vidIds items [] w =
                 Ret (Inr (filter (\<lambda>item. \<exists>n. parsed_views (deref_Video w item) = Some n \<and> n > 1000)
                             items)) w' \<and>
               map (deref_Video w')
                 (filter (\<lambda>item. \<exists>n. parsed_views (deref_Video w item) = Some n \<and> n > 1000) items) =
                 spec_Merge (spec_Filter (map (deref_Video w) items) 1000) vidIds \<and>
               w' = w\<lparr>heap_Video := heap_Video w'\<rparr> \<and>
               (\<forall>p. Some p \<notin> set (filter (\<lambda>item. \<exists>n. parsed_views (deref_Video w item) = Some n \<and>
                                              n > 1000) items) \<longrightarrow>
                    heap_Video w' p = heap_Video w p)) \<and>
         spec_Filter (map (deref_Video w) items) 1000 =
           filter (\<lambda>item. \<exists>n. parsed_views item = Some n \<and> n > 1000) (map (deref_Video w) items)"
proof -
  define K where "K = (\<lambda>item. \<exists>n. parsed_views (deref_Video w item) = Some n \<and> n > 1000)"
  have hyp: "\<forall>item\<in>set items. \<exists>p st. item = Some p \<and>
      Video_Statistics (heap_Video w p) = Some st \<and>
      (ViewCount st = '''' \<or> (\<exists>n. Atoi (ViewCount st) = Inr n))"
  proof
    fix item assume "item \<in> set items"
    with assms(1) obtain n where "parsed_views (deref_Video w item) = Some n"
      by auto
    from parsed_views_SomeD [OF this] obtain v st where
      "deref_Video w item = Some v" "Video_Statistics v = Some st" "Atoi (ViewCount st) = Inr n"
      by blast
    then show "\<exists>p st. item = Some p \<and> Video_Statistics (heap_Video w p) = Some st \<and>
        (ViewCount st = '''' \<or> (\<exists>n. Atoi (ViewCount st) = Inr n))"
      by (cases item) (auto simp: deref_Video_def)
  qed
  from FindTags_filter_returns [OF hyp assms(2), of "[]"]
  obtain res w' where run: "FindTags_filter vidIds items [] w = Ret (Inr res) w'"
    by blast
  from FindTags_filter_result [OF run] have res: "res = filter K items"
    and merged: "\<And>p. Some p \<in> set items \<Longrightarrow>
      \<exists>n. parsed_views (Some (heap_Video w p)) = Some n \<and> 1000 < n \<Longrightarrow>
      Some (heap_Video w' p) = spec_Merge_item vidIds (Some (heap_Video w p))"
    by (auto simp: K_def MinViews_def)
  have frame: "w' = w\<lparr>heap_Video := heap_Video w'\<rparr>"
    using run by (rule FindTags_filter_frame)
  have unchanged: "heap_Video w' p = heap_Video w p" if "Some p \<notin> set (filter K items)" for p
  proof -
    from FindTags_filter_effect [OF run]
    have "heap_Video w' p = heap_Video w p \<or>
        (Some p \<in> set items \<and> (\<exists>n. parsed_views (Some (heap_Video w p)) = Some n \<and> 1000 < n))"
      by (auto simp: MinViews_def)
    with that show ?thesis
      by (auto simp: K_def deref_Video_def)
  qed
  have third: "spec_Filter xs 1000 = filter (\<lambda>item. \<exists>n. parsed_views item = Some n \<and> n > 1000) xs"
    for xs
    unfolding spec_Filter_def by (rule filter_cong) (auto split: option.splits)
  have specF: "spec_Filter (map (deref_Video w) items) 1000 = map (deref_Video w) (filter K items)"
    unfolding third filter_map K_def by (simp add: comp_def)
  have vals: "map (deref_Video w') (filter K items) =
      spec_Merge (spec_Filter (map (deref_Video w) items) 1000) vidIds"
    unfolding specF spec_Merge_def map_map
  proof (rule map_cong [OF refl])
    fix item assume "item \<in> set (filter K items)"
    then have mem: "item \<in> set items" and K: "K item"
      by simp_all
    from K obtain p n where p: "item = Some p"
      "parsed_views (Some (heap_Video w p)) = Some n" "1000 < n"
      by (cases item) (auto simp: K_def deref_Video_def parsed_views_def)
    from merged [of p] mem p
    show "deref_Video w' item = (spec_Merge_item vidIds \<circ> deref_Video w) item"
      by (auto simp: deref_Video_def)
  qed
  have "MinViews = 1000"
    by (simp add: MinViews_def)
  moreover have "\<exists>w'. FindTags_filter vidIds items [] w = Ret (Inr (filter K items)) w' \<and>
      map (deref_Video w') (filter K items) =
        spec_Merge (spec_Filter (map (deref_Video w) items) 1000) vidIds \<and>
      w' = w\<lparr>heap_Video := heap_Video w'\<rparr> \<and>
      (\<forall>p. Some p \<notin> set (filter K items) \<longrightarrow> heap_Video w' p = heap_Video w p)"
    using run res vals frame unchanged by (intro exI [of _ w']) simp
  ultimately show ?thesis
    using third [of "map (deref_Video w) items"] unfolding K_def by (intro conjI)
qed

theorem C8_filter_keeps_views_above_MinViews_witness:
  "parsed_views (deref_Video
     (ex_world\<lparr>heap_Video := (heap_Video ex_world)
        (0 := ex_video ''a'' ''500'', 1 := ex_video ''b'' ''1500'', 2 := ex_video ''c'' ''2000''),
        count_Video := 3\<rparr>) (Some 0)) = Some 500 \<and>
   parsed_views (deref_Video
     (ex_world\<lparr>heap_Video := (heap_Video ex_world)
        (0 := ex_video ''a'' ''500'', 1 := ex_video ''b'' ''1500'', 2 := ex_video ''c'' ''2000''),
        count_Video := 3\<rparr>) (Some 1)) = Some 1500 \<and>
   parsed_views (deref_Video
     (ex_world\<lparr>heap_Video := (heap_Video ex_world)
        (0 := ex_video ''a'' ''500'', 1 := ex_video ''b'' ''1500'', 2 := ex_video ''c'' ''2000''),
        count_Video := 3\<rparr>) (Some 2)) = Some 2000 \<and>
   FindTags_filter [''c'' \<mapsto> ex_info] [Some 0, Some 1, Some 2] []
     (ex_world\<lparr>heap_Video := (heap_Video ex_world)
        (0 := ex_video ''a'' ''500'', 1 := ex_video ''b'' ''1500'', 2 := ex_video ''c'' ''2000''),
        count_Video := 3\<rparr>)
   = Ret (Inr [Some 1, Some 2])
       (ex_world\<lparr>heap_Video := (heap_Video ex_world)
          (0 := ex_video ''a'' ''500'', 1 := ex_video ''b'' ''1500'', 2 := ex_merged ''c'' ''2000''),
          count_Video := 3\<rparr>)"
proof -
  define W where "W = ex_world\<lparr>heap_Video := (heap_Video ex_world)
        (0 := ex_video ''a'' ''500'', 1 := ex_video ''b'' ''1500'', 2 := ex_video ''c'' ''2000''),
        count_Video := 3\<rparr>"
  have views: "parsed_views (deref_Video W (Some 0)) = Some 500"
    "parsed_views (deref_Video W (Some 1)) = Some 1500"
    "parsed_views (deref_Video W (Some 2)) = Some 2000"
    by (simp_all add: W_def deref_Video_def parsed_views_def ex_video_def Atoi_def digit_val_def)
  then have parse: "\<forall>item\<in>set [Some 0, Some 1, Some 2]. parsed_views (deref_Video W item) \<noteq> None"
    by simp
  have snip: "\<forall>p. Some p \<in> set [Some 0, Some 1, Some 2] \<longrightarrow>
      [''c'' \<mapsto> ex_info] (Video_Id (heap_Video W p)) \<noteq> None \<longrightarrow> Video_Snippet (heap_Video W p) \<noteq> None"
    by (auto simp: W_def ex_video_def)
  have kept: "filter (\<lambda>item. \<exists>n. parsed_views (deref_Video W item) = Some n \<and> n > 1000)
      [Some 0, Some 1, Some 2] = [Some 1, Some 2]"
    using views by simp
  from C8_filter_keeps_views_above_MinViews [OF parse snip]
  obtain w' where "FindTags_filter [''c'' \<mapsto> ex_info] [Some 0, Some 1, Some 2] [] W =
      Ret (Inr [Some 1, Some 2]) w'"
    unfolding kept by blast
  moreover have "FindTags_filter [''c'' \<mapsto> ex_info] [Some 0, Some 1, Some 2] [] W =
      Ret (Inr [Some 1, Some 2])
       (ex_world\<lparr>heap_Video := (heap_Video ex_world)
          (0 := ex_video ''a'' ''500'', 1 := ex_video ''b'' ''1500'', 2 := ex_merged ''c'' ''2000''),
          count_Video := 3\<rparr>)"
    by (simp add: W_def ex_defs Atoi_def digit_val_def MinViews_def)
  ultimately show ?thesis
    using views unfolding W_def by simp
qed

section \<open>C2: view counts that do not parse\<close>




section \<open>C7: merging the auxiliary metadata\<close>

text \<open>
  Claim C7, as amended. In \<open>FindTags\<close> the merge runs inside the filter loop and writes
  through the item pointers. Whenever the loop returns a list, for every item list: the
  list returned holds the pointers of the items that the view filter keeps; the object of
  a kept item whose id is a key of \<open>vidIds\<close> has the channel id, channel title and
  thumbnails of its entry and is otherwise as before; the object of a kept item whose id
  is no key is unchanged; and every other object is unchanged, so an item that the filter
  drops is neither returned nor merged. The loop does return a list when every item is
  there and carries statistics with a count that is empty or parses, and a snippet where
  one is written.

  \<open>processVideoItems\<close>, the merge of the playlist path, returns the pointer it was given;
  it overwrites only the thumbnails, in the objects of the items whose id is a key of its
  index, and leaves every other object unchanged. It returns when every item is there and
  carries a snippet where one is written.
\<close>

theorem C7_merge_overwrites_indexed_items:
  "(FindTags_filter vidIds items [] w = Ret (Inr res) w' \<longrightarrow>
      res = filter (\<lambda>item. \<exists>n. parsed_views (deref_Video w item) = Some n \<and> MinViews < n) items \<and>
      w' = w\<lparr>heap_Video := heap_Video w'\<rparr> \<and>
      (\<forall>p. Some p \<in> set res \<longrightarrow>
           (case vidIds (Video_Id (heap_Video w p)) of
              None \<Rightarrow> heap_Video w' p = heap_Video w p
            | Some info \<Rightarrow>
                \<exists>sn. Video_Snippet (heap_Video w p) = Some sn \<and>
                     heap_Video w' p = (heap_Video w p)\<lparr>Video_Snippet := Some (sn
                       \<lparr>ChannelId := vsi_ChannelId info, ChannelTitle := vsi_ChannelTitle info,
                        Thumbnails := vsi_Thumbnails info\<rparr>)\<rparr>)) \<and>
      (\<forall>p. Some p \<notin> set res \<longrightarrow> heap_Video w' p = heap_Video w p)) \<and>
   ((\<forall>item\<in>set items. \<exists>p st. item = Some p \<and> Video_Statistics (heap_Video w p) = Some st \<and>
        (ViewCount st = '''' \<or> (\<exists>n. Atoi (ViewCount st) = Inr n))) \<longrightarrow>
    (\<forall>p. Some p \<in> set items \<longrightarrow> vidIds (Video_Id (heap_Video w p)) \<noteq> None \<longrightarrow>
        Video_Snippet (heap_Video w p) \<noteq> None) \<longrightarrow>
    (\<exists>res w'. FindTags_filter vidIds items [] w = Ret (Inr res) w')) \<and>
   (processVideoItems (Some vr) thumbnails w = Ret r w'' \<longrightarrow>
      r = Some vr \<and> w'' = w\<lparr>heap_Video := heap_Video w''\<rparr> \<and>
      (\<forall>p. Some p \<in> set (Items (heap_VideoResults w vr)) \<longrightarrow>
           (case thumbnails (Video_Id (heap_Video w p)) of
              None \<Rightarrow> heap_Video w'' p = heap_Video w p
            | Some thumbs \<Rightarrow>
                \<exists>sn. Video_Snippet (heap_Video w p) = Some sn \<and>
                     heap_Video w'' p =
                       (heap_Video w p)\<lparr>Video_Snippet := Some (sn\<lparr>Thumbnails := thumbs\<rparr>)\<rparr>)) \<and>
      (\<forall>p. Some p \<notin> set (Items (heap_VideoResults w vr)) \<longrightarrow> heap_Video w'' p = heap_Video w p)) \<and>
   ((\<forall>item\<in>set (Items (heap_VideoResults w vr)). \<exists>p. item = Some p \<and>
        (thumbnails (Video_Id (heap_Video w p)) \<noteq> None \<longrightarrow> Video_Snippet (heap_Video w p) \<noteq> None)) \<longrightarrow>
    (\<exists>w''. processVideoItems (Some vr) thumbnails w = Ret (Some vr) w''))"
proof (intro conjI impI)
  assume run: "FindTags_filter vidIds items [] w = Ret (Inr res) w'"
  define K where "K = (\<lambda>item. \<exists>n. parsed_views (deref_Video w item) = Some n \<and> MinViews < n)"
  from FindTags_filter_result [OF run] have res: "res = filter K items"
    and merged: "\<And>p. Some p \<in> set items \<Longrightarrow>
      \<exists>n. parsed_views (Some (heap_Video w p)) = Some n \<and> MinViews < n \<Longrightarrow>
      Some (heap_Video w' p) = spec_Merge_item vidIds (Some (heap_Video w p))"
    by (auto simp: K_def)
  show "res = filter (\<lambda>item. \<exists>n. parsed_views (deref_Video w item) = Some n \<and> MinViews < n) items"
    using res by (simp add: K_def)
  show "w' = w\<lparr>heap_Video := heap_Video w'\<rparr>"
    using run by (rule FindTags_filter_frame)
  show "\<forall>p. Some p \<in> set res \<longrightarrow>
           (case vidIds (Video_Id (heap_Video w p)) of
              None \<Rightarrow> heap_Video w' p = heap_Video w p
            | Some info \<Rightarrow>
                \<exists>sn. Video_Snippet (heap_Video w p) = Some sn \<and>
                     heap_Video w' p = (heap_Video w p)\<lparr>Video_Snippet := Some (sn
                       \<lparr>ChannelId := vsi_ChannelId info, ChannelTitle := vsi_ChannelTitle info,
                        Thumbnails := vsi_Thumbnails info\<rparr>)\<rparr>)"
  proof (intro allI impI)
    fix p assume "Some p \<in> set res"
    then have mem: "Some p \<in> set items"
      and kept: "\<exists>n. parsed_views (Some (heap_Video w p)) = Some n \<and> MinViews < n"
      by (simp_all add: res K_def deref_Video_def)
    from merged [OF mem kept]
    have m: "Some (heap_Video w' p) = spec_Merge_item vidIds (Some (heap_Video w p))" .
    show "case vidIds (Video_Id (heap_Video w p)) of
              None \<Rightarrow> heap_Video w' p = heap_Video w p
            | Some info \<Rightarrow>
                \<exists>sn. Video_Snippet (heap_Video w p) = Some sn \<and>
                     heap_Video w' p = (heap_Video w p)\<lparr>Video_Snippet := Some (sn
                       \<lparr>ChannelId := vsi_ChannelId info, ChannelTitle := vsi_ChannelTitle info,
                        Thumbnails := vsi_Thumbnails info\<rparr>)\<rparr>"
    proof (cases "vidIds (Video_Id (heap_Video w p))")
      case None
      then show ?thesis
        using m by (simp add: spec_Merge_item_absent)
    next
      case (Some info)
      with FindTags_filter_snippets [OF run] mem kept
      obtain sn where "Video_Snippet (heap_Video w p) = Some sn"
        by auto
      then show ?thesis
        using m Some by (simp add: spec_Merge_item_indexed)
    qed
  qed
  show "\<forall>p. Some p \<notin> set res \<longrightarrow> heap_Video w' p = heap_Video w p"
  proof (intro allI impI)
    fix p assume out: "Some p \<notin> set res"
    from FindTags_filter_effect [OF run]
    have "heap_Video w' p = heap_Video w p \<or>
        (Some p \<in> set items \<and> (\<exists>n. parsed_views (Some (heap_Video w p)) = Some n \<and> MinViews < n))"
      by blast
    with out show "heap_Video w' p = heap_Video w p"
      by (auto simp: res K_def deref_Video_def)
  qed
next
  assume "\<forall>item\<in>set items. \<exists>p st. item = Some p \<and> Video_Statistics (heap_Video w p) = Some st \<and>
        (ViewCount st = '''' \<or> (\<exists>n. Atoi (ViewCount st) = Inr n))"
    and "\<forall>p. Some p \<in> set items \<longrightarrow> vidIds (Video_Id (heap_Video w p)) \<noteq> None \<longrightarrow>
        Video_Snippet (heap_Video w p) \<noteq> None"
  then show "\<exists>res w'. FindTags_filter vidIds items [] w = Ret (Inr res) w'"
    by (rule FindTags_filter_returns)
next
  assume run: "processVideoItems (Some vr) thumbnails w = Ret r w''"
  then obtain u where loop:
    "processVideoItems_loop (Items (heap_VideoResults w vr)) thumbnails w = Ret u w''"
    and r: "r = Some vr"
    by (auto simp: processVideoItems_def dest!: bind_RetD)
  from processVideoItems_loop_effect [OF loop] obtain h where h: "w'' = w\<lparr>heap_Video := h\<rparr>"
    and eff: "\<And>p. heap_Video w'' p =
        (if Some p \<in> set (Items (heap_VideoResults w vr))
         then set_Thumbnails thumbnails (heap_Video w p) else heap_Video w p)"
    by blast
  show "r = Some vr"
    by (rule r)
  show "w'' = w\<lparr>heap_Video := heap_Video w''\<rparr>"
    by (simp add: h)
  show "\<forall>p. Some p \<in> set (Items (heap_VideoResults w vr)) \<longrightarrow>
           (case thumbnails (Video_Id (heap_Video w p)) of
              None \<Rightarrow> heap_Video w'' p = heap_Video w p
            | Some thumbs \<Rightarrow>
                \<exists>sn. Video_Snippet (heap_Video w p) = Some sn \<and>
                     heap_Video w'' p =
                       (heap_Video w p)\<lparr>Video_Snippet := Some (sn\<lparr>Thumbnails := thumbs\<rparr>)\<rparr>)"
  proof (intro allI impI)
    fix p assume mem: "Some p \<in> set (Items (heap_VideoResults w vr))"
    then have m: "heap_Video w'' p = set_Thumbnails thumbnails (heap_Video w p)"
      by (simp add: eff)
    show "case thumbnails (Video_Id (heap_Video w p)) of
              None \<Rightarrow> heap_Video w'' p = heap_Video w p
            | Some thumbs \<Rightarrow>
                \<exists>sn. Video_Snippet (heap_Video w p) = Some sn \<and>
                     heap_Video w'' p =
                       (heap_Video w p)\<lparr>Video_Snippet := Some (sn\<lparr>Thumbnails := thumbs\<rparr>)\<rparr>"
    proof (cases "thumbnails (Video_Id (heap_Video w p))")
      case None
      then show ?thesis
        using m by (simp add: set_Thumbnails_absent)
    next
      case (Some thumbs)
      with processVideoItems_loop_snippets [OF loop] mem
      obtain sn where "Video_Snippet (heap_Video w p) = Some sn"
        by auto
      then show ?thesis
        using m Some by (simp add: set_Thumbnails_indexed)
    qed
  qed
  show "\<forall>p. Some p \<notin> set (Items (heap_VideoResults w vr)) \<longrightarrow> heap_Video w'' p = heap_Video w p"
    by (simp add: eff)
next
  assume "\<forall>item\<in>set (Items (heap_VideoResults w vr)). \<exists>p. item = Some p \<and>
        (thumbnails (Video_Id (heap_Video w p)) \<noteq> None \<longrightarrow> Video_Snippet (heap_Video w p) \<noteq> None)"
  from processVideoItems_loop_returns [OF this]
  show "\<exists>w''. processVideoItems (Some vr) thumbnails w = Ret (Some vr) w''"
    by (auto simp: processVideoItems_def)
qed

theorem C7_merge_overwrites_indexed_items_witness:
  "FindTags_filter [''b'' \<mapsto> ex_info, ''c'' \<mapsto> ex_info] [Some 0, Some 1, Some 2] []
     (ex_world\<lparr>heap_Video := (heap_Video ex_world)
        (0 := ex_video ''a'' ''1500'', 1 := ex_video ''b'' ''500'', 2 := ex_video ''c'' ''2000''),
        count_Video := 3,
        heap_VideoResults := (heap_VideoResults ex_world)
          (1 := \<lparr>Items = [Some 0, Some 1, Some 2], NextPageToken = ''''\<rparr>),
        count_VideoResults := 2\<rparr>)
   = Ret (Inr [Some 0, Some 2])
       (ex_world\<lparr>heap_Video := (heap_Video ex_world)
          (0 := ex_video ''a'' ''1500'', 1 := ex_video ''b'' ''500'', 2 := ex_merged ''c'' ''2000''),
          count_Video := 3,
          heap_VideoResults := (heap_VideoResults ex_world)
            (1 := \<lparr>Items = [Some 0, Some 1, Some 2], NextPageToken = ''''\<rparr>),
          count_VideoResults := 2\<rparr>) \<and>
   processVideoItems (Some 1) [''c'' \<mapsto> ex_thumbnails ''playlist.jpg'']
     (ex_world\<lparr>heap_Video := (heap_Video ex_world)
        (0 := ex_video ''a'' ''1500'', 1 := ex_video ''b'' ''500'', 2 := ex_video ''c'' ''2000''),
        count_Video := 3,
        heap_VideoResults := (heap_VideoResults ex_world)
          (1 := \<lparr>Items = [Some 0, Some 1, Some 2], NextPageToken = ''''\<rparr>),
        count_VideoResults := 2\<rparr>)
   = Ret (Some 1)
       (ex_world\<lparr>heap_Video := (heap_Video ex_world)
          (0 := ex_video ''a'' ''1500'', 1 := ex_video ''b'' ''500'',
           2 := ex_thumbed ''c'' ''2000'' ''playlist.jpg''),
          count_Video := 3,
          heap_VideoResults := (heap_VideoResults ex_world)
            (1 := \<lparr>Items = [Some 0, Some 1, Some 2], NextPageToken = ''''\<rparr>),
          count_VideoResults := 2\<rparr>)"
proof -
  define W where "W = ex_world\<lparr>heap_Video := (heap_Video ex_world)
        (0 := ex_video ''a'' ''1500'', 1 := ex_video ''b'' ''500'', 2 := ex_video ''c'' ''2000''),
        count_Video := 3,
        heap_VideoResults := (heap_VideoResults ex_world)
          (1 := \<lparr>Items = [Some 0, Some 1, Some 2], NextPageToken = ''''\<rparr>),
        count_VideoResults := 2\<rparr>"
  define vidIds where "vidIds = [''b'' \<mapsto> ex_info, ''c'' \<mapsto> ex_info]"
  define thumbnails where "thumbnails = [''c'' \<mapsto> ex_thumbnails ''playlist.jpg'']"
  define W1 where "W1 = W\<lparr>heap_Video := (heap_Video W)(2 := ex_merged ''c'' ''2000'')\<rparr>"
  define W2 where
    "W2 = W\<lparr>heap_Video := (heap_Video W)(2 := ex_thumbed ''c'' ''2000'' ''playlist.jpg'')\<rparr>"
  note c7 = C7_merge_overwrites_indexed_items
    [where vidIds = vidIds and items = "[Some 0, Some 1, Some 2]" and w = W
       and res = "[Some 0, Some 2]" and w' = W1 and vr = 1 and thumbnails = thumbnails
       and r = "Some 1" and w'' = W2]
  have items: "Items (heap_VideoResults W 1) = [Some 0, Some 1, Some 2]"
    by (simp add: W_def)
  have run1: "FindTags_filter vidIds [Some 0, Some 1, Some 2] [] W = Ret (Inr [Some 0, Some 2]) W1"
    by (simp add: vidIds_def W1_def W_def ex_defs Atoi_def digit_val_def MinViews_def)
  have run2: "processVideoItems (Some 1) thumbnails W = Ret (Some 1) W2"
    by (simp add: thumbnails_def W2_def W_def ex_defs processVideoItems_def)
  have ok1: "\<forall>item\<in>set [Some 0, Some 1, Some 2]. \<exists>p st. item = Some p \<and>
      Video_Statistics (heap_Video W p) = Some st \<and>
      (ViewCount st = '''' \<or> (\<exists>n. Atoi (ViewCount st) = Inr n))"
    by (simp add: W_def ex_video_def Atoi_def digit_val_def)
  have ok2: "\<forall>p. Some p \<in> set [Some 0, Some 1, Some 2] \<longrightarrow>
      vidIds (Video_Id (heap_Video W p)) \<noteq> None \<longrightarrow> Video_Snippet (heap_Video W p) \<noteq> None"
    by (auto simp: W_def ex_video_def)
  have ok3: "\<forall>item\<in>set (Items (heap_VideoResults W 1)). \<exists>p. item = Some p \<and>
      (thumbnails (Video_Id (heap_Video W p)) \<noteq> None \<longrightarrow> Video_Snippet (heap_Video W p) \<noteq> None)"
    unfolding items by (simp add: W_def ex_video_def)
  from c7 [THEN conjunct1, THEN mp, OF run1]
  have "heap_Video W1 1 = heap_Video W 1"
    by simp
  moreover from c7 [THEN conjunct2, THEN conjunct1, THEN mp, THEN mp, OF ok1 ok2]
  have "\<exists>res w'. FindTags_filter vidIds [Some 0, Some 1, Some 2] [] W = Ret (Inr res) w'" .
  moreover from c7 [THEN conjunct2, THEN conjunct2, THEN conjunct1, THEN mp, OF run2]
  have "heap_Video W2 0 = heap_Video W 0"
    unfolding items by (simp add: thumbnails_def W_def ex_video_def)
  moreover from c7 [THEN conjunct2, THEN conjunct2, THEN conjunct2, THEN mp, OF ok3]
  have "\<exists>w''. processVideoItems (Some 1) thumbnails W = Ret (Some 1) w''" .
  ultimately show ?thesis
    using run1 run2 unfolding vidIds_def thumbnails_def W1_def W2_def W_def by simp
qed

text \<open>
  Claim C7 as stated fails for the merge of the playlist path. \<open>processVideoItems\<close> takes
  an index of thumbnails only and leaves the channel title and channel id of an indexed
  item as they were: where the specification's \<open>Merge\<close> with the index entry \<open>ex_info\<close>
  gives the channel \<open>new\<close>, the object still has the channel \<open>old\<close>.
\<close>

theorem C7_merge_counterexample:
  "processVideoItems (Some 1) [''a'' \<mapsto> vsi_Thumbnails ex_info]
     (ex_world\<lparr>heap_Video := (heap_Video ex_world)(0 := ex_video ''a'' ''1500''),
        count_Video := 1,
        heap_VideoResults := (heap_VideoResults ex_world)
          (1 := \<lparr>Items = [Some 0], NextPageToken = ''''\<rparr>),
        count_VideoResults := 2\<rparr>)
   = Ret (Some 1)
       (ex_world\<lparr>heap_Video := (heap_Video ex_world)(0 := ex_thumbed ''a'' ''1500'' ''search.jpg''),
          count_Video := 1,
          heap_VideoResults := (heap_VideoResults ex_world)
            (1 := \<lparr>Items = [Some 0], NextPageToken = ''''\<rparr>),
          count_VideoResults := 2\<rparr>) \<and>
   spec_Merge [Some (ex_video ''a'' ''1500'')] [''a'' \<mapsto> ex_info] = [Some (ex_merged ''a'' ''1500'')] \<and>
   ex_thumbed ''a'' ''1500'' ''search.jpg'' \<noteq> ex_merged ''a'' ''1500'' \<and>
   map_option ChannelTitle (Video_Snippet (ex_thumbed ''a'' ''1500'' ''search.jpg'')) = Some ''old'' \<and>
   map_option ChannelTitle (Video_Snippet (ex_merged ''a'' ''1500'')) = Some ''new''"
  by (simp add: processVideoItems_def spec_Merge_def spec_Merge_item_def ex_defs)

section \<open>The cache as the service sees it\<close>

lemma cache_get_held:
  "Mutex (store w (Cache yt)) \<Longrightarrow>
   cache_get GetVideo yt k w = NoReturn \<and> cache_get GetChannel yt k w = NoReturn \<and>
   cache_get GetPlaylist yt k w = NoReturn \<and> cache_get GetVideoDetail yt k w = NoReturn"
  by (simp add: cache_get_def cache_ops_held)

lemma cache_get_free:
  assumes "\<not> Mutex (store w (Cache yt))"
  shows "cache_get GetVideo yt k w = Ret (map_index (videoCache (store w (Cache yt))) k) w"
    and "cache_get GetChannel yt k w = Ret (map_index (channelCache (store w (Cache yt))) k) w"
    and "cache_get GetPlaylist yt k w = Ret (map_index (playlistCache (store w (Cache yt))) k) w"
    and "cache_get GetVideoDetail yt k w =
           Ret (map_index (videoDetailsCache (store w (Cache yt))) k) w"
  using assms
  by (simp_all add: cache_get_def GetVideo_free GetChannel_free GetPlaylist_free
      GetVideoDetail_free)

lemma cache_get_RetD:
  "cache_get GetVideo yt k w = Ret v w' \<Longrightarrow>
     \<not> Mutex (store w (Cache yt)) \<and> w' = w \<and> v = map_index (videoCache (store w (Cache yt))) k"
  "cache_get GetChannel yt k w = Ret ch w' \<Longrightarrow>
     \<not> Mutex (store w (Cache yt)) \<and> w' = w \<and> ch = map_index (channelCache (store w (Cache yt))) k"
  "cache_get GetPlaylist yt k w = Ret v w' \<Longrightarrow>
     \<not> Mutex (store w (Cache yt)) \<and> w' = w \<and> v = map_index (playlistCache (store w (Cache yt))) k"
  "cache_get GetVideoDetail yt k w = Ret v w' \<Longrightarrow>
     \<not> Mutex (store w (Cache yt)) \<and> w' = w \<and>
     v = map_index (videoDetailsCache (store w (Cache yt))) k"
  by (cases "Mutex (store w (Cache yt))"; simp add: cache_get_held cache_get_free; blast)+

lemma cache_set_held:
  "Mutex (store w (Cache yt)) \<Longrightarrow>
   cache_set SetVideo yt k v w = NoReturn \<and> cache_set SetChannel yt k ch w = NoReturn \<and>
   cache_set SetPlaylist yt k v w = NoReturn \<and> cache_set SetVideoDetail yt k v w = NoReturn"
  by (simp add: cache_set_def cache_ops_held)

lemma cache_set_free:
  assumes "\<not> Mutex (store w (Cache yt))"
  shows "cache_set SetVideo yt k v w =
           Ret () (w\<lparr>store := (store w)(Cache yt := (store w (Cache yt))
              \<lparr>videoCache := (videoCache (store w (Cache yt)))(k \<mapsto> v)\<rparr>)\<rparr>)"
    and "cache_set SetChannel yt k ch w =
           Ret () (w\<lparr>store := (store w)(Cache yt := (store w (Cache yt))
              \<lparr>channelCache := (channelCache (store w (Cache yt)))(k \<mapsto> ch)\<rparr>)\<rparr>)"
    and "cache_set SetPlaylist yt k v w =
           Ret () (w\<lparr>store := (store w)(Cache yt := (store w (Cache yt))
              \<lparr>playlistCache := (playlistCache (store w (Cache yt)))(k \<mapsto> v)\<rparr>)\<rparr>)"
    and "cache_set SetVideoDetail yt k v w =
           Ret () (w\<lparr>store := (store w)(Cache yt := (store w (Cache yt))
              \<lparr>videoDetailsCache := (videoDetailsCache (store w (Cache yt)))(k \<mapsto> v)\<rparr>)\<rparr>)"
  using assms
  by (simp_all add: cache_set_def SetVideo_free SetChannel_free SetPlaylist_free
      SetVideoDetail_free)

lemma cache_set_RetD:
  "cache_set SetVideo yt k v w = Ret u w' \<Longrightarrow>
     \<not> Mutex (store w' (Cache yt)) \<and> map_index (videoCache (store w' (Cache yt))) k = v"
  "cache_set SetChannel yt k ch w = Ret u w' \<Longrightarrow>
     \<not> Mutex (store w' (Cache yt)) \<and> map_index (channelCache (store w' (Cache yt))) k = ch"
  "cache_set SetPlaylist yt k v w = Ret u w' \<Longrightarrow>
     \<not> Mutex (store w' (Cache yt)) \<and> map_index (playlistCache (store w' (Cache yt))) k = v"
  "cache_set SetVideoDetail yt k v w = Ret u w' \<Longrightarrow>
     \<not> Mutex (store w' (Cache yt)) \<and> map_index (videoDetailsCache (store w' (Cache yt))) k = v"
  by (cases "Mutex (store w (Cache yt))";
      auto simp: cache_set_held cache_set_free map_index_def)+

section \<open>Reasoning about the returning runs\<close>

lemma returns_simps [simp]:
  "returns NoReturn P" "returns Panic P" "returns (Ret a w) P = P a w"
  by (simp_all add: returns_def)

lemma returns_iff: "returns m P \<longleftrightarrow> (\<forall>a w. m = Ret a w \<longrightarrow> P a w)"
  by (cases m) simp_all

lemma returnsD: "returns m P \<Longrightarrow> m = Ret a w \<Longrightarrow> P a w"
  by (simp add: returns_iff)

lemma returns_bind: "returns m (\<lambda>a w. returns (f a w) P) \<Longrightarrow> returns (bind m f) P"
  by (cases m) simp_all

lemma returns_weaken: "returns m Q \<Longrightarrow> (\<And>a w. Q a w \<Longrightarrow> P a w) \<Longrightarrow> returns m P"
  by (cases m) simp_all

lemma returns_any: "(\<And>a w. P a w) \<Longrightarrow> returns m P"
  by (cases m) simp_all

lemma returns_cache_get:
  "(\<not> Mutex (store w (Cache yt)) \<Longrightarrow> P (map_index (videoCache (store w (Cache yt))) k) w) \<Longrightarrow>
   returns (cache_get GetVideo yt k w) P"
  "(\<not> Mutex (store w (Cache yt)) \<Longrightarrow> P' (map_index (channelCache (store w (Cache yt))) k) w) \<Longrightarrow>
   returns (cache_get GetChannel yt k w) P'"
  "(\<not> Mutex (store w (Cache yt)) \<Longrightarrow> P (map_index (playlistCache (store w (Cache yt))) k) w) \<Longrightarrow>
   returns (cache_get GetPlaylist yt k w) P"
  "(\<not> Mutex (store w (Cache yt)) \<Longrightarrow>
      P (map_index (videoDetailsCache (store w (Cache yt))) k) w) \<Longrightarrow>
   returns (cache_get GetVideoDetail yt k w) P"
  by (cases "Mutex (store w (Cache yt))"; simp add: cache_get_held cache_get_free)+

lemma returns_cache_set:
  "(\<not> Mutex (store w (Cache yt)) \<Longrightarrow>
      P () (w\<lparr>store := (store w)(Cache yt := (store w (Cache yt))
              \<lparr>videoCache := (videoCache (store w (Cache yt)))(k \<mapsto> v)\<rparr>)\<rparr>)) \<Longrightarrow>
   returns (cache_set SetVideo yt k v w) P"
  "(\<not> Mutex (store w (Cache yt)) \<Longrightarrow>
      P () (w\<lparr>store := (store w)(Cache yt := (store w (Cache yt))
              \<lparr>channelCache := (channelCache (store w (Cache yt)))(k \<mapsto> ch)\<rparr>)\<rparr>)) \<Longrightarrow>
   returns (cache_set SetChannel yt k ch w) P"
  "(\<not> Mutex (store w (Cache yt)) \<Longrightarrow>
      P () (w\<lparr>store := (store w)(Cache yt := (store w (Cache yt))
              \<lparr>playlistCache := (playlistCache (store w (Cache yt)))(k \<mapsto> v)\<rparr>)\<rparr>)) \<Longrightarrow>
   returns (cache_set SetPlaylist yt k v w) P"
  "(\<not> Mutex (store w (Cache yt)) \<Longrightarrow>
      P () (w\<lparr>store := (store w)(Cache yt := (store w (Cache yt))
              \<lparr>videoDetailsCache := (videoDetailsCache (store w (Cache yt)))(k \<mapsto> v)\<rparr>)\<rparr>)) \<Longrightarrow>
   returns (cache_set SetVideoDetail yt k v w) P"
  by (cases "Mutex (store w (Cache yt))"; simp add: cache_set_held cache_set_free)+

lemma returns_opaque:
  "(\<And>a w'. P1 a w') \<Longrightarrow> returns (GetVideos_batches gi env cap input items w) P1"
  "(\<And>a w'. P2 a w') \<Longrightarrow> returns (FindTags_pages env yt fSearch k i nextPage videos vidIds w) P2"
  "(\<And>a w'. P5 a w') \<Longrightarrow> returns (GetVideos_body gi env yt videoIds w) P5"
  "(\<And>a w'. P3 a w') \<Longrightarrow> returns (getChannelInfo gi env channelId w) P3"
  "(\<And>a w'. P4 a w') \<Longrightarrow> returns (getChannelPlaylist_body gi env yt playlistId numItems w) P4"
  "(\<And>a w'. P6 a w') \<Longrightarrow> returns (FindTags_filter index ptrs acc w) P6"
  "(\<And>a w'. P7 a w') \<Longrightarrow> returns (processVideoItems ptr thumbnails w) P7"
  by (rule returns_any, assumption)+

lemmas returns_rules = returns_bind returns_cache_get returns_cache_set returns_opaque

section \<open>C3: a second call is served from the cache\<close>

lemma GetVideos_body_hit:
  "\<not> Mutex (store w (Cache yt)) \<Longrightarrow>
   map_index (videoDetailsCache (store w (Cache yt))) (Join videoIds '','') = Some v \<Longrightarrow>
   GetVideos_body gi env yt videoIds w = Ret (Some v, None) w"
  by (simp add: GetVideos_body_def cache_get_free)

lemma GetVideos_body_cached:
  "returns (GetVideos_body gi env yt videoIds w)
     (\<lambda>(r, e) w'. \<forall>v. r = Some v \<and> e = None \<longrightarrow>
        \<not> Mutex (store w' (Cache yt)) \<and>
        map_index (videoDetailsCache (store w' (Cache yt))) (Join videoIds '','') = Some v)"
  unfolding GetVideos_body_def Let_def
  by (auto intro!: returns_rules split: option.split prod.split simp: map_index_def)

lemma FindTags_body_hit:
  "\<not> Mutex (store w (Cache yt)) \<Longrightarrow>
   map_index (videoCache (store w (Cache yt))) input = Some v \<Longrightarrow>
   FindTags_body gi env yt input numPages w = Ret (Some v, None) w"
  by (simp add: FindTags_body_def cache_get_free)

lemma FindTags_body_cached:
  "returns (FindTags_body gi env yt input numPages w)
     (\<lambda>(r, e) w'. \<forall>v. r = Some v \<and> e = None \<longrightarrow>
        \<not> Mutex (store w' (Cache yt)) \<and>
        map_index (videoCache (store w' (Cache yt))) input = Some v)"
  unfolding FindTags_body_def FindTags_finish_def Let_def
  by (auto intro!: returns_rules split: option.split prod.split sum.split simp: map_index_def)

lemma GetChannelInfo_body_hit:
  "\<not> Mutex (store w (Cache yt)) \<Longrightarrow>
   map_index (channelCache (store w (Cache yt))) channelId = Some ci \<Longrightarrow>
   GetChannelInfo_body gi env yt channelId w = Ret (Some ci, None) w"
  by (simp add: GetChannelInfo_body_def cache_get_free)

lemma GetChannelInfo_body_cached:
  "returns (GetChannelInfo_body gi env yt channelId w)
     (\<lambda>(r, e) w'. \<forall>ci. r = Some ci \<and> e = None \<longrightarrow>
        \<not> Mutex (store w' (Cache yt)) \<and>
        map_index (channelCache (store w' (Cache yt))) channelId = Some ci)"
  unfolding GetChannelInfo_body_def
  by (auto intro!: returns_rules split: option.split prod.split sum.split simp: map_index_def)

lemma GetChannelPlaylist_body_hit:
  "\<not> Mutex (store w (Cache yt)) \<Longrightarrow>
   map_index (playlistCache (store w (Cache yt))) (cacheKey item vidCount) = Some v \<Longrightarrow>
   GetChannelPlaylist_body gi env yt (Some item) vidCount w = Ret (Some v, None) w"
  by (simp add: GetChannelPlaylist_body_def cache_get_free)

lemma GetChannelPlaylist_body_cached:
  "returns (GetChannelPlaylist_body gi env yt (Some item) vidCount w)
     (\<lambda>(r, e) w'. \<forall>v. r = Some v \<and> e = None \<longrightarrow>
        \<not> Mutex (store w' (Cache yt)) \<and>
        map_index (playlistCache (store w' (Cache yt))) (cacheKey item vidCount) = Some v)"
  unfolding GetChannelPlaylist_body_def
  by (auto intro!: returns_rules split: option.split prod.split simp: map_index_def)

text \<open>
  Claim C3. Whenever a call of \<open>GetVideos\<close>, \<open>FindTags\<close>, \<open>SearchAndRetrieveTags\<close>,
  \<open>GetChannelInfo\<close> or \<open>GetChannelPlaylist\<close> on a service backed by a \<open>MemoryCache\<close> has
  returned a result \<open>v\<close> without error and left the state \<open>w'\<close>, a second call with the same
  cache key in \<open>w'\<close> returns exactly \<open>v\<close> and leaves \<open>w'\<close> as it is: the counter of upstream
  GETs does not move, and no object of the heap is written or allocated. (For the four
  operations that return a \<open>*VideoResults\<close>, \<open>v\<close> is the pointer: the second call returns
  the very pointer that the first call returned.) The second call may run against any
  upstream \<open>env'\<close> (one that is down, say), with no fuel for \<open>GetInstance\<close>, and for the
  search with another page count: it never gets that far.
\<close>

theorem C3_second_call_answered_from_cache:
  "(GetVideos n env yt videoIds w = Ret (Some v, None) w' \<longrightarrow>
      GetVideos m env' yt videoIds w' = Ret (Some v, None) w') \<and>
   (FindTags n env yt input numPages w = Ret (Some v, None) w' \<longrightarrow>
      FindTags m env' yt input numPages' w' = Ret (Some v, None) w') \<and>
   (SearchAndRetrieveTags n env yt input pages w = Ret (Some v, None) w' \<longrightarrow>
      SearchAndRetrieveTags m env' yt input None w' = Ret (Some v, None) w' \<and>
      SearchAndRetrieveTags m env' yt input (Some (p # ps)) w' = Ret (Some v, None) w') \<and>
   (GetChannelInfo n env yt channelId w = Ret (Some ci, None) w' \<longrightarrow>
      GetChannelInfo m env' yt channelId w' = Ret (Some ci, None) w') \<and>
   (GetChannelPlaylist n env yt (Some item) vidCount w = Ret (Some v, None) w' \<longrightarrow>
      GetChannelPlaylist m env' yt (Some item) vidCount w' = Ret (Some v, None) w')"
proof (intro conjI impI)
  assume "GetVideos n env yt videoIds w = Ret (Some v, None) w'"
  then show "GetVideos m env' yt videoIds w' = Ret (Some v, None) w'"
    unfolding GetVideos_def
    using returnsD [OF GetVideos_body_cached] GetVideos_body_hit by fastforce
next
  assume "FindTags n env yt input numPages w = Ret (Some v, None) w'"
  then show "FindTags m env' yt input numPages' w' = Ret (Some v, None) w'"
    unfolding FindTags_def
    using returnsD [OF FindTags_body_cached] FindTags_body_hit by fastforce
next
  assume run: "SearchAndRetrieveTags n env yt input pages w = Ret (Some v, None) w'"
  then obtain numPages where
    "FindTags_body (GetInstance n env) env yt input numPages w = Ret (Some v, None) w'"
    unfolding SearchAndRetrieveTags_def SearchAndRetrieveTags_body_def
    by (auto split: option.splits list.splits)
  then have hit: "FindTags_body gi env' yt input numPages' w' = Ret (Some v, None) w'"
    for gi numPages'
    using returnsD [OF FindTags_body_cached] FindTags_body_hit by fastforce
  show "SearchAndRetrieveTags m env' yt input None w' = Ret (Some v, None) w'"
    "SearchAndRetrieveTags m env' yt input (Some (p # ps)) w' = Ret (Some v, None) w'"
    unfolding SearchAndRetrieveTags_def SearchAndRetrieveTags_body_def
    by (simp_all add: hit)
next
  assume "GetChannelInfo n env yt channelId w = Ret (Some ci, None) w'"
  then show "GetChannelInfo m env' yt channelId w' = Ret (Some ci, None) w'"
    unfolding GetChannelInfo_def
    using returnsD [OF GetChannelInfo_body_cached] GetChannelInfo_body_hit by fastforce
next
  assume "GetChannelPlaylist n env yt (Some item) vidCount w = Ret (Some v, None) w'"
  then show "GetChannelPlaylist m env' yt (Some item) vidCount w' = Ret (Some v, None) w'"
    unfolding GetChannelPlaylist_def
    using returnsD [OF GetChannelPlaylist_body_cached] GetChannelPlaylist_body_hit by fastforce
qed

theorem C3_second_call_answered_from_cache_witness:
  "(\<exists>v w'. GetVideos 1 ex_env ex_yt [''a''] ex_world = Ret (Some v, None) w' \<and> calls w' = 1 \<and>
      GetVideos 0 (ex_env\<lparr>http_Get := (\<lambda>n url. GetFailed (Upstream ''offline''))\<rparr>) ex_yt [''a''] w'
        = Ret (Some v, None) w') \<and>
   (\<exists>v w'. FindTags 1 ex_env ex_yt ''cats'' 2 ex_world = Ret (Some v, None) w' \<and> calls w' = 1 \<and>
      FindTags 0 (ex_env\<lparr>http_Get := (\<lambda>n url. GetFailed (Upstream ''offline''))\<rparr>) ex_yt ''cats'' 5 w'
        = Ret (Some v, None) w') \<and>
   (\<exists>v w'. SearchAndRetrieveTags 1 ex_env ex_yt ''cats'' (Some [2]) ex_world = Ret (Some v, None) w' \<and>
      calls w' = 1 \<and>
      SearchAndRetrieveTags 0 (ex_env\<lparr>http_Get := (\<lambda>n url. GetFailed (Upstream ''offline''))\<rparr>)
        ex_yt ''cats'' (Some [5]) w' = Ret (Some v, None) w') \<and>
   (\<exists>ci w'. GetChannelInfo 1
        (ex_env\<lparr>Unmarshal_ChannelInfo :=
           (\<lambda>body. Inr \<lparr>ci_Items = [Some (ex_channel ''UC1'' None)], ci_NextPageToken = ''''\<rparr>)\<rparr>)
        ex_yt ''UC1'' ex_world = Ret (Some ci, None) w' \<and> calls w' = 1 \<and>
      GetChannelInfo 0 (ex_env\<lparr>http_Get := (\<lambda>n url. GetFailed (Upstream ''offline''))\<rparr>) ex_yt ''UC1'' w'
        = Ret (Some ci, None) w') \<and>
   (\<exists>v w'. GetChannelPlaylist 1 ex_env ex_yt
        (Some (ex_channel ''UC1''
           (Some \<lparr>RelatedPlaylists = Some \<lparr>Likes = ''LL1'', Uploads = ''UU1''\<rparr>\<rparr>))) 5 ex_world
        = Ret (Some v, None) w' \<and> calls w' = 1 \<and>
      GetChannelPlaylist 0 (ex_env\<lparr>http_Get := (\<lambda>n url. GetFailed (Upstream ''offline''))\<rparr>) ex_yt
        (Some (ex_channel ''UC1''
           (Some \<lparr>RelatedPlaylists = Some \<lparr>Likes = ''LL1'', Uploads = ''UU1''\<rparr>\<rparr>))) 5 w'
        = Ret (Some v, None) w')"
  (is "?G1 \<and> ?G2 \<and> ?G3 \<and> ?G4 \<and> ?G5")
proof -
  define off where "off = ex_env\<lparr>http_Get := (\<lambda>n url. GetFailed (Upstream ''offline''))\<rparr>"
  define none where "none = \<lparr>Items = [], NextPageToken = ''''\<rparr>"
  have g1: ?G1
  proof -
    define W where "W = ex_world\<lparr>store := (store ex_world)
             (Ref 0 := (store ex_world (Ref 0))\<lparr>videoDetailsCache := [''a'' \<mapsto> Some 1]\<rparr>),
             calls := 1,
             heap_VideoResults := (heap_VideoResults ex_world)(1 := none),
             count_VideoResults := 2\<rparr>"
    have first: "GetVideos 1 ex_env ex_yt [''a''] ex_world = Ret (Some 1, None) W"
      by (simp add: W_def none_def run_defs cache_defs ex_defs batchIteration_short)
    have second: "GetVideos 0 off ex_yt [''a''] W = Ret (Some 1, None) W"
      by (rule C3_second_call_answered_from_cache [THEN conjunct1, rule_format, OF first])
    have "calls W = 1"
      by (simp add: W_def)
    with first second show ?thesis
      unfolding off_def by blast
  qed
  have g2: ?G2
  proof -
    define W where "W = ex_world\<lparr>store := (store ex_world)
             (Ref 0 := (store ex_world (Ref 0))
                \<lparr>videoCache := [''alai'' \<mapsto> Some 0, ''cats'' \<mapsto> Some 1],
                 videoDetailsCache := ['''' \<mapsto> Some 1]\<rparr>),
             calls := 1,
             heap_VideoResults := (heap_VideoResults ex_world)(1 := none),
             count_VideoResults := 2\<rparr>"
    have first: "FindTags 1 ex_env ex_yt ''cats'' 2 ex_world = Ret (Some 1, None) W"
      by (simp add: W_def none_def run_defs cache_defs ex_defs batchIteration_Nil
          Replace_spaces_def SearchVideoIds_url_def pageToken_def numeral_2_eq_2)
    have second: "FindTags 0 off ex_yt ''cats'' 5 W = Ret (Some 1, None) W"
      by (rule C3_second_call_answered_from_cache
            [THEN conjunct2, THEN conjunct1, rule_format, OF first])
    have "calls W = 1"
      by (simp add: W_def)
    with first second show ?thesis
      unfolding off_def by blast
  qed
  have g3: ?G3
  proof -
    define W where "W = ex_world\<lparr>store := (store ex_world)
             (Ref 0 := (store ex_world (Ref 0))
                \<lparr>videoCache := [''alai'' \<mapsto> Some 0, ''cats'' \<mapsto> Some 1],
                 videoDetailsCache := ['''' \<mapsto> Some 1]\<rparr>),
             calls := 1,
             heap_VideoResults := (heap_VideoResults ex_world)(1 := none),
             count_VideoResults := 2\<rparr>"
    have first: "SearchAndRetrieveTags 1 ex_env ex_yt ''cats'' (Some [2]) ex_world
        = Ret (Some 1, None) W"
      by (simp add: W_def none_def run_defs cache_defs ex_defs batchIteration_Nil
          Replace_spaces_def SearchVideoIds_url_def pageToken_def numeral_2_eq_2)
    have second: "SearchAndRetrieveTags 0 off ex_yt ''cats'' (Some [5]) W = Ret (Some 1, None) W"
      by (rule C3_second_call_answered_from_cache
            [THEN conjunct2, THEN conjunct2, THEN conjunct1, rule_format, OF first,
             THEN conjunct2])
    have "calls W = 1"
      by (simp add: W_def)
    with first second show ?thesis
      unfolding off_def by blast
  qed
  have g4: ?G4
  proof -
    define info where
      "info = \<lparr>ci_Items = [Some (ex_channel ''UC1'' None)], ci_NextPageToken = ''''\<rparr>"
    define W where "W = ex_world\<lparr>store := (store ex_world)
             (Ref 0 := (store ex_world (Ref 0))\<lparr>channelCache := [''UC1'' \<mapsto> Some info]\<rparr>),
             calls := 1\<rparr>"
    have first: "GetChannelInfo 1 (ex_env\<lparr>Unmarshal_ChannelInfo := (\<lambda>body. Inr info)\<rparr>)
        ex_yt ''UC1'' ex_world = Ret (Some info, None) W"
      by (simp add: W_def info_def run_defs cache_defs ex_defs GetChannelVideos_url_def)
    have second: "GetChannelInfo 0 off ex_yt ''UC1'' W = Ret (Some info, None) W"
      by (rule C3_second_call_answered_from_cache
            [THEN conjunct2, THEN conjunct2, THEN conjunct2, THEN conjunct1, rule_format,
             OF first])
    have "calls W = 1"
      by (simp add: W_def)
    with first second show ?thesis
      unfolding off_def info_def by blast
  qed
  have g5: ?G5
  proof -
    define item where "item = ex_channel ''UC1''
           (Some \<lparr>RelatedPlaylists = Some \<lparr>Likes = ''LL1'', Uploads = ''UU1''\<rparr>\<rparr>)"
    define W where "W = ex_world\<lparr>store := (store ex_world)
             (Ref 0 := (store ex_world (Ref 0))
                \<lparr>playlistCache := [''UC1-5'' \<mapsto> Some 1],
                 videoDetailsCache := ['''' \<mapsto> Some 1]\<rparr>),
             calls := 1,
             heap_VideoResults := (heap_VideoResults ex_world)(1 := none),
             count_VideoResults := 2\<rparr>"
    have first: "GetChannelPlaylist 1 ex_env ex_yt (Some item) 5 ex_world = Ret (Some 1, None) W"
      by (simp add: W_def none_def item_def run_defs cache_defs ex_defs batchIteration_Nil
          GetChannelPlaylist_url_def pageToken_def)
    have second: "GetChannelPlaylist 0 off ex_yt (Some item) 5 W = Ret (Some 1, None) W"
      by (rule C3_second_call_answered_from_cache
            [THEN conjunct2, THEN conjunct2, THEN conjunct2, THEN conjunct2, rule_format,
             OF first])
    have "calls W = 1"
      by (simp add: W_def)
    with first second show ?thesis
      unfolding off_def item_def by blast
  qed
  from g1 g2 g3 g4 g5 show ?thesis
    by (intro conjI)
qed

section \<open>C9: the channel without an uploads playlist\<close>

text \<open>
  Claim C9, as amended. For a channel item whose content-details or related-playlists
  block is missing, on a free cache that holds no result under the item's key,
  \<open>GetChannelPlaylist\<close> stores nil under that key in the playlist partition and returns
  the error \<open>contentDetails or RelatedPlaylists are nil\<close>, without an upstream call. The
  stored nil reads back as a miss (\<open>GetPlaylist\<close> returns nil for it as for an absent
  key), so a second call with the same item is not answered from the cache: it takes the
  same failure path again, stores the nil again and returns the same error. Nor does the
  stored nil stop a call with the same key for an item that carries the block: that call
  is the playlist lookup \<open>getChannelPlaylist\<close> on the uploads playlist, followed by what
  \<open>GetChannelPlaylist\<close> does with its outcome.
\<close>

theorem C9_missing_uploads_stores_nil:
  assumes free: "\<not> Mutex (store w (Cache yt))"
    and miss: "map_index (playlistCache (store w (Cache yt))) (cacheKey item vidCount) = None"
    and missing: "Item_ContentDetails item = None \<or>
                  (\<exists>cd. Item_ContentDetails item = Some cd \<and> RelatedPlaylists cd = None)"
  defines "w' \<equiv> w\<lparr>store := (store w)(Cache yt := (store w (Cache yt))
              \<lparr>playlistCache := (playlistCache (store w (Cache yt)))
                 (cacheKey item vidCount \<mapsto> None)\<rparr>)\<rparr>"
  shows "GetChannelPlaylist n env yt (Some item) vidCount w =
           Ret (None, Some (ErrorsNew ''contentDetails or RelatedPlaylists are nil'')) w' \<and>
         playlistCache (store w' (Cache yt)) (cacheKey item vidCount) = Some None \<and>
         calls w' = calls w \<and>
         cache_get GetPlaylist yt (cacheKey item vidCount) w' = Ret None w' \<and>
         GetChannelPlaylist m env' yt (Some item) vidCount w' =
           Ret (None, Some (ErrorsNew ''contentDetails or RelatedPlaylists are nil'')) w' \<and>
         (Item_Id item' = Item_Id item \<longrightarrow> Item_ContentDetails item' = Some cd' \<longrightarrow>
          RelatedPlaylists cd' = Some rp \<longrightarrow>
            cacheKey item' vidCount = cacheKey item vidCount \<and>
            GetChannelPlaylist m env' yt (Some item') vidCount w' =
              bind (getChannelPlaylist_body (GetInstance m env') env' yt (Uploads rp) vidCount w')
                (\<lambda>(results, err) w2.
                   (case err of
                      Some e \<Rightarrow> Ret (None, Some (ErrorsNew ''internal server error'')) w2
                    | None \<Rightarrow>
                        (case results of
                           None \<Rightarrow> Ret (None, Some (ErrorsNew ''no results found'')) w2
                         | Some res \<Rightarrow>
                             bind (cache_set SetPlaylist yt (cacheKey item' vidCount) (Some res) w2)
                               (\<lambda>_ w3. Ret (Some res, None) w3)))))"
proof -
  have block: "(case Item_ContentDetails item of None \<Rightarrow> None | Some cd \<Rightarrow> RelatedPlaylists cd)
      = None"
    using missing by auto
  have free': "\<not> Mutex (store w' (Cache yt))"
    using free by (simp add: w'_def)
  have miss': "map_index (playlistCache (store w' (Cache yt))) (cacheKey item vidCount) = None"
    by (simp add: w'_def map_index_def)
  have again: "w'\<lparr>store := (store w')(Cache yt := (store w' (Cache yt))
              \<lparr>playlistCache := (playlistCache (store w' (Cache yt)))
                 (cacheKey item vidCount \<mapsto> None)\<rparr>)\<rparr> = w'"
    by (simp add: w'_def)
  have run: "GetChannelPlaylist_body gi env0 yt (Some item) vidCount w =
           Ret (None, Some (ErrorsNew ''contentDetails or RelatedPlaylists are nil'')) w'"
    for gi env0
    using free miss block
    by (simp add: GetChannelPlaylist_body_def cache_get_free cache_set_free w'_def)
  have rerun: "GetChannelPlaylist_body gi env0 yt (Some item) vidCount w' =
           Ret (None, Some (ErrorsNew ''contentDetails or RelatedPlaylists are nil'')) w'"
    for gi env0
    using free' miss' block again
    by (simp add: GetChannelPlaylist_body_def cache_get_free cache_set_free)
  have other: "cacheKey item' vidCount = cacheKey item vidCount \<and>
      GetChannelPlaylist m env' yt (Some item') vidCount w' =
      bind (getChannelPlaylist_body (GetInstance m env') env' yt (Uploads rp) vidCount w')
        (\<lambda>(results, err) w2.
           (case err of
              Some e \<Rightarrow> Ret (None, Some (ErrorsNew ''internal server error'')) w2
            | None \<Rightarrow>
                (case results of
                   None \<Rightarrow> Ret (None, Some (ErrorsNew ''no results found'')) w2
                 | Some res \<Rightarrow>
                     bind (cache_set SetPlaylist yt (cacheKey item' vidCount) (Some res) w2)
                       (\<lambda>_ w3. Ret (Some res, None) w3))))"
    if "Item_Id item' = Item_Id item" "Item_ContentDetails item' = Some cd'"
      "RelatedPlaylists cd' = Some rp"
  proof -
    define k where "k = cacheKey item vidCount"
    have k': "cacheKey item' vidCount = k"
      using that(1) unfolding k_def cacheKey_def
      by (rule arg_cong [where f = "\<lambda>x. x @ ''-'' @ Itoa vidCount"])
    have mk: "map_index (playlistCache (store w' (Cache yt))) k = None"
      using miss' by (simp add: k_def)
    have "cacheKey item' vidCount = cacheKey item vidCount"
      using k' by (simp add: k_def)
    moreover have "map_index (playlistCache (store w' (Cache yt))) (cacheKey item' vidCount) = None"
      using mk by (simp add: k')
    ultimately show ?thesis
      using free' that(2,3)
      by (simp add: GetChannelPlaylist_def GetChannelPlaylist_body_def cache_get_free)
  qed
  have "playlistCache (store w' (Cache yt)) (cacheKey item vidCount) = Some None"
    "calls w' = calls w"
    by (simp_all add: w'_def)
  moreover have "cache_get GetPlaylist yt (cacheKey item vidCount) w' = Ret None w'"
    using free' miss' by (simp add: cache_get_free)
  ultimately show ?thesis
    using run rerun other by (simp add: GetChannelPlaylist_def)
qed

theorem C9_missing_uploads_stores_nil_witness:
  "GetChannelPlaylist 1 ex_env ex_yt (Some (ex_channel ''UC1'' None)) 5 ex_world =
     Ret (None, Some (ErrorsNew ''contentDetails or RelatedPlaylists are nil''))
       (ex_world\<lparr>store := (store ex_world)
          (Ref 0 := (store ex_world (Ref 0))\<lparr>playlistCache := [''UC1-5'' \<mapsto> None]\<rparr>)\<rparr>) \<and>
   GetChannelPlaylist 1 (ex_env\<lparr>http_Get := (\<lambda>n url. GetFailed (Upstream ''offline''))\<rparr>) ex_yt
     (Some (ex_channel ''UC1'' None)) 5
     (ex_world\<lparr>store := (store ex_world)
        (Ref 0 := (store ex_world (Ref 0))\<lparr>playlistCache := [''UC1-5'' \<mapsto> None]\<rparr>)\<rparr>) =
     Ret (None, Some (ErrorsNew ''contentDetails or RelatedPlaylists are nil''))
       (ex_world\<lparr>store := (store ex_world)
          (Ref 0 := (store ex_world (Ref 0))\<lparr>playlistCache := [''UC1-5'' \<mapsto> None]\<rparr>)\<rparr>) \<and>
   GetChannelPlaylist 1 (ex_env\<lparr>http_Get := (\<lambda>n url. GetFailed (Upstream ''offline''))\<rparr>) ex_yt
     (Some (ex_channel ''UC1''
        (Some \<lparr>RelatedPlaylists = Some \<lparr>Likes = ''LL1'', Uploads = ''UU1''\<rparr>\<rparr>))) 5
     (ex_world\<lparr>store := (store ex_world)
        (Ref 0 := (store ex_world (Ref 0))\<lparr>playlistCache := [''UC1-5'' \<mapsto> None]\<rparr>)\<rparr>) =
     Ret (None, Some (ErrorsNew ''internal server error''))
       (ex_world\<lparr>store := (store ex_world)
          (Ref 0 := (store ex_world (Ref 0))\<lparr>playlistCache := [''UC1-5'' \<mapsto> None]\<rparr>),
          calls := 1\<rparr>)"
proof -
  define off where "off = ex_env\<lparr>http_Get := (\<lambda>n url. GetFailed (Upstream ''offline''))\<rparr>"
  define item' where "item' = ex_channel ''UC1''
        (Some \<lparr>RelatedPlaylists = Some \<lparr>Likes = ''LL1'', Uploads = ''UU1''\<rparr>\<rparr>)"
  define W' where "W' = ex_world\<lparr>store := (store ex_world)
        (Ref 0 := (store ex_world (Ref 0))\<lparr>playlistCache := [''UC1-5'' \<mapsto> None]\<rparr>)\<rparr>"
  have free: "\<not> Mutex (store ex_world (Cache ex_yt))"
    by (simp add: ex_defs)
  have miss: "map_index (playlistCache (store ex_world (Cache ex_yt)))
      (cacheKey (ex_channel ''UC1'' None) 5) = None"
    by (simp add: ex_defs map_index_def)
  have missing: "Item_ContentDetails (ex_channel ''UC1'' None) = None \<or>
      (\<exists>cd. Item_ContentDetails (ex_channel ''UC1'' None) = Some cd \<and> RelatedPlaylists cd = None)"
    by (simp add: ex_channel_def)
  have key: "cacheKey (ex_channel ''UC1'' None) 5 = ''UC1-5''"
    by (simp add: cacheKey_def ex_channel_def Itoa_def)
  have state: "ex_world\<lparr>store := (store ex_world)(Cache ex_yt := (store ex_world (Cache ex_yt))
      \<lparr>playlistCache := (playlistCache (store ex_world (Cache ex_yt)))
         (cacheKey (ex_channel ''UC1'' None) 5 \<mapsto> None)\<rparr>)\<rparr> = W'"
    unfolding key by (simp add: W'_def ex_defs)
  have same: "Item_Id item' = Item_Id (ex_channel ''UC1'' None)"
    and block: "Item_ContentDetails item' =
        Some \<lparr>RelatedPlaylists = Some \<lparr>Likes = ''LL1'', Uploads = ''UU1''\<rparr>\<rparr>"
      "RelatedPlaylists \<lparr>RelatedPlaylists = Some \<lparr>Likes = ''LL1'', Uploads = ''UU1''\<rparr>\<rparr> =
        Some \<lparr>Likes = ''LL1'', Uploads = ''UU1''\<rparr>"
    by (simp_all add: item'_def ex_channel_def)
  note c9 = C9_missing_uploads_stores_nil [OF free miss missing,
      where n = 1 and env = ex_env and m = 1 and env' = off and item' = item'
        and cd' = "\<lparr>RelatedPlaylists = Some \<lparr>Likes = ''LL1'', Uploads = ''UU1''\<rparr>\<rparr>"
        and rp = "\<lparr>Likes = ''LL1'', Uploads = ''UU1''\<rparr>", unfolded state]
  from c9 have first: "GetChannelPlaylist 1 ex_env ex_yt (Some (ex_channel ''UC1'' None)) 5 ex_world =
      Ret (None, Some (ErrorsNew ''contentDetails or RelatedPlaylists are nil'')) W'"
    by blast
  from c9 have second: "GetChannelPlaylist 1 off ex_yt (Some (ex_channel ''UC1'' None)) 5 W' =
      Ret (None, Some (ErrorsNew ''contentDetails or RelatedPlaylists are nil'')) W'"
    by blast
  from c9 same block have "GetChannelPlaylist 1 off ex_yt (Some item') 5 W' =
      bind (getChannelPlaylist_body (GetInstance 1 off) off ex_yt
              (Uploads \<lparr>Likes = ''LL1'', Uploads = ''UU1''\<rparr>) 5 W')
        (\<lambda>(results, err) w2.
           (case err of
              Some e \<Rightarrow> Ret (None, Some (ErrorsNew ''internal server error'')) w2
            | None \<Rightarrow>
                (case results of
                   None \<Rightarrow> Ret (None, Some (ErrorsNew ''no results found'')) w2
                 | Some res \<Rightarrow>
                     bind (cache_set SetPlaylist ex_yt (cacheKey item' 5) (Some res) w2)
                       (\<lambda>_ w3. Ret (Some res, None) w3))))"
    by blast
  also have "\<dots> = Ret (None, Some (ErrorsNew ''internal server error'')) (W'\<lparr>calls := 1\<rparr>)"
    by (simp add: off_def W'_def run_defs cache_defs ex_defs GetChannelPlaylist_url_def
        pageToken_def)
  finally have third: "GetChannelPlaylist 1 off ex_yt (Some item') 5 W' =
      Ret (None, Some (ErrorsNew ''internal server error'')) (W'\<lparr>calls := 1\<rparr>)" .
  from first second third show ?thesis
    unfolding off_def item'_def W'_def by simp
qed

text \<open>
  Claim C9 as stated fails in its second half. After the failing call has stored the nil,
  the cache reads as a miss under the key \<open>"UC1-5"\<close>, exactly as before the call, and a call
  with the same key whose item carries the uploads playlist is not answered from the
  cache: it goes upstream (one GET), allocates its result and returns it.
\<close>

theorem C9_marker_is_a_miss_counterexample:
  "GetChannelPlaylist 1 ex_env ex_yt (Some (ex_channel ''UC1'' None)) 5 ex_world =
     Ret (None, Some (ErrorsNew ''contentDetails or RelatedPlaylists are nil''))
       (ex_world\<lparr>store := (store ex_world)
          (Ref 0 := (store ex_world (Ref 0))\<lparr>playlistCache := [''UC1-5'' \<mapsto> None]\<rparr>)\<rparr>) \<and>
   cache_get GetPlaylist ex_yt ''UC1-5''
     (ex_world\<lparr>store := (store ex_world)
        (Ref 0 := (store ex_world (Ref 0))\<lparr>playlistCache := [''UC1-5'' \<mapsto> None]\<rparr>)\<rparr>) =
     Ret None
       (ex_world\<lparr>store := (store ex_world)
          (Ref 0 := (store ex_world (Ref 0))\<lparr>playlistCache := [''UC1-5'' \<mapsto> None]\<rparr>)\<rparr>) \<and>
   cache_get GetPlaylist ex_yt ''UC1-5'' ex_world = Ret None ex_world \<and>
   GetChannelPlaylist 1 ex_env ex_yt
     (Some (ex_channel ''UC1''
        (Some \<lparr>RelatedPlaylists = Some \<lparr>Likes = ''LL1'', Uploads = ''UU1''\<rparr>\<rparr>))) 5
     (ex_world\<lparr>store := (store ex_world)
        (Ref 0 := (store ex_world (Ref 0))\<lparr>playlistCache := [''UC1-5'' \<mapsto> None]\<rparr>)\<rparr>) =
     Ret (Some 1, None)
       (ex_world\<lparr>store := (store ex_world)
          (Ref 0 := (store ex_world (Ref 0))
             \<lparr>playlistCache := [''UC1-5'' \<mapsto> Some 1],
              videoDetailsCache := ['''' \<mapsto> Some 1]\<rparr>),
          calls := 1,
          heap_VideoResults := (heap_VideoResults ex_world)
            (1 := \<lparr>Items = [], NextPageToken = ''''\<rparr>),
          count_VideoResults := 2\<rparr>)"
  by (simp add: run_defs cache_defs ex_defs batchIteration_Nil GetChannelPlaylist_url_def
      pageToken_def)

section \<open>C5: the cache key of GetChannelPlaylist\<close>

text \<open>
  Claim C5, as amended. The cache key of \<open>GetChannelPlaylist\<close> is the id of the channel
  item, \<open>"-"\<close>, and the decimal count. The call reads the playlist partition under that key
  (a pointer stored there is returned at once, the state staying as it is), and a call
  that returns a result has stored the pointer it returns under that key.
\<close>

theorem C5_playlist_cache_key_is_channel_id_and_count:
  "cacheKey item vidCount = Item_Id item @ ''-'' @ Itoa vidCount \<and>
   (\<not> Mutex (store w (Cache yt)) \<longrightarrow>
    map_index (playlistCache (store w (Cache yt))) (cacheKey item vidCount) = Some v \<longrightarrow>
      GetChannelPlaylist n env yt (Some item) vidCount w = Ret (Some v, None) w) \<and>
   (GetChannelPlaylist n env yt (Some item) vidCount w = Ret (Some v, None) w' \<longrightarrow>
      map_index (playlistCache (store w' (Cache yt))) (cacheKey item vidCount) = Some v)"
proof (intro conjI impI)
  show "cacheKey item vidCount = Item_Id item @ ''-'' @ Itoa vidCount"
    by (simp add: cacheKey_def)
next
  assume "\<not> Mutex (store w (Cache yt))"
    "map_index (playlistCache (store w (Cache yt))) (cacheKey item vidCount) = Some v"
  then show "GetChannelPlaylist n env yt (Some item) vidCount w = Ret (Some v, None) w"
    unfolding GetChannelPlaylist_def by (rule GetChannelPlaylist_body_hit)
next
  assume "GetChannelPlaylist n env yt (Some item) vidCount w = Ret (Some v, None) w'"
  then show "map_index (playlistCache (store w' (Cache yt))) (cacheKey item vidCount) = Some v"
    unfolding GetChannelPlaylist_def
    using returnsD [OF GetChannelPlaylist_body_cached] by fastforce
qed

theorem C5_playlist_cache_key_is_channel_id_and_count_witness:
  "cacheKey (ex_channel ''UC1''
       (Some \<lparr>RelatedPlaylists = Some \<lparr>Likes = ''LL1'', Uploads = ''UU1''\<rparr>\<rparr>)) 5 = ''UC1-5'' \<and>
   GetChannelPlaylist 1 ex_env ex_yt
     (Some (ex_channel ''UC1''
        (Some \<lparr>RelatedPlaylists = Some \<lparr>Likes = ''LL1'', Uploads = ''UU1''\<rparr>\<rparr>))) 5 ex_world =
     Ret (Some 1, None)
       (ex_world\<lparr>store := (store ex_world)
          (Ref 0 := (store ex_world (Ref 0))
             \<lparr>playlistCache := [''UC1-5'' \<mapsto> Some 1],
              videoDetailsCache := ['''' \<mapsto> Some 1]\<rparr>),
          calls := 1,
          heap_VideoResults := (heap_VideoResults ex_world)
            (1 := \<lparr>Items = [], NextPageToken = ''''\<rparr>),
          count_VideoResults := 2\<rparr>) \<and>
   GetChannelPlaylist 1 ex_env ex_yt
     (Some (ex_channel ''UC1''
        (Some \<lparr>RelatedPlaylists = Some \<lparr>Likes = ''LL1'', Uploads = ''UU1''\<rparr>\<rparr>))) 5
     (ex_world\<lparr>store := (store ex_world)
        (Ref 0 := (store ex_world (Ref 0))
           \<lparr>playlistCache := [''UC1-5'' \<mapsto> Some 1],
            videoDetailsCache := ['''' \<mapsto> Some 1]\<rparr>),
        calls := 1,
        heap_VideoResults := (heap_VideoResults ex_world)
          (1 := \<lparr>Items = [], NextPageToken = ''''\<rparr>),
        count_VideoResults := 2\<rparr>) =
     Ret (Some 1, None)
       (ex_world\<lparr>store := (store ex_world)
          (Ref 0 := (store ex_world (Ref 0))
             \<lparr>playlistCache := [''UC1-5'' \<mapsto> Some 1],
              videoDetailsCache := ['''' \<mapsto> Some 1]\<rparr>),
          calls := 1,
          heap_VideoResults := (heap_VideoResults ex_world)
            (1 := \<lparr>Items = [], NextPageToken = ''''\<rparr>),
          count_VideoResults := 2\<rparr>)"
proof -
  define item where "item = ex_channel ''UC1''
       (Some \<lparr>RelatedPlaylists = Some \<lparr>Likes = ''LL1'', Uploads = ''UU1''\<rparr>\<rparr>)"
  define W where "W = ex_world\<lparr>store := (store ex_world)
          (Ref 0 := (store ex_world (Ref 0))
             \<lparr>playlistCache := [''UC1-5'' \<mapsto> Some 1],
              videoDetailsCache := ['''' \<mapsto> Some 1]\<rparr>),
          calls := 1,
          heap_VideoResults := (heap_VideoResults ex_world)
            (1 := \<lparr>Items = [], NextPageToken = ''''\<rparr>),
          count_VideoResults := 2\<rparr>"
  note c5 = C5_playlist_cache_key_is_channel_id_and_count
  have key: "cacheKey item 5 = ''UC1-5''"
    using c5 [where item = item and vidCount = 5, THEN conjunct1]
    by (simp add: item_def ex_channel_def Itoa_def)
  have first: "GetChannelPlaylist 1 ex_env ex_yt (Some item) 5 ex_world = Ret (Some 1, None) W"
    by (simp add: W_def item_def run_defs cache_defs ex_defs batchIteration_Nil
        GetChannelPlaylist_url_def pageToken_def)
  from c5 [where item = item and vidCount = 5 and w = ex_world and yt = ex_yt and v = 1
        and n = 1 and env = ex_env and w' = W, THEN conjunct2, THEN conjunct2, rule_format,
      OF first]
  have stored: "map_index (playlistCache (store W (Cache ex_yt))) (cacheKey item 5) = Some 1" .
  have free: "\<not> Mutex (store W (Cache ex_yt))"
    by (simp add: W_def ex_defs)
  from c5 [where item = item and vidCount = 5 and w = W and yt = ex_yt and v = 1
        and n = 1 and env = ex_env, THEN conjunct2, THEN conjunct1, rule_format,
      OF free stored]
  have second: "GetChannelPlaylist 1 ex_env ex_yt (Some item) 5 W = Ret (Some 1, None) W" .
  from key first second show ?thesis
    unfolding item_def W_def by simp
qed

text \<open>
  Claim C5 as stated fails: the key is built from the id of the channel item, not from its
  uploads-playlist id. For the channel \<open>UC1\<close> with uploads playlist \<open>UU1\<close>, a pointer that
  sits in the cache under \<open>"UU1-5"\<close> is not read: the call goes upstream, and writes its
  result under \<open>"UC1-5"\<close>.
\<close>

theorem C5_uploads_id_key_counterexample:
  "spec_cacheKey (ex_channel ''UC1''
       (Some \<lparr>RelatedPlaylists = Some \<lparr>Likes = ''LL1'', Uploads = ''UU1''\<rparr>\<rparr>)) 5 = Some ''UU1-5'' \<and>
   cacheKey (ex_channel ''UC1''
       (Some \<lparr>RelatedPlaylists = Some \<lparr>Likes = ''LL1'', Uploads = ''UU1''\<rparr>\<rparr>)) 5 = ''UC1-5'' \<and>
   GetChannelPlaylist 1 ex_env ex_yt
     (Some (ex_channel ''UC1''
        (Some \<lparr>RelatedPlaylists = Some \<lparr>Likes = ''LL1'', Uploads = ''UU1''\<rparr>\<rparr>))) 5
     (ex_world\<lparr>store := (store ex_world)
        (Ref 0 := (store ex_world (Ref 0))\<lparr>playlistCache := [''UU1-5'' \<mapsto> Some 0]\<rparr>)\<rparr>) =
     Ret (Some 1, None)
       (ex_world\<lparr>store := (store ex_world)
          (Ref 0 := (store ex_world (Ref 0))
             \<lparr>playlistCache := [''UU1-5'' \<mapsto> Some 0, ''UC1-5'' \<mapsto> Some 1],
              videoDetailsCache := ['''' \<mapsto> Some 1]\<rparr>),
          calls := 1,
          heap_VideoResults := (heap_VideoResults ex_world)
            (1 := \<lparr>Items = [], NextPageToken = ''''\<rparr>),
          count_VideoResults := 2\<rparr>)"
  by (simp add: spec_cacheKey_def run_defs cache_defs ex_defs batchIteration_Nil
      GetChannelPlaylist_url_def pageToken_def)

section \<open>C6: a failing page fetch\<close>

lemma batchIteration_two:
  assumes "50 < length input" "length input \<le> 100"
  shows "batchIteration input = [Join (take 50 input) '','', Join (drop 50 input) '','']"
proof -
  have 1: "batchIteration_loop input 0 [] =
      batchIteration_loop input 50 [Join (take 50 input) '','']"
    using assms by (subst batchIteration_loop.simps) (auto simp: Let_def)
  have 2: "batchIteration_loop input 50 xs =
      batchIteration_loop input 100 (xs @ [Join (drop 50 input) '',''])" for xs
    using assms by (subst batchIteration_loop.simps) (auto simp: Let_def)
  have 3: "batchIteration_loop input 100 xs = xs" for xs
    using assms by (subst batchIteration_loop.simps) simp
  show ?thesis
    unfolding batchIteration_def by (simp only: 1 2 3) simp
qed

text \<open>Once the instance exists and has the warm-up search in its cache, \<open>GetInstance()\<close>
  returns it and changes nothing.\<close>

lemma GetInstance_quiescent:
  "Instance w = Some yt \<Longrightarrow> \<not> Mutex (store w (Cache yt)) \<Longrightarrow>
   map_index (videoCache (store w (Cache yt))) ''alai'' \<noteq> None \<Longrightarrow>
   GetInstance (Suc n) env w = Ret yt w"
  by (auto simp: GetInstance_step_def SearchAndRetrieveTags_body_def FindTags_body_hit)

lemma FindTags_body_error_nil:
  "returns (FindTags_body gi env yt input numPages w) (\<lambda>(r, e) w'. e \<noteq> None \<longrightarrow> r = None)"
  unfolding FindTags_body_def FindTags_finish_def Let_def
  by (auto intro!: returns_rules split: option.split prod.split sum.split)

lemma GetChannelPlaylist_body_error_nil:
  "returns (GetChannelPlaylist_body gi env yt item_ptr vidCount w)
     (\<lambda>(r, e) w'. e \<noteq> None \<longrightarrow> r = None)"
  unfolding GetChannelPlaylist_body_def
  by (auto intro!: returns_rules split: option.split prod.split)

lemma GetVideos_body_error_partial:
  "returns (GetVideos_body gi env yt videoIds w)
     (\<lambda>(r, e) w'. e \<noteq> None \<longrightarrow>
        (\<exists>p items. r = Some p \<and> heap_VideoResults w' p = \<lparr>Items = items, NextPageToken = ''''\<rparr>))"
  unfolding GetVideos_body_def Let_def
  by (auto intro!: returns_rules split: option.split prod.split simp: new_VideoResults_def)

text \<open>
  Claim C6, as amended. A failing page fetch ends the page loop at once, with no further
  GET: the loops of \<open>FindTags\<close> and \<open>fetchPlaylistVideos\<close> return only the error of the
  fetch, whatever they had accumulated, and the loop of \<open>GetVideos\<close> returns the error
  (wrapped by \<open>httpGetRequest\<close> or \<open>unmarshalResponse\<close>) together with the items appended so
  far. \<open>GetVideos\<close> does not go on to the remaining batches; it returns, next to the error
  and without writing its cache, a pointer to a new \<open>VideoResults\<close> whose items are the
  ones accumulated up to the failure. \<open>FindTags\<close> hands on the error of its page loop, and
  the error of \<open>GetVideos\<close>, with a nil result; \<open>SearchAndRetrieveTags\<close> is \<open>FindTags\<close> with
  the page count clamped. \<open>GetChannelPlaylist\<close>, on a cache miss for a channel with an
  uploads playlist, answers an error of its playlist page loop and an error of \<open>GetVideos\<close>
  alike with a nil result and the new error \<open>internal server error\<close>. Whenever \<open>FindTags\<close>,
  \<open>SearchAndRetrieveTags\<close> or \<open>GetChannelPlaylist\<close> return an error, their result is nil;
  whenever \<open>GetVideos\<close> returns an error, its result is not nil.
\<close>

theorem C6_page_error_ends_the_call:
  "(http_request env (SearchVideoIds_url fSearch (apiKey yt) (pageToken i nextPage)) w = (reply, w1) \<longrightarrow>
      reply = GetFailed e \<or> reply = ReadFailed e \<or>
      (\<exists>body. reply = Body body \<and> Unmarshal_TagSearchResults env body = Inl e) \<longrightarrow>
      FindTags_pages env yt fSearch (Suc k) i nextPage videos vidIds w = Ret (Inl e) w1) \<and>
   (generatePageUrl gi playlistId nextPage i w = Ret pageUrl w1 \<longrightarrow>
      fetchVideoResultsFromAPI env pageUrl w1 = (Inl e, w2) \<longrightarrow>
      fetchPlaylistVideos_loop gi env playlistId (Suc k) i nextPage videos thumbnails w
        = Ret (Inl e) w2) \<and>
   (gi w = Ret inst w1 \<longrightarrow>
      httpGetRequest env (GetTags_url (apiKey inst) fSearch (pageToken i nextPage)) w1 = (fetched, w2) \<longrightarrow>
      fetched = Inl e \<or> (\<exists>body. fetched = Inr body \<and> unmarshalResponse env body w2 = (Inl e, w2)) \<longrightarrow>
      GetVideos_pages gi env fSearch (Suc k) i nextPage items w = Ret (items, Some e) w2) \<and>
   (GetVideos_pages gi env fSearch cap 0 '''' items w = Ret (items', Some e) w1 \<longrightarrow>
      GetVideos_batches gi env cap (fSearch # rest) items w = Ret (items', Some e) w1) \<and>
   (cache_get GetVideoDetail yt (Join videoIds '','') w = Ret None w1 \<longrightarrow>
      GetVideos_batches (GetInstance n env) env ((length (batchIteration videoIds) + 9) div 10)
        (batchIteration videoIds) [] w1 = Ret (items, Some e) w2 \<longrightarrow>
      GetVideos n env yt videoIds w =
        Ret (Some (count_VideoResults w2), Some e)
          (w2\<lparr>heap_VideoResults := (heap_VideoResults w2)
                 (count_VideoResults w2 := \<lparr>Items = items, NextPageToken = ''''\<rparr>),
               count_VideoResults := Suc (count_VideoResults w2)\<rparr>)) \<and>
   (cache_get GetVideo yt input w = Ret None w1 \<longrightarrow>
      FindTags_pages env yt (Replace_spaces input) (nat numPages) 0 '''' [] Map.empty w1
        = Ret (Inl e) w2 \<longrightarrow>
      FindTags n env yt input numPages w = Ret (None, Some e) w2) \<and>
   (cache_get GetVideo yt input w = Ret None w1 \<longrightarrow>
      FindTags_pages env yt (Replace_spaces input) (nat numPages) 0 '''' [] Map.empty w1
        = Ret (Inr (videos, vidIds)) w2 \<longrightarrow>
      GetVideos n env yt videos w2 = Ret (r, Some e) w3 \<longrightarrow>
      FindTags n env yt input numPages w = Ret (None, Some e) w3) \<and>
   SearchAndRetrieveTags n env yt input None w = FindTags n env yt input 1 w \<and>
   SearchAndRetrieveTags n env yt input (Some (pg # pgs)) w =
     FindTags n env yt input (if pg > 1 then (if pg \<ge> 5 then 5 else pg) else 1) w \<and>
   (cache_get GetPlaylist yt (cacheKey item vidCount) w = Ret None w1 \<longrightarrow>
      Item_ContentDetails item = Some cd \<longrightarrow> RelatedPlaylists cd = Some rp \<longrightarrow>
      fetchPlaylistVideos (GetInstance n env) env (Uploads rp) (calculateNumPages vidCount) w1
        = Ret (Inl e) w2 \<longrightarrow>
      GetChannelPlaylist n env yt (Some item) vidCount w =
        Ret (None, Some (ErrorsNew ''internal server error'')) w2) \<and>
   (cache_get GetPlaylist yt (cacheKey item vidCount) w = Ret None w1 \<longrightarrow>
      Item_ContentDetails item = Some cd \<longrightarrow> RelatedPlaylists cd = Some rp \<longrightarrow>
      fetchPlaylistVideos (GetInstance n env) env (Uploads rp) (calculateNumPages vidCount) w1
        = Ret (Inr (videos, thumbnails)) w2 \<longrightarrow>
      GetVideos n env yt videos w2 = Ret (r, Some e) w3 \<longrightarrow>
      GetChannelPlaylist n env yt (Some item) vidCount w =
        Ret (None, Some (ErrorsNew ''internal server error'')) w3) \<and>
   (FindTags n env yt input numPages w = Ret (r, Some e) w' \<longrightarrow> r = None) \<and>
   (SearchAndRetrieveTags n env yt input pages w = Ret (r, Some e) w' \<longrightarrow> r = None) \<and>
   (GetChannelPlaylist n env yt item_ptr vidCount w = Ret (r, Some e) w' \<longrightarrow> r = None) \<and>
   (GetVideos n env yt videoIds w = Ret (r, Some e) w' \<longrightarrow>
      (\<exists>p acc. r = Some p \<and> heap_VideoResults w' p = \<lparr>Items = acc, NextPageToken = ''''\<rparr>))"
proof (intro conjI impI)
  assume "http_request env (SearchVideoIds_url fSearch (apiKey yt) (pageToken i nextPage)) w
      = (reply, w1)"
    "reply = GetFailed e \<or> reply = ReadFailed e \<or>
      (\<exists>body. reply = Body body \<and> Unmarshal_TagSearchResults env body = Inl e)"
  then show "FindTags_pages env yt fSearch (Suc k) i nextPage videos vidIds w = Ret (Inl e) w1"
    by auto
next
  assume "generatePageUrl gi playlistId nextPage i w = Ret pageUrl w1"
    "fetchVideoResultsFromAPI env pageUrl w1 = (Inl e, w2)"
  then show "fetchPlaylistVideos_loop gi env playlistId (Suc k) i nextPage videos thumbnails w
        = Ret (Inl e) w2"
    by simp
next
  assume "gi w = Ret inst w1"
    "httpGetRequest env (GetTags_url (apiKey inst) fSearch (pageToken i nextPage)) w1 = (fetched, w2)"
    "fetched = Inl e \<or> (\<exists>body. fetched = Inr body \<and> unmarshalResponse env body w2 = (Inl e, w2))"
  then show "GetVideos_pages gi env fSearch (Suc k) i nextPage items w = Ret (items, Some e) w2"
    by auto
next
  assume "GetVideos_pages gi env fSearch cap 0 '''' items w = Ret (items', Some e) w1"
  then show "GetVideos_batches gi env cap (fSearch # rest) items w = Ret (items', Some e) w1"
    by simp
next
  assume "cache_get GetVideoDetail yt (Join videoIds '','') w = Ret None w1"
    "GetVideos_batches (GetInstance n env) env ((length (batchIteration videoIds) + 9) div 10)
        (batchIteration videoIds) [] w1 = Ret (items, Some e) w2"
  then show "GetVideos n env yt videoIds w =
        Ret (Some (count_VideoResults w2), Some e)
          (w2\<lparr>heap_VideoResults := (heap_VideoResults w2)
                 (count_VideoResults w2 := \<lparr>Items = items, NextPageToken = ''''\<rparr>),
               count_VideoResults := Suc (count_VideoResults w2)\<rparr>)"
    by (simp add: GetVideos_def GetVideos_body_def new_VideoResults_def Let_def)
next
  assume "cache_get GetVideo yt input w = Ret None w1"
    "FindTags_pages env yt (Replace_spaces input) (nat numPages) 0 '''' [] Map.empty w1
        = Ret (Inl e) w2"
  then show "FindTags n env yt input numPages w = Ret (None, Some e) w2"
    by (simp add: FindTags_def FindTags_body_def)
next
  assume "cache_get GetVideo yt input w = Ret None w1"
    "FindTags_pages env yt (Replace_spaces input) (nat numPages) 0 '''' [] Map.empty w1
        = Ret (Inr (videos, vidIds)) w2"
    "GetVideos n env yt videos w2 = Ret (r, Some e) w3"
  then show "FindTags n env yt input numPages w = Ret (None, Some e) w3"
    by (simp add: FindTags_def FindTags_body_def GetVideos_def)
next
  show "SearchAndRetrieveTags n env yt input None w = FindTags n env yt input 1 w"
    by (simp add: SearchAndRetrieveTags_def SearchAndRetrieveTags_body_def FindTags_def)
next
  show "SearchAndRetrieveTags n env yt input (Some (pg # pgs)) w =
     FindTags n env yt input (if pg > 1 then (if pg \<ge> 5 then 5 else pg) else 1) w"
    by (simp add: SearchAndRetrieveTags_def SearchAndRetrieveTags_body_def FindTags_def)
next
  assume "cache_get GetPlaylist yt (cacheKey item vidCount) w = Ret None w1"
    "Item_ContentDetails item = Some cd" "RelatedPlaylists cd = Some rp"
    "fetchPlaylistVideos (GetInstance n env) env (Uploads rp) (calculateNumPages vidCount) w1
        = Ret (Inl e) w2"
  then show "GetChannelPlaylist n env yt (Some item) vidCount w =
        Ret (None, Some (ErrorsNew ''internal server error'')) w2"
    by (simp add: GetChannelPlaylist_def GetChannelPlaylist_body_def getChannelPlaylist_body_def)
next
  assume "cache_get GetPlaylist yt (cacheKey item vidCount) w = Ret None w1"
    "Item_ContentDetails item = Some cd" "RelatedPlaylists cd = Some rp"
    "fetchPlaylistVideos (GetInstance n env) env (Uploads rp) (calculateNumPages vidCount) w1
        = Ret (Inr (videos, thumbnails)) w2"
    "GetVideos n env yt videos w2 = Ret (r, Some e) w3"
  then show "GetChannelPlaylist n env yt (Some item) vidCount w =
        Ret (None, Some (ErrorsNew ''internal server error'')) w3"
    by (simp add: GetChannelPlaylist_def GetChannelPlaylist_body_def getChannelPlaylist_body_def
        GetVideos_def)
next
  assume "FindTags n env yt input numPages w = Ret (r, Some e) w'"
  then show "r = None"
    unfolding FindTags_def using returnsD [OF FindTags_body_error_nil] by fastforce
next
  assume "SearchAndRetrieveTags n env yt input pages w = Ret (r, Some e) w'"
  then obtain numPages where
    "FindTags_body (GetInstance n env) env yt input numPages w = Ret (r, Some e) w'"
    unfolding SearchAndRetrieveTags_def SearchAndRetrieveTags_body_def
    by (auto split: option.splits list.splits)
  then show "r = None"
    using returnsD [OF FindTags_body_error_nil] by fastforce
next
  assume "GetChannelPlaylist n env yt item_ptr vidCount w = Ret (r, Some e) w'"
  then show "r = None"
    unfolding GetChannelPlaylist_def
    using returnsD [OF GetChannelPlaylist_body_error_nil] by fastforce
next
  assume "GetVideos n env yt videoIds w = Ret (r, Some e) w'"
  then show "\<exists>p acc. r = Some p \<and> heap_VideoResults w' p = \<lparr>Items = acc, NextPageToken = ''''\<rparr>"
    unfolding GetVideos_def
    using returnsD [OF GetVideos_body_error_partial] by fastforce
qed

theorem C6_page_error_ends_the_call_witness:
  "FindTags 1 (ex_env\<lparr>http_Get := (\<lambda>n url. GetFailed (Upstream ''timeout''))\<rparr>) ex_yt
     ''cats'' 3 ex_world
   = Ret (None, Some (Upstream ''timeout'')) (ex_world\<lparr>calls := 1\<rparr>) \<and>
   GetChannelPlaylist 1 (ex_env\<lparr>http_Get := (\<lambda>n url. GetFailed (Upstream ''timeout''))\<rparr>) ex_yt
     (Some (ex_channel ''UC1''
        (Some \<lparr>RelatedPlaylists = Some \<lparr>Likes = ''LL1'', Uploads = ''UU1''\<rparr>\<rparr>))) 5 ex_world
   = Ret (None, Some (ErrorsNew ''internal server error'')) (ex_world\<lparr>calls := 1\<rparr>) \<and>
   GetVideos 1 (ex_env\<lparr>http_Get := (\<lambda>n url. GetFailed (Upstream ''timeout''))\<rparr>) ex_yt [''a'']
     ex_world
   = Ret (Some 1, Some (Errorf ''failed HTTP request, error: '' (Upstream ''timeout'')))
       (ex_world\<lparr>calls := 1,
          heap_VideoResults := (heap_VideoResults ex_world)(1 := \<lparr>Items = [], NextPageToken = ''''\<rparr>),
          count_VideoResults := 2\<rparr>) \<and>
   FindTags 1
     (ex_env\<lparr>http_Get := (\<lambda>n url. if n = 0 then Body ''{}'' else GetFailed (Upstream ''timeout'')),
             Unmarshal_TagSearchResults :=
               (\<lambda>body. Inr \<lparr>ts_Items = [ex_search_item ''a''], ts_NextPageToken = ''''\<rparr>)\<rparr>)
     ex_yt ''cats'' 3 ex_world
   = Ret (None, Some (Errorf ''failed HTTP request, error: '' (Upstream ''timeout'')))
       (ex_world\<lparr>calls := 2,
          heap_VideoResults := (heap_VideoResults ex_world)(1 := \<lparr>Items = [], NextPageToken = ''''\<rparr>),
          count_VideoResults := 2\<rparr>) \<and>
   GetChannelPlaylist 1
     (ex_env\<lparr>http_Get := (\<lambda>n url. if n = 0 then Body ''{}'' else GetFailed (Upstream ''timeout'')),
             Unmarshal_ChannelPlaylistVideoResults :=
               (\<lambda>body. Inr \<lparr>pl_Items = [ex_playlist_item ''a''], pl_PageInfo_TotalResults = Some 1,
                             pl_NextPageToken = ''''\<rparr>)\<rparr>)
     ex_yt
     (Some (ex_channel ''UC1''
        (Some \<lparr>RelatedPlaylists = Some \<lparr>Likes = ''LL1'', Uploads = ''UU1''\<rparr>\<rparr>))) 5 ex_world
   = Ret (None, Some (ErrorsNew ''internal server error''))
       (ex_world\<lparr>calls := 2,
          heap_VideoResults := (heap_VideoResults ex_world)(1 := \<lparr>Items = [], NextPageToken = ''''\<rparr>),
          count_VideoResults := 2\<rparr>)"
proof -
  define down where "down = ex_env\<lparr>http_Get := (\<lambda>n url. GetFailed (Upstream ''timeout''))\<rparr>"
  define search where "search = ex_env
    \<lparr>http_Get := (\<lambda>n url. if n = 0 then Body ''{}'' else GetFailed (Upstream ''timeout'')),
     Unmarshal_TagSearchResults :=
       (\<lambda>body. Inr \<lparr>ts_Items = [ex_search_item ''a''], ts_NextPageToken = ''''\<rparr>)\<rparr>"
  define playlist where "playlist = ex_env
    \<lparr>http_Get := (\<lambda>n url. if n = 0 then Body ''{}'' else GetFailed (Upstream ''timeout'')),
     Unmarshal_ChannelPlaylistVideoResults :=
       (\<lambda>body. Inr \<lparr>pl_Items = [ex_playlist_item ''a''], pl_PageInfo_TotalResults = Some 1,
                     pl_NextPageToken = ''''\<rparr>)\<rparr>"
  define item where "item = ex_channel ''UC1''
        (Some \<lparr>RelatedPlaylists = Some \<lparr>Likes = ''LL1'', Uploads = ''UU1''\<rparr>\<rparr>)"
  define err where "err = Errorf ''failed HTTP request, error: '' (Upstream ''timeout'')"
  define W1 where "W1 = ex_world\<lparr>calls := 1\<rparr>"
  define W2 where "W2 = ex_world\<lparr>calls := 2\<rparr>"
  define H :: "world \<Rightarrow> world" where "H = (\<lambda>w. w\<lparr>heap_VideoResults := (heap_VideoResults w)
        (count_VideoResults w := \<lparr>Items = [], NextPageToken = ''''\<rparr>),
        count_VideoResults := Suc (count_VideoResults w)\<rparr>)"
  note c6 = C6_page_error_ends_the_call
  have gi: "GetInstance (Suc 0) env0 (ex_world\<lparr>calls := c\<rparr>) = Ret ex_yt (ex_world\<lparr>calls := c\<rparr>)"
    for env0 c
    by (rule GetInstance_quiescent) (simp_all add: ex_defs map_index_def)
  have gi0: "GetInstance (Suc 0) env0 ex_world = Ret ex_yt ex_world" for env0
    by (rule GetInstance_quiescent) (simp_all add: ex_defs map_index_def)
  have calls0: "calls ex_world = 0"
    by (simp add: ex_defs)
  have key: "apiKey ex_yt = ''KEY''"
    by (simp add: ex_defs)

  txt \<open>the page loop of FindTags, the upstream being down\<close>
  have miss_v: "cache_get GetVideo ex_yt ''cats'' ex_world = Ret None ex_world"
    by (simp add: cache_defs ex_defs)
  have req: "http_request down
      (SearchVideoIds_url (Replace_spaces ''cats'') (apiKey ex_yt) (pageToken 0 ''''))
      ex_world = (GetFailed (Upstream ''timeout''), W1)"
    by (simp add: down_def W1_def http_request_def calls0)
  from c6 [where env = down and fSearch = "Replace_spaces ''cats''" and yt = ex_yt and i = 0
        and nextPage = "[]" and w = ex_world and e = "Upstream ''timeout''"
        and k = 2 and videos = "[]" and vidIds = Map.empty,
      THEN conjunct1, THEN mp, THEN mp, OF req]
  have "FindTags_pages down ex_yt (Replace_spaces ''cats'') (Suc 2) 0 [] [] Map.empty ex_world
      = Ret (Inl (Upstream ''timeout'')) W1"
    by simp
  then have pages: "FindTags_pages down ex_yt (Replace_spaces ''cats'') (nat 3) 0 [] []
      Map.empty ex_world = Ret (Inl (Upstream ''timeout'')) W1"
    by (simp add: numeral_3_eq_3)
  from c6 [where n = "Suc 0" and env = down, THEN conjunct2, THEN conjunct2, THEN conjunct2,
      THEN conjunct2, THEN conjunct2, THEN conjunct1, rule_format, OF miss_v pages]
  have run1: "FindTags (Suc 0) down ex_yt ''cats'' 3 ex_world = Ret (None, Some (Upstream ''timeout'')) W1" .

  txt \<open>the page loop of fetchPlaylistVideos, the upstream being down\<close>
  have miss_p: "cache_get GetPlaylist ex_yt (cacheKey item 5) ex_world = Ret None ex_world"
    by (simp add: cache_defs ex_defs)
  have cd: "Item_ContentDetails item =
      Some \<lparr>RelatedPlaylists = Some \<lparr>Likes = ''LL1'', Uploads = ''UU1''\<rparr>\<rparr>"
    by (simp add: item_def ex_channel_def)
  have rp: "RelatedPlaylists \<lparr>RelatedPlaylists = Some \<lparr>Likes = ''LL1'', Uploads = ''UU1''\<rparr>\<rparr>
      = Some \<lparr>Likes = ''LL1'', Uploads = ''UU1''\<rparr>"
    by simp
  have np: "nat (calculateNumPages 5) = Suc 0"
    by (simp add: calculateNumPages_def signed_divide_int_def signed_modulo_int_def)
  have url: "generatePageUrl (GetInstance (Suc 0) env0) ''UU1'' [] 0 ex_world =
      Ret (GetChannelPlaylist_url ''UU1'' ''KEY'' []) ex_world" for env0
    using gi0 [of env0]
    by (simp add: generatePageUrl_def key pageToken_def del: GetInstance.simps)
  have fetch: "fetchVideoResultsFromAPI down (GetChannelPlaylist_url ''UU1'' ''KEY'' []) ex_world
      = (Inl (Upstream ''timeout''), W1)"
    by (simp add: fetchVideoResultsFromAPI_def http_request_def down_def W1_def calls0)
  from c6 [where gi = "GetInstance (Suc 0) down" and env = down and k = 0 and videos = "[]"
        and thumbnails = Map.empty,
      THEN conjunct2, THEN conjunct1, rule_format, OF url fetch]
  have "fetchPlaylistVideos_loop (GetInstance (Suc 0) down) down ''UU1'' (Suc 0) 0 [] [] Map.empty
      ex_world = Ret (Inl (Upstream ''timeout'')) W1" .
  then have fpv: "fetchPlaylistVideos (GetInstance (Suc 0) down) down
      (Uploads \<lparr>Likes = ''LL1'', Uploads = ''UU1''\<rparr>) (calculateNumPages 5) ex_world
      = Ret (Inl (Upstream ''timeout'')) W1"
    by (simp add: fetchPlaylistVideos_def np)
  from c6 [where n = "Suc 0" and env = down, THEN conjunct2, THEN conjunct2, THEN conjunct2,
      THEN conjunct2, THEN conjunct2, THEN conjunct2, THEN conjunct2, THEN conjunct2,
      THEN conjunct2, THEN conjunct1, rule_format, OF miss_p cd rp fpv]
  have run2: "GetChannelPlaylist (Suc 0) down ex_yt (Some item) 5 ex_world
      = Ret (None, Some (ErrorsNew ''internal server error'')) W1" .

  txt \<open>the page loop, the batch loop and the return of GetVideos, the upstream failing at
     the call number \<open>c\<close>\<close>
  have lookup: "GetVideos (Suc 0) env0 ex_yt [''a''] (ex_world\<lparr>calls := c\<rparr>)
      = Ret (Some 1, Some err) (H (ex_world\<lparr>calls := Suc c\<rparr>))"
    if fail: "http_Get env0 c = (\<lambda>url. GetFailed (Upstream ''timeout''))" for env0 c
  proof -
    let ?w = "ex_world\<lparr>calls := c\<rparr>" and ?w' = "ex_world\<lparr>calls := Suc c\<rparr>"
    have miss_d: "cache_get GetVideoDetail ex_yt (Join [''a''] '','') ?w = Ret None ?w"
      by (simp add: cache_defs ex_defs)
    have get: "httpGetRequest env0 (GetTags_url (apiKey ex_yt) ''a'' (pageToken 0 '''')) ?w
        = (Inl err, ?w')"
      by (simp add: httpGetRequest_def http_request_def fail err_def)
    from c6 [where gi = "GetInstance (Suc 0) env0" and env = env0 and k = 0 and items = "[]"
          and e = err,
        THEN conjunct2, THEN conjunct2, THEN conjunct1, THEN mp, THEN mp, THEN mp, OF gi get]
    have page: "GetVideos_pages (GetInstance (Suc 0) env0) env0 ''a'' (Suc 0) 0 [] [] ?w
        = Ret ([], Some err) ?w'"
      by simp
    from c6 [where gi = "GetInstance (Suc 0) env0" and env = env0 and rest = "[]",
        THEN conjunct2, THEN conjunct2, THEN conjunct2, THEN conjunct1, rule_format, OF page]
    have "GetVideos_batches (GetInstance (Suc 0) env0) env0 (Suc 0) [''a''] [] ?w
        = Ret ([], Some err) ?w'" .
    then have batches: "GetVideos_batches (GetInstance (Suc 0) env0) env0
        ((length (batchIteration [''a'']) + 9) div 10) (batchIteration [''a'']) [] ?w
        = Ret ([], Some err) ?w'"
      by (simp add: batchIteration_short)
    have count: "count_VideoResults ?w' = 1"
      by (simp add: ex_defs)
    from c6 [where n = "Suc 0" and env = env0, THEN conjunct2, THEN conjunct2, THEN conjunct2,
        THEN conjunct2, THEN conjunct1, rule_format, OF miss_d batches]
    show ?thesis
      by (simp add: H_def count)
  qed
  have run3: "GetVideos (Suc 0) down ex_yt [''a''] ex_world = Ret (Some 1, Some err) (H W1)"
    using lookup [of down 0] by (simp add: down_def W1_def ex_world_def)

  txt \<open>FindTags, the search page fetched and the lookup failing\<close>
  have pages_ok: "FindTags_pages search ex_yt (Replace_spaces ''cats'') (nat 3) 0 [] []
      Map.empty ex_world = Ret (Inr ([''a''], [''a'' \<mapsto> ex_info])) W1"
    by (simp add: search_def W1_def numeral_3_eq_3 http_request_def calls0 ex_env_def
        ex_search_item_def ex_info_def)
  have "GetVideos (Suc 0) search ex_yt [''a''] W1 = Ret (Some 1, Some err) (H W2)"
    unfolding W1_def W2_def using lookup [of search 1]
    by (simp add: search_def numeral_2_eq_2)
  from c6 [where n = "Suc 0" and env = search, THEN conjunct2, THEN conjunct2, THEN conjunct2,
      THEN conjunct2, THEN conjunct2, THEN conjunct2, THEN conjunct1, rule_format,
      OF miss_v pages_ok this]
  have run4: "FindTags (Suc 0) search ex_yt ''cats'' 3 ex_world = Ret (None, Some err) (H W2)" .

  txt \<open>GetChannelPlaylist, the playlist page fetched and the lookup failing\<close>
  have "fetchVideoResultsFromAPI playlist (GetChannelPlaylist_url ''UU1'' ''KEY'' []) ex_world
      = (Inr \<lparr>pl_Items = [ex_playlist_item ''a''], pl_PageInfo_TotalResults = Some 1,
               pl_NextPageToken = []\<rparr>, W1)"
    by (simp add: fetchVideoResultsFromAPI_def http_request_def calls0 playlist_def W1_def
        ex_env_def)
  then have "fetchPlaylistVideos_loop (GetInstance (Suc 0) playlist) playlist ''UU1'' (Suc 0) 0 []
      [] Map.empty ex_world
      = Ret (Inr ([''a''], [''a'' \<mapsto> ex_thumbnails ''playlist.jpg''])) W1"
    by (simp add: url ex_playlist_item_def del: GetInstance.simps)
  then have fpv_ok: "fetchPlaylistVideos (GetInstance (Suc 0) playlist) playlist
      (Uploads \<lparr>Likes = ''LL1'', Uploads = ''UU1''\<rparr>) (calculateNumPages 5) ex_world
      = Ret (Inr ([''a''], [''a'' \<mapsto> ex_thumbnails ''playlist.jpg''])) W1"
    by (simp add: fetchPlaylistVideos_def np)
  have "GetVideos (Suc 0) playlist ex_yt [''a''] W1 = Ret (Some 1, Some err) (H W2)"
    unfolding W1_def W2_def using lookup [of playlist 1]
    by (simp add: playlist_def numeral_2_eq_2)
  from c6 [where n = "Suc 0" and env = playlist, THEN conjunct2, THEN conjunct2, THEN conjunct2,
      THEN conjunct2, THEN conjunct2, THEN conjunct2, THEN conjunct2, THEN conjunct2,
      THEN conjunct2, THEN conjunct2, THEN conjunct1, rule_format,
      OF miss_p cd rp fpv_ok this]
  have run5: "GetChannelPlaylist (Suc 0) playlist ex_yt (Some item) 5 ex_world
      = Ret (None, Some (ErrorsNew ''internal server error'')) (H W2)" .

  have "count_VideoResults ex_world = 1"
    by (simp add: ex_defs)
  then have "H W1 = ex_world\<lparr>calls := 1,
          heap_VideoResults := (heap_VideoResults ex_world)(1 := \<lparr>Items = [], NextPageToken = ''''\<rparr>),
          count_VideoResults := 2\<rparr>"
    and "H W2 = ex_world\<lparr>calls := 2,
          heap_VideoResults := (heap_VideoResults ex_world)(1 := \<lparr>Items = [], NextPageToken = ''''\<rparr>),
          count_VideoResults := 2\<rparr>"
    by (simp_all add: H_def W1_def W2_def)
  with run1 run2 run3 run4 run5 show ?thesis
    unfolding down_def search_def playlist_def item_def err_def W1_def by simp
qed

text \<open>
  Claim C6 as stated fails for \<open>GetVideos\<close>, which returns \<open>&finalProduct\<close> next to its
  error. With 51 ids there are two batches; the page of the first batch carries one item
  and a continuation token, the fetch for the second batch fails: the caller receives the
  error and a pointer to a result that holds the item of the first batch.
\<close>

theorem C6_GetVideos_partial_result_counterexample:
  "GetVideos 1
     (ex_env\<lparr>http_Get := (\<lambda>n url. if n = 0 then Body ''{}'' else GetFailed (Upstream ''timeout'')),
             Unmarshal_VideoResults :=
               (\<lambda>body. Inr \<lparr>json_Items = [Some (ex_video ''a'' ''1500'')],
                             json_NextPageToken = ''T''\<rparr>)\<rparr>)
     ex_yt (replicate 51 ''a'') ex_world
   = Ret (Some 1, Some (Errorf ''failed HTTP request, error: '' (Upstream ''timeout'')))
       (ex_world\<lparr>calls := 2,
          heap_Video := (heap_Video ex_world)(0 := ex_video ''a'' ''1500''),
          count_Video := 1,
          heap_VideoResults := (heap_VideoResults ex_world)
            (1 := \<lparr>Items = [Some 0], NextPageToken = ''''\<rparr>),
          count_VideoResults := 2\<rparr>)"
proof -
  define env where "env = ex_env
    \<lparr>http_Get := (\<lambda>n url. if n = 0 then Body ''{}'' else GetFailed (Upstream ''timeout'')),
     Unmarshal_VideoResults :=
       (\<lambda>body. Inr \<lparr>json_Items = [Some (ex_video ''a'' ''1500'')],
                     json_NextPageToken = ''T''\<rparr>)\<rparr>"
  define err where "err = Errorf ''failed HTTP request, error: '' (Upstream ''timeout'')"
  define W1 where "W1 = ex_world\<lparr>calls := 1,
          heap_Video := (heap_Video ex_world)(0 := ex_video ''a'' ''1500''), count_Video := 1\<rparr>"
  define W2 where "W2 = ex_world\<lparr>calls := 2,
          heap_Video := (heap_Video ex_world)(0 := ex_video ''a'' ''1500''), count_Video := 1\<rparr>"
  have batches: "batchIteration (replicate 51 ''a'')
      = [Join (take 50 (replicate 51 ''a'')) '','', Join (drop 50 (replicate 51 ''a'')) '','']"
    by (rule batchIteration_two) simp_all
  have gi0: "GetInstance (Suc 0) env ex_world = Ret ex_yt ex_world"
    by (rule GetInstance_quiescent) (simp_all add: ex_defs map_index_def)
  have gi1: "GetInstance (Suc 0) env W1 = Ret ex_yt W1"
    by (rule GetInstance_quiescent) (simp_all add: W1_def ex_defs map_index_def)
  have miss: "cache_get GetVideoDetail ex_yt k ex_world = Ret None ex_world" for k
    by (simp add: cache_defs ex_defs)
  have page1: "GetVideos_pages (GetInstance (Suc 0) env) env b1 (Suc 0) 0 '''' [] ex_world
      = Ret ([Some 0], None) W1" for b1
    using gi0
    by (simp add: httpGetRequest_def http_request_def unmarshalResponse_def new_Video_def
        env_def W1_def ex_world_def ex_env_def del: GetInstance.simps)
  have page2: "GetVideos_pages (GetInstance (Suc 0) env) env b2 (Suc 0) 0 '''' [Some 0] W1
      = Ret ([Some 0], Some err) W2" for b2
    using gi1
    by (simp add: httpGetRequest_def http_request_def env_def err_def W1_def W2_def ex_env_def
        del: GetInstance.simps)
  have cnt: "count_VideoResults W2 = 1"
    by (simp add: W2_def ex_world_def)
  have "GetVideos (Suc 0) env ex_yt (replicate 51 ''a'') ex_world = Ret (Some 1, Some err)
      (W2\<lparr>heap_VideoResults := (heap_VideoResults W2)
            (1 := \<lparr>Items = [Some 0], NextPageToken = ''''\<rparr>),
          count_VideoResults := 2\<rparr>)"
    by (simp add: GetVideos_def GetVideos_body_def Let_def miss batches page1 page2
        new_VideoResults_def cnt del: GetInstance.simps GetVideos_pages.simps replicate.simps)
  then show ?thesis
    unfolding env_def err_def W2_def by simp
qed

end
